(* ===== verification/Prelude.thy ===== *)
theory Prelude
  imports Main "HOL-Library.Multiset" "HOL-Library.RBT"
begin

text \<open>
  Shared vocabulary of the development.  A pandas \<open>DataFrame\<close> or \<open>Series\<close> indexed
  by time is modelled as a list of rows in frame order, each row its index label (an
  instant) paired with its payload: a \<open>'v frame\<close>.  Instants are Python/pandas
  timestamps read as UTC seconds since the Unix epoch, so that the comparisons the code
  makes on a time index are comparisons of integers.  Lookup in a frame whose index may
  repeat a label is last-occurrence-wins (\<open>series_map\<close>), the reading pandas gives to
  \<open>duplicated(keep='last')\<close>.  The lemmas below are the generic facts on association
  lists that the component theories share.
\<close>

type_synonym instant = int
type_synonym 'v frame = "(instant \<times> 'v) list"

named_theorems frame_simps "characteristic equations of the frame operations"

abbreviation strictly_ascending :: "('k::linorder \<times> 'v) list \<Rightarrow> bool" where
  "strictly_ascending xs \<equiv> sorted_wrt (<) (map fst xs)"

abbreviation series_map :: "('k \<times> 'v) list \<Rightarrow> 'k \<rightharpoonup> 'v" where
  "series_map xs \<equiv> map_of (rev xs)"

definition seconds_per_day :: int where
  "seconds_per_day = 86400"

subsection \<open>Association lists with distinct keys\<close>

lemma map_of_filter_key:
  "map_of (filter (\<lambda>p. P (fst p)) xs) = map_of xs |` {k. P k}"
  by (induction xs) (auto simp: restrict_map_def fun_eq_iff)

lemma map_of_rev_filter_key:
  "series_map (filter (\<lambda>p. P (fst p)) xs) = series_map xs |` {k. P k}"
  by (simp add: rev_filter map_of_filter_key)

lemma map_of_distinct_mset:
  assumes "distinct (map fst xs)" and "mset ys = mset xs"
  shows "map_of ys = map_of xs"
proof -
  have "set ys = set xs" using assms(2) by (metis set_mset_mset)
  moreover have "distinct (map fst ys)"
    using assms by (metis mset_map mset_eq_imp_distinct_iff)
  ultimately show ?thesis using assms(1) by (simp add: map_of_inject_set)
qed

lemma frame_of_map_of:
  "distinct (map fst xs) \<Longrightarrow> map (\<lambda>p. (fst p, the (map_of xs (fst p)))) xs = xs"
  by (rule map_idI) (auto simp: map_of_is_SomeI)

lemma strictly_ascending_unique:
  assumes "strictly_ascending xs" and "strictly_ascending ys"
    and "map_of xs = map_of ys"
  shows "xs = ys"
proof -
  from assms(1,2) have dx: "distinct (map fst xs)" and dy: "distinct (map fst ys)"
    and sx: "sorted (map fst xs)" and sy: "sorted (map fst ys)"
    by (simp_all add: strict_sorted_iff)
  from assms(3) have "dom (map_of xs) = dom (map_of ys)" by simp
  then have "set (map fst xs) = set (map fst ys)" by (simp add: dom_map_of_conv_image_fst)
  with dx dy sx sy have keys: "map fst xs = map fst ys"
    by (blast intro: sorted_distinct_set_unique)
  have "xs = map (\<lambda>k. (k, the (map_of xs k))) (map fst xs)"
    using frame_of_map_of [OF dx] by (simp add: comp_def)
  also have "\<dots> = map (\<lambda>k. (k, the (map_of ys k))) (map fst ys)"
    by (simp add: keys assms(3))
  also have "\<dots> = ys" using frame_of_map_of [OF dy] by (simp add: comp_def)
  finally show ?thesis .
qed

lemma series_map_distinct:
  "distinct (map fst xs) \<Longrightarrow> series_map xs = map_of xs"
  by (rule map_of_distinct_mset) simp_all

lemma series_map_append [simp]:
  "series_map (xs @ ys) = series_map xs ++ series_map ys"
  by (simp add: map_of_append)

lemma map_of_map_key:
  "map_of (map (\<lambda>k. (k, f k)) ks) = (\<lambda>k. if k \<in> set ks then Some (f k) else None)"
  by (induction ks) (auto simp: fun_eq_iff)

lemma map_filter_keys_iff:
  "k \<in> set (List.map_filter f xs) \<longleftrightarrow> Some k \<in> f ` set xs"
  by (induction xs) (auto simp: map_filter_simps split: option.splits)

lemma strictly_ascending_filter:
  "strictly_ascending xs \<Longrightarrow> strictly_ascending (filter P xs)"
  by (induction xs) auto

end
