(* ===== verification/FrameOps.thy ===== *)
theory FrameOps
  imports Prelude
begin

text \<open>
  The pandas operations on a time-indexed frame that \<^verbatim>\<open>src/daily_data_lux.py\<close>
  (lines 52--60) composes into its merge: boolean-mask selection \<open>df.loc[mask]\<close>,
  the index extremes \<open>df.index.min()\<close> and \<open>df.index.max()\<close> (NaT, here \<open>None\<close>, on
  an empty frame), \<open>df.index.duplicated(keep='last')\<close> with the selection
  \<open>df[~dup]\<close>, and \<open>df.sort_index()\<close>.  Each is an executable function on
  \<open>'v frame\<close>; the lemmas give its behaviour on the index (the keys) and on the
  last-wins lookup \<open>series_map\<close>.
\<close>

definition mask_select :: "bool list \<Rightarrow> 'a list \<Rightarrow> 'a list" where
  "mask_select m xs = map snd (filter fst (zip m xs))"

definition index_min :: "'v frame \<Rightarrow> instant option" where
  "index_min df = (case map fst df of [] \<Rightarrow> None | t # ts \<Rightarrow> Some (fold min ts t))"

definition index_max :: "'v frame \<Rightarrow> instant option" where
  "index_max df = (case map fst df of [] \<Rightarrow> None | t # ts \<Rightarrow> Some (fold max ts t))"

fun duplicated_keep_last :: "instant list \<Rightarrow> bool list" where
  "duplicated_keep_last [] = []"
| "duplicated_keep_last (t # ts) = (t \<in> set ts) # duplicated_keep_last ts"

definition drop_duplicates_keep_last :: "'v frame \<Rightarrow> 'v frame" where
  "drop_duplicates_keep_last df =
     mask_select (map Not (duplicated_keep_last (map fst df))) df"

definition sort_index :: "'v frame \<Rightarrow> 'v frame" where
  "sort_index df = sort_key fst df"

subsection \<open>Mask selection\<close>

lemma mask_select_Nil [simp]:
  "mask_select [] xs = []" "mask_select bs [] = []"
  by (simp_all add: mask_select_def)

lemma mask_select_Cons [simp]:
  "mask_select (b # bs) (x # xs) = (if b then x # mask_select bs xs else mask_select bs xs)"
  by (simp add: mask_select_def)

lemma mask_select_map [simp]: "mask_select (map f xs) xs = filter f xs"
  by (induction xs) simp_all

subsection \<open>Index extremes\<close>

lemma index_min_Min [frame_simps]:
  "index_min df = (if df = [] then None else Some (Min (fst ` set df)))"
  by (cases df) (simp_all add: index_min_def Min.set_eq_fold [symmetric])

lemma index_max_Max [frame_simps]:
  "index_max df = (if df = [] then None else Some (Max (fst ` set df)))"
  by (cases df) (simp_all add: index_max_def Max.set_eq_fold [symmetric])

lemma index_min_le:
  assumes "index_min df = Some lo" and "t \<in> fst ` set df"
  shows "lo \<le> t"
proof -
  from assms(1) have "lo = Min (fst ` set df)" by (simp add: index_min_Min split: if_splits)
  with assms(2) show ?thesis by (simp add: Min_le)
qed

lemma index_max_ge:
  assumes "index_max df = Some hi" and "t \<in> fst ` set df"
  shows "t \<le> hi"
proof -
  from assms(1) have "hi = Max (fst ` set df)" by (simp add: index_max_Max split: if_splits)
  with assms(2) show ?thesis by (simp add: Max_ge)
qed

lemma index_min_max_None:
  "index_min df = None \<longleftrightarrow> df = []" "index_max df = None \<longleftrightarrow> df = []"
  by (simp_all add: index_min_Min index_max_Max)

subsection \<open>Dropping duplicated labels, keeping the last\<close>

lemma drop_duplicates_Nil [simp]: "drop_duplicates_keep_last [] = []"
  by (simp add: drop_duplicates_keep_last_def)

lemma drop_duplicates_Cons [frame_simps]:
  "drop_duplicates_keep_last (r # rs) =
     (if fst r \<in> fst ` set rs then drop_duplicates_keep_last rs
      else r # drop_duplicates_keep_last rs)"
  by (simp add: drop_duplicates_keep_last_def)

lemma drop_duplicates_keys [frame_simps]:
  "fst ` set (drop_duplicates_keep_last df) = fst ` set df"
  by (induction df) (auto simp: drop_duplicates_Cons)

lemma drop_duplicates_distinct:
  "distinct (map fst (drop_duplicates_keep_last df))"
  by (induction df) (auto simp: drop_duplicates_Cons drop_duplicates_keys)

lemma drop_duplicates_series_map [frame_simps]:
  "map_of (drop_duplicates_keep_last df) = series_map df"
proof (induction df)
  case Nil
  then show ?case by simp
next
  case (Cons r rs)
  show ?case
  proof (cases "fst r \<in> fst ` set rs")
    case True
    then have "fst r \<in> dom (series_map rs)"
      by (simp add: dom_map_of_conv_image_fst)
    then have "series_map rs (fst r) \<noteq> None"
      by (simp add: domIff)
    then show ?thesis
      using True Cons.IH
      by (auto simp: drop_duplicates_Cons map_add_def fun_eq_iff split: option.split)
  next
    case False
    then have "series_map rs (fst r) = None"
      by (simp add: map_of_eq_None_iff)
    then show ?thesis
      using False Cons.IH
      by (auto simp: drop_duplicates_Cons map_add_def fun_eq_iff split: option.split)
  qed
qed

lemma drop_duplicates_subset: "set (drop_duplicates_keep_last df) \<subseteq> set df"
  by (induction df) (auto simp: drop_duplicates_Cons)

lemma drop_duplicates_distinct_id:
  "distinct (map fst df) \<Longrightarrow> drop_duplicates_keep_last df = df"
  by (induction df) (auto simp: drop_duplicates_Cons)

subsection \<open>Sorting by the index\<close>

lemma sort_index_mset: "mset (sort_index df) = mset df"
  by (simp add: sort_index_def)

lemma sort_index_ascending:
  "distinct (map fst df) \<Longrightarrow> strictly_ascending (sort_index df)"
proof -
  assume d: "distinct (map fst df)"
  have "mset (map fst (sort_index df)) = mset (map fst df)"
    by (simp add: sort_index_mset)
  then have "distinct (map fst (sort_index df))"
    using d by (metis mset_eq_imp_distinct_iff)
  moreover have "sorted (map fst (sort_index df))"
    by (simp add: sort_index_def)
  ultimately show ?thesis by (simp add: strict_sorted_iff)
qed

lemma sort_index_map_of:
  "distinct (map fst df) \<Longrightarrow> map_of (sort_index df) = map_of df"
  by (rule map_of_distinct_mset) (simp_all add: sort_index_mset)

lemma sort_index_keys [frame_simps]: "fst ` set (sort_index df) = fst ` set df"
  by (simp add: sort_index_def)

lemma sort_index_id: "strictly_ascending df \<Longrightarrow> sort_index df = df"
  by (simp add: sort_index_def strict_sorted_iff sort_key_id_if_sorted)

end
