(* ===== verification/Reconcile.thy ===== *)
theory Reconcile
  imports FrameOps
begin

text \<open>
  The incremental merge of \<^verbatim>\<open>src/daily_data_lux.py\<close>, lines 52--60: the rows of the
  persisted series whose timestamp lies between the first and the last timestamp of the
  freshly fetched frame are removed (\<open>remove_overlap\<close>, lines 54--55), the fetched
  frame is appended, duplicated timestamps keep their last row, and the result is sorted
  by the index (\<open>merge_update\<close>, lines 52--60; on the first run, with no persisted
  series, the fetched frame is taken as it is).  The abstract specification is a map from
  instants to rows: the persisted map with the update window cut out, overridden by the
  fetched map (\<open>reconcile_map\<close>); and the reference implementation the specification
  suggests (insert everything into an ordered map, emit it in key order) is
  \<open>ordered_map_merge\<close>, on a red-black tree.
\<close>

definition remove_overlap :: "'v frame \<Rightarrow> 'w frame \<Rightarrow> 'v frame" where
  "remove_overlap existing result =
     (case (index_min result, index_max result) of
        (Some lo, Some hi) \<Rightarrow>
          mask_select (map (\<lambda>t. \<not> (lo \<le> t \<and> t \<le> hi)) (map fst existing)) existing
      | _ \<Rightarrow> existing)"

definition merge_update :: "'v frame option \<Rightarrow> 'v frame \<Rightarrow> 'v frame" where
  "merge_update existing result =
     (case existing of
        Some ex \<Rightarrow> sort_index (drop_duplicates_keep_last (remove_overlap ex result @ result))
      | None \<Rightarrow> result)"

subsection \<open>Abstract specification\<close>

definition update_window :: "'w frame \<Rightarrow> instant set" where
  "update_window r =
     (case (index_min r, index_max r) of (Some lo, Some hi) \<Rightarrow> {lo..hi} | _ \<Rightarrow> {})"

definition reconcile_map :: "'v frame \<Rightarrow> 'v frame \<Rightarrow> instant \<rightharpoonup> 'v" where
  "reconcile_map ex r = (series_map ex |` {t. t \<notin> update_window r}) ++ series_map r"

definition emit_sorted :: "(instant \<rightharpoonup> 'v) \<Rightarrow> 'v frame" where
  "emit_sorted M = map (\<lambda>t. (t, the (M t))) (sorted_list_of_set (dom M))"

definition ordered_map_merge :: "'v frame \<Rightarrow> 'v frame \<Rightarrow> 'v frame" where
  "ordered_map_merge purged incoming =
     RBT.entries (fold (\<lambda>(t, v) m. RBT.insert t v m) (purged @ incoming) RBT.empty)"



subsection \<open>The update window\<close>

lemma update_window_iff:
  "t \<in> update_window r \<longleftrightarrow> (\<exists>a \<in> fst ` set r. a \<le> t) \<and> (\<exists>b \<in> fst ` set r. t \<le> b)"
proof (cases "r = []")
  case True
  then show ?thesis by (simp add: update_window_def index_min_Min index_max_Max)
next
  case False
  let ?K = "fst ` set r"
  have fin: "finite ?K" and ne: "?K \<noteq> {}" using False by simp_all
  have "t \<in> update_window r \<longleftrightarrow> Min ?K \<le> t \<and> t \<le> Max ?K"
    using False by (simp add: update_window_def index_min_Min index_max_Max)
  also have "\<dots> \<longleftrightarrow> (\<exists>a \<in> ?K. a \<le> t) \<and> (\<exists>b \<in> ?K. t \<le> b)"
    using fin ne by (simp add: Min_le_iff Max_ge_iff)
  finally show ?thesis .
qed

lemma keys_in_update_window: "t \<in> fst ` set r \<Longrightarrow> t \<in> update_window r"
  by (auto simp: update_window_iff)

lemma series_map_outside_window:
  assumes "t \<notin> update_window r"
  shows "series_map r t = None"
proof -
  from assms have "t \<notin> fst ` set r" using keys_in_update_window by blast
  then show ?thesis by (simp add: map_of_eq_None_iff)
qed

lemma update_window_Nil [simp]: "update_window [] = {}"
  by (simp add: update_window_def index_min_Min)

subsection \<open>Structure of the merge\<close>

lemma remove_overlap_filter:
  "remove_overlap ex r = filter (\<lambda>p. fst p \<notin> update_window r) ex"
proof (cases "r = []")
  case True
  then show ?thesis by (simp add: remove_overlap_def index_min_Min)
next
  case False
  then obtain lo hi where "index_min r = Some lo" "index_max r = Some hi"
    by (simp add: index_min_Min index_max_Max)
  then show ?thesis
    by (simp add: remove_overlap_def update_window_def comp_def)
qed

lemma merge_update_Some:
  "merge_update (Some ex) r =
     sort_index (drop_duplicates_keep_last (filter (\<lambda>p. fst p \<notin> update_window r) ex @ r))"
  by (simp add: merge_update_def remove_overlap_filter)

lemma merge_update_ascending_aux: "strictly_ascending (merge_update (Some ex) r)"
  by (simp add: merge_update_Some sort_index_ascending drop_duplicates_distinct)

lemma merge_update_map_of:
  "map_of (merge_update (Some ex) r) = reconcile_map ex r"
proof -
  let ?L = "drop_duplicates_keep_last (filter (\<lambda>p. fst p \<notin> update_window r) ex @ r)"
  have "map_of (merge_update (Some ex) r) = map_of ?L"
    by (simp add: merge_update_Some sort_index_map_of drop_duplicates_distinct)
  also have "\<dots> = series_map (filter (\<lambda>p. fst p \<notin> update_window r) ex) ++ series_map r"
    by (simp add: drop_duplicates_series_map)
  also have "\<dots> = reconcile_map ex r"
    using map_of_rev_filter_key [of "\<lambda>k. k \<notin> update_window r" ex]
    by (simp add: reconcile_map_def)
  finally show ?thesis .
qed

lemma merge_update_unique:
  "strictly_ascending ys \<Longrightarrow> map_of ys = reconcile_map ex r \<Longrightarrow> ys = merge_update (Some ex) r"
  by (rule strictly_ascending_unique) (simp_all add: merge_update_ascending_aux merge_update_map_of)

lemma merge_update_series_map:
  "series_map (merge_update (Some ex) r) = reconcile_map ex r"
  using merge_update_ascending_aux [of ex r]
  by (simp add: series_map_distinct strict_sorted_iff merge_update_map_of)

lemma emit_sorted_ascending: "strictly_ascending (emit_sorted M)"
  by (simp add: emit_sorted_def comp_def)

lemma map_of_emit_sorted: "finite (dom M) \<Longrightarrow> map_of (emit_sorted M) = M"
  by (auto simp: emit_sorted_def map_of_map_key fun_eq_iff) (metis not_None_eq)

lemma finite_reconcile_map: "finite (dom (reconcile_map ex r))"
  by (simp add: reconcile_map_def finite_dom_map_of)

lemma lookup_fold_insert:
  "RBT.lookup (fold (\<lambda>(t, v) m. RBT.insert t v m) xs m) = RBT.lookup m ++ series_map xs"
  by (induction xs arbitrary: m) (auto simp: map_add_def fun_eq_iff split: option.split)

lemma merge_update_old_rows:
  assumes asc: "strictly_ascending ex" and late: "\<forall>k \<in> fst ` set r. s \<le> k"
  shows "filter (\<lambda>p. fst p < s) (merge_update (Some ex) r) = filter (\<lambda>p. fst p < s) ex"
proof (rule strictly_ascending_unique)
  show "strictly_ascending (filter (\<lambda>p. fst p < s) (merge_update (Some ex) r))"
    by (intro strictly_ascending_filter merge_update_ascending_aux)
  show "strictly_ascending (filter (\<lambda>p. fst p < s) ex)" using asc by (rule strictly_ascending_filter)
  have dex: "distinct (map fst ex)" using asc by (simp add: strict_sorted_iff)
  have "reconcile_map ex r k = map_of ex k" if "k < s" for k
  proof -
    have "k \<notin> update_window r" using that late by (force simp: update_window_iff)
    moreover have "series_map r k = None" using that late by (force simp: map_of_eq_None_iff)
    ultimately show ?thesis by (simp add: reconcile_map_def map_add_def series_map_distinct [OF dex])
  qed
  then show "map_of (filter (\<lambda>p. fst p < s) (merge_update (Some ex) r)) = map_of (filter (\<lambda>p. fst p < s) ex)"
    by (auto simp: map_of_filter_key [of "\<lambda>k. k < s"] merge_update_map_of restrict_map_def fun_eq_iff)
qed

subsection \<open>Two fetch windows, one after the other\<close>

lemma update_window_append_disjoint:
  assumes "\<forall>a \<in> fst ` set r1. \<forall>b \<in> fst ` set r2. a < b"
  shows "t \<in> update_window r2 \<Longrightarrow> t \<notin> update_window r1"
  using assms by (fastforce simp: update_window_iff)

lemma update_window_append_mono:
  "update_window r1 \<union> update_window r2 \<subseteq> update_window (r1 @ r2)"
  by (auto simp: update_window_iff)

lemma update_window_append_gap:
  assumes "\<forall>a \<in> fst ` set r1. \<forall>b \<in> fst ` set r2. a < b"
    and "t \<in> update_window (r1 @ r2)" "t \<notin> update_window r1" "t \<notin> update_window r2"
  shows "(\<forall>a \<in> fst ` set r1. a < t) \<and> (\<forall>b \<in> fst ` set r2. t < b)"
  using assms by (fastforce simp: update_window_iff not_le)

subsection \<open>Properties of the merge\<close>

text \<open>
  C1 (refinement).  With a persisted series present, the merge of
  \<^verbatim>\<open>daily_data_lux.py\<close> computes exactly the abstract specification: the ordered map
  that holds the persisted rows outside the fetched frame's time range, overridden by the
  fetched rows (the last fetched row for a repeated timestamp), emitted in ascending key
  order.
\<close>

theorem merge_update_refines:
  "merge_update (Some ex) r = emit_sorted (reconcile_map ex r)"
  by (rule sym, rule merge_update_unique)
     (simp_all add: emit_sorted_ascending map_of_emit_sorted finite_reconcile_map)

text \<open>
  Equivalence with a reference implementation.  The pandas pipeline (mask, concat, drop duplicates keeping the last,
  sort by index) gives the same frame as the reference implementation the specification
  describes: insert the purged persisted rows and then the fetched rows into an ordered map
  (a red-black tree), later insertions overwriting, and list its entries in key order.
\<close>

theorem merge_update_ordered_map:
  "merge_update (Some ex) r = ordered_map_merge (remove_overlap ex r) r"
proof (rule sym, rule merge_update_unique)
  show "strictly_ascending (ordered_map_merge (remove_overlap ex r) r)"
    by (simp add: ordered_map_merge_def strict_sorted_iff RBT.sorted_entries RBT.distinct_entries)
  show "map_of (ordered_map_merge (remove_overlap ex r) r) = reconcile_map ex r"
    using map_of_rev_filter_key [of "\<lambda>k. k \<notin> update_window r" ex]
    by (simp add: ordered_map_merge_def lookup_fold_insert remove_overlap_filter reconcile_map_def)
qed

text \<open>
  (invariant: no duplicate timestamps).  The merged series has as many distinct
  timestamps as rows.
\<close>

theorem merge_update_no_duplicates:
  "card (fst ` set (merge_update (Some ex) r)) = length (merge_update (Some ex) r)"
proof -
  have "distinct (map fst (merge_update (Some ex) r))"
    using merge_update_ascending_aux [of ex r] by (simp add: strict_sorted_iff)
  then show ?thesis by (metis distinct_card length_map set_map)
qed

text \<open>
  C2 (invariant: ascending order).  Each row of the merged series has a strictly smaller
  timestamp than the row after it.
\<close>

theorem merge_update_ascending_nth:
  "Suc i < length (merge_update (Some ex) r) \<Longrightarrow>
   fst (merge_update (Some ex) r ! i) < fst (merge_update (Some ex) r ! Suc i)"
  using merge_update_ascending_aux [of ex r] by (simp add: sorted_wrt_iff_nth_less)

text \<open>
  C3 (functional: the overlap correction wins).  At every timestamp the fetch returned,
  the merged series holds the fetched value (the last one fetched for that timestamp),
  whatever the persisted series held there.
\<close>

theorem merge_update_incoming_wins:
  assumes "t \<in> fst ` set r"
  shows "map_of (merge_update (Some ex) r) t = series_map r t"
proof -
  from assms have "t \<in> dom (series_map r)" by (simp add: dom_map_of_conv_image_fst)
  then show ?thesis by (simp add: merge_update_map_of reconcile_map_def map_add_dom_app_simps)
qed

text \<open>
  C4 (functional: preservation outside the window).  At every timestamp outside the range
  from the first to the last fetched timestamp, the merged series holds what the persisted
  series held (present or absent), so history before the overlap is never lost.
\<close>

theorem merge_update_preserves_outside:
  "t \<notin> update_window r \<Longrightarrow> map_of (merge_update (Some ex) r) t = series_map ex t"
  by (simp add: merge_update_map_of reconcile_map_def map_add_def series_map_outside_window)

text \<open>
  C5 (idempotence).  Merging the same fetched frame again into the merged series changes
  nothing: a re-run with the same download is a no-op.
\<close>

theorem merge_update_idempotent:
  "merge_update (Some (merge_update (Some ex) r)) r = merge_update (Some ex) r"
proof (rule sym, rule merge_update_unique)
  let ?out = "merge_update (Some ex) r"
  show "strictly_ascending ?out" by (rule merge_update_ascending_aux)
  show "map_of ?out = reconcile_map ?out r"
    by (auto simp: merge_update_map_of merge_update_series_map reconcile_map_def map_add_def
             restrict_map_def fun_eq_iff split: option.split dest: series_map_outside_window)
qed

text \<open>
  C6 (functional: two runs against one).  If a second fetch lies entirely after the first
  and no persisted record lies strictly between the two fetched ranges, merging the two
  fetches one after the other gives the same series as merging their concatenation once.
\<close>

theorem merge_update_adjacent:
  assumes later: "\<forall>a \<in> fst ` set r1. \<forall>b \<in> fst ` set r2. a < b"
    and gap: "\<forall>t \<in> fst ` set ex. \<not> ((\<forall>a \<in> fst ` set r1. a < t) \<and> (\<forall>b \<in> fst ` set r2. t < b))"
  shows "merge_update (Some (merge_update (Some ex) r1)) r2 = merge_update (Some ex) (r1 @ r2)"
proof (rule sym, rule merge_update_unique)
  let ?out = "merge_update (Some ex) r1"
  show "strictly_ascending (merge_update (Some ex) (r1 @ r2))" by (rule merge_update_ascending_aux)
  have gap': "series_map ex t = None"
    if "t \<in> update_window (r1 @ r2)" "t \<notin> update_window r1" "t \<notin> update_window r2" for t
    using update_window_append_gap [OF later that] gap by (auto simp: map_of_eq_None_iff)
  show "map_of (merge_update (Some ex) (r1 @ r2)) = reconcile_map ?out r2"
  proof (rule ext)
    fix t
    show "map_of (merge_update (Some ex) (r1 @ r2)) t = reconcile_map ?out r2 t"
      using update_window_append_disjoint [OF later, of t] update_window_append_mono [of r1 r2]
        gap' [of t] series_map_outside_window [of t r1] series_map_outside_window [of t r2]
      by (auto simp: merge_update_map_of merge_update_series_map reconcile_map_def map_add_def
               restrict_map_def split: option.split)
  qed
qed

text \<open>
  No data loss: the timestamps of the merged series are exactly the
  persisted timestamps outside the fetched range together with all fetched timestamps.
\<close>

theorem merge_update_keys:
  "fst ` set (merge_update (Some ex) r) = {t \<in> fst ` set ex. t \<notin> update_window r} \<union> fst ` set r"
  by (auto simp: merge_update_Some sort_index_keys drop_duplicates_keys)

text \<open>
  Error path: an empty download does not raise: the code has no
  \<open>EmptyIncomingError\<close>.  The persisted series is written back unchanged (for a series
  that is already ascending without duplicates), so history is not truncated.
\<close>

theorem merge_update_empty_incoming:
  "strictly_ascending ex \<Longrightarrow> merge_update (Some ex) [] = ex"
  by (simp add: merge_update_Some strict_sorted_iff drop_duplicates_distinct_id sort_index_id)

text \<open>
  Counterexample on the first run: when no series is persisted yet, the fetched frame is
  stored as it is: neither sorted nor de-duplicated, so the ascending-order guarantee fails
  for a download that arrives out of order.
\<close>

theorem merge_update_first_run_unsorted:
  "\<not> strictly_ascending (merge_update None [(2, ''b''), (1, ''a'')])"
  by (simp add: merge_update_def)

text \<open>
  C7 (functional: when two runs differ from one).  The specification's law that two runs
  with adjacent windows equal one combined run fails whenever a persisted record lies
  strictly after everything the first fetch reports and strictly before everything the
  second reports: the two runs keep it (it is outside both fetched ranges) while the
  combined run purges it (it is inside the combined range and reported by neither).
  With C6, the gap condition is exactly what the law needs.
\<close>

theorem merge_update_adjacent_gap:
  assumes t: "t \<in> fst ` set ex"
    and after: "\<forall>a \<in> fst ` set r1. a < t" and before: "\<forall>b \<in> fst ` set r2. t < b"
    and ne: "r1 \<noteq> []" "r2 \<noteq> []"
  shows "merge_update (Some (merge_update (Some ex) r1)) r2 \<noteq> merge_update (Some ex) (r1 @ r2)"
proof
  assume eq: "merge_update (Some (merge_update (Some ex) r1)) r2 = merge_update (Some ex) (r1 @ r2)"
  have "t \<notin> update_window r1" "t \<notin> update_window r2"
    using after before by (auto simp: update_window_iff)
  then have "t \<in> fst ` set (merge_update (Some (merge_update (Some ex) r1)) r2)"
    using t by (simp add: merge_update_keys)
  moreover have "t \<in> update_window (r1 @ r2)"
  proof -
    obtain p1 where "p1 \<in> set r1" using ne(1) by (cases r1) auto
    moreover obtain p2 where "p2 \<in> set r2" using ne(2) by (cases r2) auto
    ultimately show ?thesis using after before unfolding update_window_iff
      by (metis Un_iff image_eqI less_imp_le set_append)
  qed
  moreover have "t \<notin> fst ` set (r1 @ r2)" using after before by auto
  ultimately show False using eq by (simp add: merge_update_keys)
qed


subsection \<open>Witnesses\<close>

theorem merge_update_ascending_nth_witness:
  "Suc 0 < length (merge_update (Some [(0, 1::int), (864000, 2)]) [(864000, 3)]) \<and>
   fst (merge_update (Some [(0, 1::int), (864000, 2)]) [(864000, 3)] ! 0)
     < fst (merge_update (Some [(0, 1::int), (864000, 2)]) [(864000, 3)] ! Suc 0)"
proof -
  have h: "Suc 0 < length (merge_update (Some [(0, 1::int), (864000, 2)]) [(864000, 3)])"
    by code_simp
  show ?thesis using h merge_update_ascending_nth [OF h] by simp
qed

theorem merge_update_incoming_wins_witness:
  "(1700000000::int) \<in> fst ` set [(1700000000::int, 7::int)] \<and>
   map_of (merge_update (Some [(1700000000, 5::int)]) [(1700000000, 7)]) 1700000000 = Some 7"
proof -
  have h: "(1700000000::int) \<in> fst ` set [(1700000000::int, 7::int)]" by simp
  show ?thesis using h merge_update_incoming_wins [OF h, of "[(1700000000, 5)]"] by simp
qed

theorem merge_update_preserves_outside_witness:
  "(1699136000::int) \<notin> update_window [(1700000000::int, 3::int)] \<and>
   map_of (merge_update (Some [(1699136000, 1), (1700000000, 2::int)]) [(1700000000, 3)]) 1699136000
     = Some 1"
proof -
  have h: "(1699136000::int) \<notin> update_window [(1700000000::int, 3::int)]"
    by (simp add: update_window_iff)
  show ?thesis
    using h merge_update_preserves_outside [OF h, of "[(1699136000, 1), (1700000000, 2)]"] by simp
qed

theorem merge_update_adjacent_witness:
  "merge_update (Some (merge_update (Some [(0, 1), (900, 5::int)]) [(900, 2)])) [(1800, 3)]
     = merge_update (Some [(0, 1), (900, 5::int)]) ([(900, 2)] @ [(1800, 3)])"
proof -
  have h1: "\<forall>a \<in> fst ` set [(900::int, 2::int)]. \<forall>b \<in> fst ` set [(1800::int, 3::int)]. a < b"
    by simp
  have h2: "\<forall>t \<in> fst ` set [(0::int, 1::int), (900, 5)].
      \<not> ((\<forall>a \<in> fst ` set [(900::int, 2::int)]. a < t) \<and> (\<forall>b \<in> fst ` set [(1800::int, 3::int)]. t < b))"
    by simp
  show ?thesis by (rule merge_update_adjacent [OF h1 h2])
qed

theorem merge_update_empty_incoming_witness:
  "strictly_ascending [(0::int, 1::int), (900, 2)] \<and>
   merge_update (Some [(0::int, 1::int), (900, 2)]) [] = [(0, 1), (900, 2)]"
proof -
  have h: "strictly_ascending [(0::int, 1::int), (900, 2)]" by simp
  show ?thesis using h merge_update_empty_incoming [OF h] by simp
qed

theorem merge_update_adjacent_gap_witness:
  "merge_update (Some (merge_update (Some [(2, 7)]) [(1, 1)])) [(3, 3)] \<noteq>
   merge_update (Some [(2, 7)]) ([(1, 1)] @ [(3, 3::int)])"
  by (rule merge_update_adjacent_gap [where t = 2]) auto


end
