(* ===== verification/DailyRun.thy ===== *)
theory DailyRun
  imports Reconcile
begin

text \<open>
  The update run of \<^verbatim>\<open>src/daily_data_lux.py\<close> (lines 8--64).  The ENTSO-E client is an
  interface: a record of the two queries the script calls, each returning a table or an
  error (\<open>entsoe_api\<close>).  A table is its column list and its time-indexed rows, each row
  a partial map from column names to values (\<open>None\<close> is NaN, "not reported").  The run
  checks the API key (lines 11--13), computes the download window (lines 28--40), queries
  generation and load (lines 43--46), projects the production types (line 44, KeyError on
  a missing column), assigns the load column by index alignment (line 49), merges with the
  persisted series (lines 51--60) and writes it (line 63).  The persisted CSV is the state
  \<open>'n table option\<close> (absent file: \<open>None\<close>); an exception anywhere before line 63
  leaves it as it was (\<open>run_daily\<close>).  How the table is written to and read back from
  the CSV text is not modelled here: the state is the frame the CSV holds.
\<close>

datatype run_error =
    MissingApiKey
  | NaTBound
  | ApiError string
  | KeyError "string list"
  | ReindexError

record 'n table =
  tbl_columns :: "string list"
  tbl_rows :: "(string \<rightharpoonup> 'n) frame"

record 'n entsoe_api =
  query_generation :: "instant \<Rightarrow> instant \<Rightarrow> run_error + 'n table"
  query_load :: "instant \<Rightarrow> instant \<Rightarrow> run_error + 'n frame"

definition production_types :: "string list" where
  "production_types =
     [''Hydro Run-of-river and poundage'', ''Biomass'', ''Fossil Gas'', ''Hydro Water Reservoir'',
      ''Waste'', ''Wind Onshore'', ''Solar'']"

definition five_days :: int where
  "five_days = 5 * seconds_per_day"

definition start_2020 :: instant where
  "start_2020 = 1577833200"

definition api_key_ok :: "string option \<Rightarrow> bool" where
  "api_key_ok key = (case key of None \<Rightarrow> False | Some k \<Rightarrow> k \<noteq> [])"

definition fetch_window :: "'v frame option \<Rightarrow> instant \<Rightarrow> int \<Rightarrow> run_error + (instant \<times> instant)" where
  "fetch_window existing now_utc tz_offset =
     (case existing of
        Some ex \<Rightarrow>
          (case index_max ex of
             Some last_date \<Rightarrow> Inr (last_date - five_days, now_utc - tz_offset)
           | None \<Rightarrow> Inl NaTBound)
      | None \<Rightarrow> Inr (start_2020, now_utc - tz_offset))"

definition select_columns :: "string list \<Rightarrow> 'n table \<Rightarrow> run_error + 'n table" where
  "select_columns cs t =
     (let missing = filter (\<lambda>c. c \<notin> set (tbl_columns t)) cs in
      if missing \<noteq> [] then Inl (KeyError missing)
      else Inr \<lparr>tbl_columns = cs, tbl_rows = map (\<lambda>(i, r). (i, r |` set cs)) (tbl_rows t)\<rparr>)"

definition add_column :: "string \<Rightarrow> string list \<Rightarrow> string list" where
  "add_column c cols = (if c \<in> set cols then cols else cols @ [c])"

definition assign_column :: "string \<Rightarrow> 'n frame \<Rightarrow> 'n table \<Rightarrow> run_error + 'n table" where
  "assign_column c s t =
     (if map fst s = map fst (tbl_rows t) then
        Inr \<lparr>tbl_columns = add_column c (tbl_columns t),
             tbl_rows = map2 (\<lambda>(i, r) (_, v). (i, r(c \<mapsto> v))) (tbl_rows t) s\<rparr>
      else if \<not> distinct (map fst s) then Inl ReindexError
      else Inr \<lparr>tbl_columns = add_column c (tbl_columns t),
                tbl_rows = map (\<lambda>(i, r). (i, r(c := map_of s i))) (tbl_rows t)\<rparr>)"

definition concat_columns :: "string list \<Rightarrow> string list \<Rightarrow> string list" where
  "concat_columns a b = a @ filter (\<lambda>c. c \<notin> set a) b"

definition merge_tables :: "'n table option \<Rightarrow> 'n table \<Rightarrow> 'n table" where
  "merge_tables existing result =
     (case existing of
        Some ex \<Rightarrow> \<lparr>tbl_columns = concat_columns (tbl_columns ex) (tbl_columns result),
                    tbl_rows = merge_update (Some (tbl_rows ex)) (tbl_rows result)\<rparr>
      | None \<Rightarrow> result)"

definition daily_update ::
  "'n entsoe_api \<Rightarrow> string option \<Rightarrow> instant \<Rightarrow> int \<Rightarrow> 'n table option \<Rightarrow> run_error + 'n table" where
  "daily_update api key now_utc tz_offset stored =
     (if \<not> api_key_ok key then Inl MissingApiKey
      else case fetch_window (map_option tbl_rows stored) now_utc tz_offset of
        Inl e \<Rightarrow> Inl e
      | Inr (start, end_) \<Rightarrow>
          (case query_generation api start end_ of
             Inl e \<Rightarrow> Inl e
           | Inr gen \<Rightarrow>
               (case select_columns production_types gen of
                  Inl e \<Rightarrow> Inl e
                | Inr gen_selected \<Rightarrow>
                    (case query_load api start end_ of
                       Inl e \<Rightarrow> Inl e
                     | Inr load \<Rightarrow>
                         (case assign_column ''Load'' load gen_selected of
                            Inl e \<Rightarrow> Inl e
                          | Inr result \<Rightarrow> Inr (merge_tables stored result))))))"

definition run_daily ::
  "'n entsoe_api \<Rightarrow> string option \<Rightarrow> instant \<Rightarrow> int \<Rightarrow> 'n table option \<Rightarrow> run_error option \<times> 'n table option" where
  "run_daily api key now_utc tz_offset stored =
     (case daily_update api key now_utc tz_offset stored of
        Inl e \<Rightarrow> (Some e, stored)
      | Inr updated \<Rightarrow> (None, Some updated))"

definition respects_window :: "'n entsoe_api \<Rightarrow> bool" where
  "respects_window api \<longleftrightarrow>
     (\<forall>s e g. query_generation api s e = Inr g \<longrightarrow> (\<forall>i \<in> fst ` set (tbl_rows g). s \<le> i \<and> i \<le> e))"

definition window_api :: "'n table \<Rightarrow> 'n frame \<Rightarrow> 'n entsoe_api" where
  "window_api gen load =
     \<lparr>query_generation = (\<lambda>s e. Inr (gen\<lparr>tbl_rows := filter (\<lambda>p. s \<le> fst p \<and> fst p \<le> e) (tbl_rows gen)\<rparr>)),
      query_load = (\<lambda>s e. Inr (filter (\<lambda>p. s \<le> fst p \<and> fst p \<le> e) load))\<rparr>"

subsection \<open>Frame bookkeeping of the run\<close>

lemma window_api_respects: "respects_window (window_api gen load)"
  by (auto simp: respects_window_def window_api_def)

lemma select_columns_index:
  "select_columns cs t = Inr t' \<Longrightarrow> map fst (tbl_rows t') = map fst (tbl_rows t)"
  by (auto simp: select_columns_def Let_def split: if_splits)

lemma map_fst_map2_assign:
  "length xs = length ys \<Longrightarrow> map fst (map2 (\<lambda>(i, r) (_, v). (i, r(c \<mapsto> v))) xs ys) = map fst xs"
  by (induction xs ys rule: list_induct2) auto

lemma assign_column_index:
  "assign_column c s t = Inr t' \<Longrightarrow> map fst (tbl_rows t') = map fst (tbl_rows t)"
proof (cases "map fst s = map fst (tbl_rows t)")
  case True
  assume "assign_column c s t = Inr t'"
  with True have t': "tbl_rows t' = map2 (\<lambda>(i, r) (_, v). (i, r(c \<mapsto> v))) (tbl_rows t) s"
    by (auto simp: assign_column_def)
  from True have "length s = length (tbl_rows t)" by (metis length_map)
  then have "length (tbl_rows t) = length s" by simp
  then show ?thesis unfolding t' by (rule map_fst_map2_assign)
next
  case False
  assume "assign_column c s t = Inr t'"
  with False show ?thesis by (auto simp: assign_column_def split: if_splits)
qed

lemma assign_map2_lookup:
  "length xs = length ys \<Longrightarrow> map fst ys = map fst xs \<Longrightarrow> distinct (map fst ys) \<Longrightarrow>
   (i, r) \<in> set (map2 (\<lambda>(i, r) (_, v). (i, r(c \<mapsto> v))) xs ys) \<Longrightarrow> r c = map_of ys i"
proof -
  assume len: "length xs = length ys" and keys: "map fst ys = map fst xs"
    and dist: "distinct (map fst ys)"
    and mem: "(i, r) \<in> set (map2 (\<lambda>(i, r) (_, v). (i, r(c \<mapsto> v))) xs ys)"
  from mem obtain p q where pq: "(p, q) \<in> set (zip xs ys)"
    and ir0: "(i, r) = (\<lambda>(i, r) (_, v). (i, r(c \<mapsto> v))) p q"
    by auto
  from pq len obtain k where k: "k < length xs" and "p = xs ! k" and "q = ys ! k"
    by (auto simp: set_zip)
  with ir0 have ir: "(i, r) = (\<lambda>(i, r) (_, v). (i, r(c \<mapsto> v))) (xs ! k) (ys ! k)"
    by simp
  obtain a b a' v where x: "xs ! k = (a, b)" and y: "ys ! k = (a', v)" by fastforce
  have "a' = a" using keys k len x y by (metis fst_conv nth_map)
  with ir x y have "i = a" "r c = Some v" by auto
  moreover have "(a, v) \<in> set ys" using k len y \<open>a' = a\<close> by (metis nth_mem)
  ultimately show ?thesis using dist by (simp add: map_of_is_SomeI)
qed

lemma daily_update_Inr:
  assumes "daily_update api key now_utc tz_offset st = Inr new"
  obtains s e gen gs load res where "api_key_ok key"
    "fetch_window (map_option tbl_rows st) now_utc tz_offset = Inr (s, e)"
    "query_generation api s e = Inr gen" "select_columns production_types gen = Inr gs"
    "query_load api s e = Inr load" "assign_column ''Load'' load gs = Inr res"
    "new = merge_tables st res"
  using assms by (auto simp: daily_update_def split: if_splits sum.splits)

lemma run_daily_Inr:
  "run_daily api key now_utc tz_offset st = (None, Some new) \<Longrightarrow>
   daily_update api key now_utc tz_offset st = Inr new"
  by (auto simp: run_daily_def split: sum.splits)

lemma daily_update_result_keys:
  assumes "select_columns production_types gen = Inr gs" "assign_column ''Load'' load gs = Inr res"
  shows "fst ` set (tbl_rows res) = fst ` set (tbl_rows gen)"
proof -
  have "map fst (tbl_rows res) = map fst (tbl_rows gen)"
    using select_columns_index [OF assms(1)] assign_column_index [OF assms(2)] by simp
  then show ?thesis by (metis set_map)
qed

subsection \<open>Properties of the run\<close>

text \<open>
  Safety: a failed run leaves the stored series untouched.  Whenever the run stops with an
  error (missing key, NaT window bound, API failure, missing column, load misalignment), the
  persisted series is the one before the run: the script raises before \<open>to_csv\<close>.
\<close>

theorem run_daily_error_keeps_store:
  "fst (run_daily api key now_utc tz_offset st) \<noteq> None \<Longrightarrow> snd (run_daily api key now_utc tz_offset st) = st"
  by (auto simp: run_daily_def split: sum.splits)

text \<open>
  C12 (error: missing production type).  If the generation table lacks any of the seven
  production types, the run fails with a KeyError naming the missing columns; the
  specification's field projection would report them as absent instead.
\<close>

theorem daily_update_missing_column:
  assumes "api_key_ok key"
    and "fetch_window (map_option tbl_rows st) now_utc tz_offset = Inr (s, e)"
    and "query_generation api s e = Inr gen"
    and "c \<in> set production_types" and "c \<notin> set (tbl_columns gen)"
  shows "daily_update api key now_utc tz_offset st =
           Inl (KeyError (filter (\<lambda>c. c \<notin> set (tbl_columns gen)) production_types))"
proof -
  have "filter (\<lambda>c. c \<notin> set (tbl_columns gen)) production_types \<noteq> []"
    using assms(4,5) by (auto simp: filter_empty_conv)
  then show ?thesis using assms(1-3) by (simp add: daily_update_def select_columns_def Let_def)
qed

text \<open>
  C13 (functional: load alignment).  After \<open>result['Load'] = load\<close> every row carries
  the load reported for its own timestamp, and no value (NaN, not zero) where the load
  series has none.
\<close>

theorem assign_column_load_alignment:
  assumes "assign_column ''Load'' load t = Inr t'" and "distinct (map fst load)"
    and "(i, r) \<in> set (tbl_rows t')"
  shows "r ''Load'' = map_of load i"
proof (cases "map fst load = map fst (tbl_rows t)")
  case True
  with assms(1) have t': "tbl_rows t' = map2 (\<lambda>(i, r) (_, v). (i, r(''Load'' \<mapsto> v))) (tbl_rows t) load"
    by (auto simp: assign_column_def)
  from True have "length (tbl_rows t) = length load" by (metis length_map)
  with True assms(2,3) show ?thesis unfolding t' by (metis assign_map2_lookup)
next
  case False
  with assms show ?thesis by (auto simp: assign_column_def split: if_splits)
qed


text \<open>
  C15 (bounds: first run).  On the first run, with a provider that honours the window,
  every stored timestamp lies between 2020-01-01 00:00 Brussels time and the window end,
  which is the UTC wall-clock time read as Brussels local time: \<open>tz_offset\<close> seconds
  before the actual instant, so the latest hour or two are not requested.
\<close>

theorem run_daily_first_run_bounds:
  assumes run: "run_daily api key now_utc tz_offset None = (None, Some new)"
    and api: "respects_window api"
    and i: "i \<in> fst ` set (tbl_rows new)"
  shows "start_2020 \<le> i \<and> i \<le> now_utc - tz_offset"
proof -
  from run have "daily_update api key now_utc tz_offset None = Inr new" by (rule run_daily_Inr)
  then have "\<exists>gen gs load. query_generation api start_2020 (now_utc - tz_offset) = Inr gen \<and>
      select_columns production_types gen = Inr gs \<and> assign_column ''Load'' load gs = Inr new"
    by (auto simp: daily_update_def fetch_window_def merge_tables_def split: if_splits sum.splits)
  then obtain gen gs load where qg: "query_generation api start_2020 (now_utc - tz_offset) = Inr gen"
    and sc: "select_columns production_types gen = Inr gs" and ac: "assign_column ''Load'' load gs = Inr new"
    by blast
  have "i \<in> fst ` set (tbl_rows gen)" using i daily_update_result_keys [OF sc ac] by simp
  then show ?thesis using api qg by (auto simp: respects_window_def)
qed

text \<open>
  Invariant: every successful run on an existing CSV stores a series strictly
  ascending in time.
\<close>

theorem run_daily_ascending:
  "run_daily api key now_utc tz_offset (Some ex) = (None, Some new) \<Longrightarrow> strictly_ascending (tbl_rows new)"
  by (auto elim!: daily_update_Inr dest!: run_daily_Inr simp: merge_tables_def merge_update_ascending_aux)

text \<open>
  C17 (error: empty CSV).  A persisted CSV without rows makes every later run fail with a
  NaT window bound (\<open>index.max()\<close> of an empty index is NaT), and the file stays as
  it is, so the script never recovers without manual repair.
\<close>

theorem run_daily_empty_store_blocks:
  "api_key_ok key \<Longrightarrow> tbl_rows ex = [] \<Longrightarrow>
   run_daily api key now_utc tz_offset (Some ex) = (Some NaTBound, Some ex)"
  by (simp add: run_daily_def daily_update_def fetch_window_def index_max_Max)

subsection \<open>Witnesses\<close>

theorem run_daily_error_keeps_store_witness:
  "snd (run_daily (window_api \<lparr>tbl_columns = production_types, tbl_rows = []\<rparr> [(0, 1::int)]) None
     1600000000 7200 None) = None"
proof -
  have h: "fst (run_daily (window_api \<lparr>tbl_columns = production_types, tbl_rows = []\<rparr> [(0, 1::int)]) None
     1600000000 7200 None) \<noteq> None"
    by (simp add: run_daily_def daily_update_def api_key_ok_def)
  show ?thesis using run_daily_error_keeps_store [OF h] .
qed

theorem daily_update_missing_column_witness:
  "daily_update (window_api \<lparr>tbl_columns = [''Solar''], tbl_rows = []\<rparr> ([] :: int frame)) (Some ''key'')
     1600000000 7200 None =
   Inl (KeyError [''Hydro Run-of-river and poundage'', ''Biomass'', ''Fossil Gas'', ''Hydro Water Reservoir'',
      ''Waste'', ''Wind Onshore''])"
proof -
  have h1: "api_key_ok (Some ''key'')" by (simp add: api_key_ok_def)
  have h2: "fetch_window (map_option tbl_rows (None :: int table option)) 1600000000 7200 = Inr (start_2020, 1600000000 - 7200)"
    by (simp add: fetch_window_def)
  have h3: "query_generation (window_api \<lparr>tbl_columns = [''Solar''], tbl_rows = []\<rparr> ([] :: int frame)) start_2020 (1600000000 - 7200)
      = Inr \<lparr>tbl_columns = [''Solar''], tbl_rows = []\<rparr>"
    by (simp add: window_api_def)
  have h4: "''Biomass'' \<in> set production_types" by (simp add: production_types_def)
  have h5: "''Biomass'' \<notin> set (tbl_columns \<lparr>tbl_columns = [''Solar''], tbl_rows = [] :: (string \<rightharpoonup> int) frame\<rparr>)" by simp
  show ?thesis using daily_update_missing_column [OF h1 h2 h3 h4 h5] by (simp add: production_types_def)
qed

theorem assign_column_load_alignment_witness:
  "assign_column ''Load'' [(0, 7::int)] \<lparr>tbl_columns = [''Solar''], tbl_rows = [(0, [''Solar'' \<mapsto> 1]), (900, Map.empty)]\<rparr>
     = Inr \<lparr>tbl_columns = [''Solar'', ''Load''], tbl_rows = [(0, [''Solar'' \<mapsto> 1, ''Load'' \<mapsto> 7]), (900, Map.empty(''Load'' := None))]\<rparr> \<and>
   (Map.empty(''Load'' := None)) ''Load'' = (None :: int option)"
proof -
  have h1: "assign_column ''Load'' [(0, 7::int)] \<lparr>tbl_columns = [''Solar''], tbl_rows = [(0, [''Solar'' \<mapsto> 1]), (900, Map.empty)]\<rparr>
     = Inr \<lparr>tbl_columns = [''Solar'', ''Load''], tbl_rows = [(0, [''Solar'' \<mapsto> 1, ''Load'' \<mapsto> 7]), (900, Map.empty(''Load'' := None))]\<rparr>"
    by (simp add: assign_column_def add_column_def)
  have h2: "distinct (map fst [(0::int, 7::int)])" by simp
  have h3: "(900, Map.empty(''Load'' := None)) \<in> set (tbl_rows \<lparr>tbl_columns = [''Solar'', ''Load''],
      tbl_rows = [(0, [''Solar'' \<mapsto> 1, ''Load'' \<mapsto> (7::int)]), (900, Map.empty(''Load'' := None))]\<rparr>)"
    by simp
  show ?thesis using h1 assign_column_load_alignment [OF h1 h2 h3] by simp
qed



theorem run_daily_first_run_bounds_witness:
  "\<exists>new. run_daily (window_api \<lparr>tbl_columns = production_types,
        tbl_rows = [(1599990000, Map.empty), (1599999000, Map.empty)]\<rparr> ([] :: int frame))
      (Some ''key'') 1600000000 7200 None = (None, Some new) \<and>
    fst ` set (tbl_rows new) = {1599990000} \<and>
    start_2020 \<le> 1599990000 \<and> (1599990000::int) \<le> 1600000000 - 7200"
proof -
  let ?api = "window_api \<lparr>tbl_columns = production_types,
        tbl_rows = [(1599990000, Map.empty), (1599999000, Map.empty)]\<rparr> ([] :: int frame)"
  have "\<exists>new. run_daily ?api (Some ''key'') 1600000000 7200 None = (None, Some new) \<and>
      fst ` set (tbl_rows new) = {1599990000}"
    by (simp add: run_daily_def daily_update_def api_key_ok_def fetch_window_def window_api_def
        select_columns_def assign_column_def production_types_def merge_tables_def start_2020_def)
  then obtain new where run: "run_daily ?api (Some ''key'') 1600000000 7200 None = (None, Some new)"
    and keys: "fst ` set (tbl_rows new) = {1599990000}" by blast
  have h2: "respects_window ?api" by (rule window_api_respects)
  have h3: "(1599990000::int) \<in> fst ` set (tbl_rows new)" using keys by simp
  show ?thesis using run keys run_daily_first_run_bounds [OF run h2 h3] by blast
qed

theorem run_daily_ascending_witness:
  "\<exists>new. run_daily (window_api \<lparr>tbl_columns = production_types, tbl_rows = [(864000, Map.empty)]\<rparr> [(864000, 5::int)])
      (Some ''key'') 900000 3600 (Some \<lparr>tbl_columns = [''Solar''], tbl_rows = [(864000, Map.empty), (0, [''Solar'' \<mapsto> 1])]\<rparr>)
      = (None, Some new) \<and> strictly_ascending (tbl_rows new)"
proof -
  let ?api = "window_api \<lparr>tbl_columns = production_types, tbl_rows = [(864000, Map.empty)]\<rparr> [(864000, 5::int)]"
  let ?ex = "\<lparr>tbl_columns = [''Solar''], tbl_rows = [(864000, Map.empty), (0, [''Solar'' \<mapsto> 1])]\<rparr>"
  have "\<exists>new. run_daily ?api (Some ''key'') 900000 3600 (Some ?ex) = (None, Some new)"
    by (simp add: run_daily_def daily_update_def api_key_ok_def fetch_window_def index_max_def window_api_def
        select_columns_def assign_column_def production_types_def five_days_def seconds_per_day_def)
  then obtain new where run: "run_daily ?api (Some ''key'') 900000 3600 (Some ?ex) = (None, Some new)" by blast
  show ?thesis using run run_daily_ascending [OF run] by blast
qed

theorem run_daily_empty_store_blocks_witness:
  "run_daily (window_api \<lparr>tbl_columns = production_types, tbl_rows = [(0, Map.empty)]\<rparr> [(0, 5::int)])
      (Some ''key'') 1600000000 7200 (Some \<lparr>tbl_columns = production_types @ [''Load''], tbl_rows = []\<rparr>)
   = (Some NaTBound, Some \<lparr>tbl_columns = production_types @ [''Load''], tbl_rows = []\<rparr>)"
proof -
  have h1: "api_key_ok (Some ''key'')" by (simp add: api_key_ok_def)
  have h2: "tbl_rows \<lparr>tbl_columns = production_types @ [''Load''], tbl_rows = [] :: (string \<rightharpoonup> int) frame\<rparr> = []"
    by simp
  show ?thesis by (rule run_daily_empty_store_blocks [OF h1 h2])
qed

end
