(* ===== verification/SqliteStore.thy ===== *)
theory SqliteStore
  imports DailyRun
begin

text \<open>
  The legacy relational store of \<^verbatim>\<open>src/old/database.py\<close>.  The table
  \<open>power_data\<close> (lines 38--55) is a list of rows in insertion order with an
  \<open>AUTOINCREMENT\<close> id counter (\<open>seq\<close>, SQLite's \<open>sqlite_sequence\<close>); absent before
  the first \<open>setup_database\<close>.  An insert (lines 72--75) fails with an IntegrityError
  when the value is NaN (SQLite stores NaN as NULL, which \<open>NOT NULL\<close> refuses) or when
  the key \<open>(timestamp, country_code, generation_type)\<close> is already present
  (\<open>UNIQUE\<close>); the loop catches it and goes on (lines 76--78), and a failed insert does
  not advance the counter.  The timestamp column is the text \<open>strftime\<close> writes for
  the provider's local time, without offset (line 28); it is modelled as the local
  wall-clock time in seconds, the instant plus the zone's offset at that instant, since the
  text is an injective rendering of it.  The queries use the \<open>entsoe_api\<close> interface
  of \<open>DailyRun\<close>; a failed query yields an empty frame (lines 34--36).  Reachable
  database states are an inductive set closed under \<open>update_power_data\<close>.
  \<^verbatim>\<open>src/old/database_retrieve.py\<close> reads the whole table with \<open>SELECT *\<close>
  (\<open>retrieve_power_data\<close>): a plain table scan, which SQLite returns in rowid order,
  the insertion order of the list; with no table, SQLite raises "no such table".
\<close>

record 'n power_row =
  row_id :: nat
  row_timestamp :: int
  row_country :: string
  row_type :: string
  row_value :: 'n

record 'n power_db =
  power_rows :: "'n power_row list"
  seq :: nat

datatype db_error = IntegrityError

definition db_generation_types :: "string list" where
  "db_generation_types =
     [''Biomass'', ''Fossil Gas'', ''Hydro Run-of-river and poundage'', ''Hydro Water Reservoir'',
      ''Solar'', ''Waste'', ''Wind Onshore'']"

definition row_key :: "'n power_row \<Rightarrow> int \<times> string \<times> string" where
  "row_key r = (row_timestamp r, row_country r, row_type r)"

definition setup_database :: "'n power_db option \<Rightarrow> 'n power_db" where
  "setup_database st = (case st of None \<Rightarrow> \<lparr>power_rows = [], seq = 0\<rparr> | Some db \<Rightarrow> db)"

definition insert_row :: "int \<Rightarrow> string \<Rightarrow> string \<Rightarrow> 'n option \<Rightarrow> 'n power_db \<Rightarrow> db_error + 'n power_db" where
  "insert_row t cc gt v db =
     (case v of
        None \<Rightarrow> Inl IntegrityError
      | Some x \<Rightarrow>
          if list_ex (\<lambda>r. row_key r = (t, cc, gt)) (power_rows db) then Inl IntegrityError
          else Inr \<lparr>power_rows = power_rows db @
                      [\<lparr>row_id = Suc (seq db), row_timestamp = t, row_country = cc, row_type = gt,
                        row_value = x\<rparr>],
                    seq = Suc (seq db)\<rparr>)"

definition try_insert :: "int \<Rightarrow> string \<Rightarrow> string \<Rightarrow> 'n option \<Rightarrow> 'n power_db \<Rightarrow> 'n power_db" where
  "try_insert t cc gt v db = (case insert_row t cc gt v db of Inl IntegrityError \<Rightarrow> db | Inr db' \<Rightarrow> db')"

fun store_row :: "string list \<Rightarrow> string list \<Rightarrow> string \<Rightarrow> int \<Rightarrow> (string \<rightharpoonup> 'n) \<Rightarrow> 'n power_db \<Rightarrow> 'n power_db" where
  "store_row [] cols cc t r db = db"
| "store_row (gt # gts) cols cc t r db =
     store_row gts cols cc t r (if gt \<in> set cols then try_insert t cc gt (r gt) db else db)"

fun store_rows :: "string list \<Rightarrow> string \<Rightarrow> (int \<times> (string \<rightharpoonup> 'n)) list \<Rightarrow> 'n power_db \<Rightarrow> 'n power_db" where
  "store_rows cols cc [] db = db"
| "store_rows cols cc ((t, r) # rs) db = store_rows cols cc rs (store_row db_generation_types cols cc t r db)"

definition store_data_in_db :: "'n table \<Rightarrow> string \<Rightarrow> 'n power_db \<Rightarrow> 'n power_db" where
  "store_data_in_db df cc db = store_rows (tbl_columns df) cc (tbl_rows df) db"

definition fetch_entsoe_data ::
  "'n entsoe_api \<Rightarrow> (instant \<Rightarrow> int) \<Rightarrow> instant \<Rightarrow> instant \<Rightarrow> 'n table" where
  "fetch_entsoe_data api zone_offset t_start t_end =
     (case query_generation api t_start t_end of
        Inl _ \<Rightarrow> \<lparr>tbl_columns = [], tbl_rows = []\<rparr>
      | Inr df \<Rightarrow> df\<lparr>tbl_rows := map (\<lambda>(i, r). (i + zone_offset i, r)) (tbl_rows df)\<rparr>)"

definition update_power_data ::
  "'n entsoe_api \<Rightarrow> (instant \<Rightarrow> int) \<Rightarrow> instant \<Rightarrow> int \<Rightarrow> string \<Rightarrow> 'n power_db option \<Rightarrow> 'n power_db" where
  "update_power_data api zone_offset now days cc st =
     (let db = setup_database st;
          df = fetch_entsoe_data api zone_offset (now - days * seconds_per_day) now
      in if tbl_rows df = [] then db else store_data_in_db df cc db)"

text \<open>The script's entry point: the last seven days for Luxembourg.\<close>

definition database_main :: "'n entsoe_api \<Rightarrow> (instant \<Rightarrow> int) \<Rightarrow> instant \<Rightarrow> 'n power_db option \<Rightarrow> 'n power_db" where
  "database_main api zone_offset now st = update_power_data api zone_offset now 7 ''LU'' st"

inductive db_reachable :: "'n power_db option \<Rightarrow> bool" where
  no_table: "db_reachable None"
| update: "db_reachable st \<Longrightarrow> db_reachable (Some (update_power_data api zone_offset now days cc st))"

definition db_inv :: "'n power_db \<Rightarrow> bool" where
  "db_inv db \<longleftrightarrow>
     distinct (map row_key (power_rows db)) \<and>
     sorted_wrt (<) (map row_id (power_rows db)) \<and>
     list_all (\<lambda>r. 0 < row_id r \<and> row_id r \<le> seq db) (power_rows db)"

datatype query_error = NoSuchTable

definition retrieve_power_data :: "'n power_db option \<Rightarrow> query_error + 'n power_row list" where
  "retrieve_power_data st = (case st of None \<Rightarrow> Inl NoSuchTable | Some db \<Rightarrow> Inr (power_rows db))"

definition fall_back_offset :: "instant \<Rightarrow> instant \<Rightarrow> int" where
  "fall_back_offset switch t = (if t < switch then 7200 else 3600)"

subsection \<open>Inserts and the loops\<close>

lemma try_insert_cases:
  "try_insert t cc gt v db = db \<or>
   (\<exists>x. v = Some x \<and> (t, cc, gt) \<notin> set (map row_key (power_rows db)) \<and>
        try_insert t cc gt v db = \<lparr>power_rows = power_rows db @
          [\<lparr>row_id = Suc (seq db), row_timestamp = t, row_country = cc, row_type = gt, row_value = x\<rparr>],
          seq = Suc (seq db)\<rparr>)"
  by (auto simp: try_insert_def insert_row_def list_ex_iff split: option.split db_error.split)

lemma try_insert_inv: "db_inv db \<Longrightarrow> db_inv (try_insert t cc gt v db)"
  using try_insert_cases [of t cc gt v db]
  by (auto simp: db_inv_def sorted_wrt_append list_all_iff row_key_def less_Suc_eq_le le_Suc_eq)

lemma try_insert_mono: "set (power_rows db) \<subseteq> set (power_rows (try_insert t cc gt v db))"
  using try_insert_cases [of t cc gt v db] by auto

lemma try_insert_present:
  "(t, cc, gt) \<in> set (map row_key (power_rows (try_insert t cc gt (Some x) db)))"
  by (auto simp: try_insert_def insert_row_def list_ex_iff row_key_def split: db_error.split)

lemma store_row_inv: "db_inv db \<Longrightarrow> db_inv (store_row gts cols cc t r db)"
  by (induction gts arbitrary: db) (auto intro: try_insert_inv)

lemma store_row_mono: "set (power_rows db) \<subseteq> set (power_rows (store_row gts cols cc t r db))"
  by (induction gts arbitrary: db) (auto, metis subsetD try_insert_mono)

lemma store_rows_inv: "db_inv db \<Longrightarrow> db_inv (store_rows cols cc rs db)"
  by (induction cols cc rs db rule: store_rows.induct) (auto intro: store_row_inv)

lemma store_rows_mono: "set (power_rows db) \<subseteq> set (power_rows (store_rows cols cc rs db))"
  by (induction cols cc rs db rule: store_rows.induct) (auto, metis subsetD store_row_mono)

lemma store_row_present:
  "gt \<in> set gts \<Longrightarrow> gt \<in> set cols \<Longrightarrow> r gt = Some x \<Longrightarrow>
   (t, cc, gt) \<in> set (map row_key (power_rows (store_row gts cols cc t r db)))"
proof (induction gts arbitrary: db)
  case Nil
  then show ?case by simp
next
  case (Cons g gts)
  show ?case
  proof (cases "g = gt")
    case True
    with Cons.prems have "(t, cc, gt) \<in> set (map row_key (power_rows (try_insert t cc gt (r gt) db)))"
      using try_insert_present [of t cc gt x db] by simp
    with True Cons.prems show ?thesis
      using store_row_mono [of "try_insert t cc gt (r gt) db" gts cols cc t r] by auto
  next
    case False
    with Cons show ?thesis by simp
  qed
qed

lemma store_rows_present:
  "(t, r) \<in> set rs \<Longrightarrow> gt \<in> set db_generation_types \<Longrightarrow> gt \<in> set cols \<Longrightarrow> r gt = Some x \<Longrightarrow>
   (t, cc, gt) \<in> set (map row_key (power_rows (store_rows cols cc rs db)))"
proof (induction cols cc rs db rule: store_rows.induct)
  case (1 cols cc db)
  then show ?case by simp
next
  case (2 cols cc t' r' rs db)
  show ?case
  proof (cases "(t, r) = (t', r')")
    case True
    from "2.prems" have "(t, cc, gt) \<in> set (map row_key (power_rows (store_row db_generation_types cols cc t r db)))"
      by (intro store_row_present) simp_all
    with True show ?thesis
      using store_rows_mono [of "store_row db_generation_types cols cc t r db" cols cc rs] by auto
  next
    case False
    with "2.prems"(1) have "(t, r) \<in> set rs" by auto
    then have "(t, cc, gt) \<in> set (map row_key (power_rows
        (store_rows cols cc rs (store_row db_generation_types cols cc t' r' db))))"
      using "2.prems"(2-4) by (rule "2.IH")
    then show ?thesis by simp
  qed
qed

lemma update_power_data_inv:
  assumes "case st of None \<Rightarrow> True | Some db \<Rightarrow> db_inv db"
  shows "db_inv (update_power_data api off now days cc st)"
proof -
  have "db_inv (setup_database st)"
    using assms by (auto simp: setup_database_def db_inv_def split: option.splits)
  then show ?thesis by (simp add: update_power_data_def store_data_in_db_def Let_def store_rows_inv)
qed

subsection \<open>Properties of the store\<close>

text \<open>
  C23 (invariant, by rule induction over reachable states).  In every database state the
  updates can reach, the keys (timestamp, country, type) are unique, the ids strictly
  increase in insertion order, and every id lies between 1 and the AUTOINCREMENT counter.
\<close>

theorem db_reachable_inv: "db_reachable (Some db) \<Longrightarrow> db_inv db"
proof -
  have "db_reachable st \<Longrightarrow> (case st of None \<Rightarrow> True | Some db \<Rightarrow> db_inv db)" for st :: "'n power_db option"
  proof (induction rule: db_reachable.induct)
    case no_table
    then show ?case by simp
  next
    case (update st api zone_offset now days cc)
    then show ?case by (simp add: update_power_data_inv)
  qed
  then show "db_reachable (Some db) \<Longrightarrow> db_inv db" by fastforce
qed

text \<open>
  C24 (functional: first writer wins).  An update never changes or removes a stored row:
  a corrected value for an existing (timestamp, country, type) is rejected by the UNIQUE
  constraint and silently skipped, so provider corrections never reach the database.
\<close>

theorem update_power_data_keeps_rows:
  "row \<in> set (power_rows db) \<Longrightarrow> row \<in> set (power_rows (update_power_data api zone_offset now days cc (Some db)))"
  using store_rows_mono
  by (auto simp: update_power_data_def setup_database_def store_data_in_db_def Let_def) blast

text \<open>
  C25 (functional: completeness).  After storing a frame, every reported (non-NaN) value of
  a tracked generation type that is a column of the frame has a row with its key, newly
  inserted or already present.
\<close>

theorem store_data_in_db_complete:
  "(t, r) \<in> set (tbl_rows df) \<Longrightarrow> gt \<in> set db_generation_types \<Longrightarrow> gt \<in> set (tbl_columns df) \<Longrightarrow>
   r gt = Some x \<Longrightarrow> (t, cc, gt) \<in> set (map row_key (power_rows (store_data_in_db df cc db)))"
  unfolding store_data_in_db_def by (rule store_rows_present)

text \<open>
  (error path).  When the generation query fails, the fetch returns an empty frame and
  the update leaves the (possibly newly created) table unchanged.
\<close>

theorem update_power_data_fetch_error:
  "query_generation api (now - days * seconds_per_day) now = Inl err \<Longrightarrow>
   update_power_data api zone_offset now days cc st = setup_database st"
  by (simp add: update_power_data_def fetch_entsoe_data_def)

lemma distinct_key_count:
  "distinct (map f xs) \<Longrightarrow> k \<in> set (map f xs) \<Longrightarrow> length (filter (\<lambda>x. f x = k) xs) = 1"
proof (induction xs)
  case (Cons a xs)
  show ?case
  proof (cases "f a = k")
    case True
    have "f a \<notin> f ` set xs" using Cons.prems(1) by simp
    then have "filter (\<lambda>x. f x = k) xs = []" using True by (intro filter_False ballI) (metis image_eqI)
    with True show ?thesis by simp
  next
    case False
    with Cons show ?thesis by simp
  qed
qed simp

text \<open>
  C26 (functional: daylight-saving fall-back).  The timestamp text carries no offset
  (line 28), so two reported values of a type at instants whose local wall-clock times
  coincide (the repeated hour of the October switch) end up as exactly one row of the
  table: one of the two values is lost.
\<close>

theorem update_power_data_dst_collision:
  assumes inv: "case st of None \<Rightarrow> True | Some db \<Rightarrow> db_inv db"
    and q: "query_generation api (now - days * seconds_per_day) now = Inr df"
    and ra: "(ta, ra) \<in> set (tbl_rows df)" and rb: "(tb, rb) \<in> set (tbl_rows df)" and "ta < tb"
    and same: "ta + zone_offset ta = tb + zone_offset tb"
    and gt: "gt \<in> set db_generation_types" "gt \<in> set (tbl_columns df)"
    and v: "ra gt = Some xa" "rb gt = Some xb"
  shows "length (filter (\<lambda>r. row_key r = (tb + zone_offset tb, cc, gt))
            (power_rows (update_power_data api zone_offset now days cc st))) = 1"
proof -
  let ?df = "fetch_entsoe_data api zone_offset (now - days * seconds_per_day) now"
  have rows: "(ta + zone_offset ta, ra) \<in> set (tbl_rows ?df)" "tbl_columns ?df = tbl_columns df"
    using q ra by (force simp: fetch_entsoe_data_def)+
  then have "tbl_rows ?df \<noteq> []" by auto
  then have upd: "update_power_data api zone_offset now days cc st = store_data_in_db ?df cc (setup_database st)"
    by (simp add: update_power_data_def Let_def)
  have "(tb + zone_offset tb, cc, gt) \<in> set (map row_key (power_rows (update_power_data api zone_offset now days cc st)))"
    using store_rows_present [OF rows(1) gt(1) _ v(1)] gt(2) rows(2) same
    by (simp add: upd store_data_in_db_def)
  moreover have "distinct (map row_key (power_rows (update_power_data api zone_offset now days cc st)))"
    using update_power_data_inv [OF inv] by (simp add: db_inv_def)
  ultimately show ?thesis by (rule distinct_key_count [rotated])
qed

subsection \<open>Witnesses\<close>

theorem db_reachable_inv_witness:
  "db_inv (update_power_data
      \<lparr>query_generation = (\<lambda>s e. Inr \<lparr>tbl_columns = [''Solar'', ''Biomass''],
          tbl_rows = [(1700000000, [''Solar'' \<mapsto> 5, ''Biomass'' \<mapsto> 2]), (1700000900, [''Solar'' \<mapsto> (6::int)])]\<rparr>),
       query_load = (\<lambda>s e. Inr [])\<rparr>
      (\<lambda>_. 3600) 1700003600 1 ''LU'' None)"
proof -
  let ?api = "\<lparr>query_generation = (\<lambda>s e. Inr \<lparr>tbl_columns = [''Solar'', ''Biomass''],
          tbl_rows = [(1700000000, [''Solar'' \<mapsto> 5, ''Biomass'' \<mapsto> 2]), (1700000900, [''Solar'' \<mapsto> (6::int)])]\<rparr>),
       query_load = (\<lambda>s e. Inr [])\<rparr>"
  have h: "db_reachable (Some (update_power_data ?api (\<lambda>_. 3600) 1700003600 1 ''LU'' None))"
    by (rule db_reachable.update [OF db_reachable.no_table])
  show ?thesis by (rule db_reachable_inv [OF h])
qed

theorem update_power_data_keeps_rows_witness:
  "\<lparr>row_id = 1, row_timestamp = 1700003600, row_country = ''LU'', row_type = ''Solar'', row_value = 5\<rparr>
   \<in> set (power_rows (update_power_data
      \<lparr>query_generation = (\<lambda>s e. Inr \<lparr>tbl_columns = [''Solar''], tbl_rows = [(1700000000, [''Solar'' \<mapsto> (9::int)])]\<rparr>),
       query_load = (\<lambda>s e. Inr [])\<rparr>
      (\<lambda>_. 3600) 1700003600 1 ''LU''
      (Some \<lparr>power_rows = [\<lparr>row_id = 1, row_timestamp = 1700003600, row_country = ''LU'', row_type = ''Solar'',
                             row_value = 5\<rparr>], seq = 1\<rparr>)))"
proof -
  have h: "\<lparr>row_id = 1, row_timestamp = 1700003600, row_country = ''LU'', row_type = ''Solar'', row_value = (5::int)\<rparr>
      \<in> set (power_rows \<lparr>power_rows = [\<lparr>row_id = 1, row_timestamp = 1700003600, row_country = ''LU'', row_type = ''Solar'',
                             row_value = 5\<rparr>], seq = 1\<rparr>)"
    by simp
  show ?thesis by (rule update_power_data_keeps_rows [OF h])
qed

theorem store_data_in_db_complete_witness:
  "(1700003600, ''LU'', ''Wind Onshore'') \<in> set (map row_key (power_rows (store_data_in_db
      \<lparr>tbl_columns = [''Wind Onshore'', ''Solar''], tbl_rows = [(1700003600, [''Wind Onshore'' \<mapsto> (12::int)])]\<rparr>
      ''LU'' \<lparr>power_rows = [], seq = 0\<rparr>)))"
proof -
  have h1: "(1700003600, [''Wind Onshore'' \<mapsto> (12::int)])
      \<in> set (tbl_rows \<lparr>tbl_columns = [''Wind Onshore'', ''Solar''], tbl_rows = [(1700003600, [''Wind Onshore'' \<mapsto> (12::int)])]\<rparr>)"
    by simp
  have h2: "''Wind Onshore'' \<in> set db_generation_types" by (simp add: db_generation_types_def)
  have h3: "''Wind Onshore'' \<in> set (tbl_columns \<lparr>tbl_columns = [''Wind Onshore'', ''Solar''],
      tbl_rows = [(1700003600, [''Wind Onshore'' \<mapsto> (12::int)])]\<rparr>)" by simp
  have h4: "[''Wind Onshore'' \<mapsto> (12::int)] ''Wind Onshore'' = Some 12" by simp
  show ?thesis by (rule store_data_in_db_complete [OF h1 h2 h3 h4])
qed

theorem update_power_data_fetch_error_witness:
  "update_power_data \<lparr>query_generation = (\<lambda>s e. Inl (ApiError ''503'')), query_load = (\<lambda>s e. Inr ([] :: int frame))\<rparr>
      (\<lambda>_. 3600) 1700003600 7 ''LU'' None = \<lparr>power_rows = [], seq = 0\<rparr>"
proof -
  have h: "query_generation \<lparr>query_generation = (\<lambda>s e. Inl (ApiError ''503'')), query_load = (\<lambda>s e. Inr ([] :: int frame))\<rparr>
      (1700003600 - 7 * seconds_per_day) 1700003600 = Inl (ApiError ''503'')" by simp
  show ?thesis using update_power_data_fetch_error [OF h] by (simp add: setup_database_def)
qed

theorem update_power_data_dst_collision_witness:
  "length (filter (\<lambda>r. row_key r = (1698543000 + fall_back_offset 1698541200 1698543000, ''LU'', ''Solar''))
     (power_rows (update_power_data
      \<lparr>query_generation = (\<lambda>s e. Inr \<lparr>tbl_columns = [''Solar''],
          tbl_rows = [(1698539400, [''Solar'' \<mapsto> 5]), (1698543000, [''Solar'' \<mapsto> (7::int)])]\<rparr>),
       query_load = (\<lambda>s e. Inr [])\<rparr>
      (fall_back_offset 1698541200) 1698544800 1 ''LU'' None))) = 1"
  by (rule update_power_data_dst_collision [where ta = 1698539400 and ra = "[''Solar'' \<mapsto> (5::int)]"
        and rb = "[''Solar'' \<mapsto> (7::int)]" and xa = "5::int" and xb = "7::int"
        and df = "\<lparr>tbl_columns = [''Solar''], tbl_rows = [(1698539400, [''Solar'' \<mapsto> 5]), (1698543000, [''Solar'' \<mapsto> (7::int)])]\<rparr>"])
     (simp_all add: fall_back_offset_def db_generation_types_def)

end
