(* ===== verification/Scraper.thy ===== *)
theory Scraper
  imports Prelude "HOL-Library.Sublist"
begin

text \<open>
  The two report downloads: the ILR installations Excel file of
  \<^verbatim>\<open>src/daily_data_lux.py\<close> (lines 67--89) and the energy-communities PDF of
  \<^verbatim>\<open>src/first_of_month_data_lux.py\<close> (lines 5--30).  The web is an interface
  (\<open>web\<close>): \<open>get\<close> is \<open>requests.get\<close> followed by \<open>raise_for_status\<close>, giving the
  body or an error, and \<open>anchors\<close> is what BeautifulSoup finds as \<open><a>\<close> tags of a page,
  each with its optional \<open>href\<close> attribute and its optional \<open>.string\<close>.
  \<open>soup.find\<close> is the first anchor satisfying the filter (\<open>find\<close>).  Strings are
  Python strings of code points below 256, one \<open>char\<close> each (the accented letter of
  \<open>T\<acute>el\<acute>echarger\<close> is the single code point 0xE9).  The disk is a map from paths
  to contents; any exception inside the \<open>try\<close> block is caught, printed, and leaves the
  disk unchanged.
\<close>

record anchor =
  href :: "string option"
  anchor_string :: "string option"

record web =
  get :: "string \<Rightarrow> string + string"
  anchors :: "string \<Rightarrow> anchor list"

type_synonym disk = "string \<rightharpoonup> string"

datatype outcome = Downloaded string | LinkNotFound | DownloadFailed string

definition public_lu_url :: string where
  "public_lu_url =
     ''https://data.public.lu/fr/datasets/la-production-denergie-electrique-au-luxembourg-1/#/resources''"

definition excel_filename :: string where
  "excel_filename = ''ilr-energie-centrales-de-production-canton-commune-details-v2.xlsx''"

definition ilr_url :: string where
  "ilr_url = ''https://www.ilr.lu/publications/liste-des-communautes-energetiques/''"

definition pdf_filename :: string where
  "pdf_filename = ''ilr-elc-pub-Communautes-Energetiques.pdf''"

definition telecharger :: string where
  "telecharger = ''T'' @ [CHR 0xE9] @ ''l'' @ [CHR 0xE9] @ ''charger''"

definition href_endswith :: "string \<Rightarrow> anchor \<Rightarrow> bool" where
  "href_endswith sfx a = (case href a of None \<Rightarrow> False | Some h \<Rightarrow> h \<noteq> [] \<and> suffix sfx h)"

definition string_contains :: "string \<Rightarrow> anchor \<Rightarrow> bool" where
  "string_contains w a = (case anchor_string a of None \<Rightarrow> False | Some s \<Rightarrow> s \<noteq> [] \<and> sublist w s)"

definition absolute_url :: "string \<Rightarrow> string \<Rightarrow> string" where
  "absolute_url base url = (if prefix ''http'' url then url else base @ url)"

definition save_link :: "web \<Rightarrow> string \<Rightarrow> string \<Rightarrow> anchor option \<Rightarrow> disk \<Rightarrow> outcome \<times> disk" where
  "save_link w base path link d =
     (case link of
        Some a \<Rightarrow>
          (case href a of
             Some h \<Rightarrow>
               (case get w (absolute_url base h) of
                  Inl err \<Rightarrow> (DownloadFailed err, d)
                | Inr content \<Rightarrow> (Downloaded path, d(path \<mapsto> content)))
           | None \<Rightarrow> (LinkNotFound, d))
      | None \<Rightarrow> (LinkNotFound, d))"

definition download_excel :: "web \<Rightarrow> disk \<Rightarrow> outcome \<times> disk" where
  "download_excel w d =
     (case get w public_lu_url of
        Inl err \<Rightarrow> (DownloadFailed err, d)
      | Inr page \<Rightarrow>
          save_link w ''https://data.public.lu'' (''data/'' @ excel_filename)
            (find (href_endswith excel_filename) (anchors w page)) d)"

definition find_pdf_link :: "anchor list \<Rightarrow> anchor option" where
  "find_pdf_link as =
     (case find (string_contains telecharger) as of
        None \<Rightarrow> find (href_endswith ''.pdf'') as
      | Some a \<Rightarrow> Some a)"

definition download_pdf :: "web \<Rightarrow> disk \<Rightarrow> outcome \<times> disk" where
  "download_pdf w d =
     (case get w ilr_url of
        Inl err \<Rightarrow> (DownloadFailed err, d)
      | Inr page \<Rightarrow>
          save_link w ''https://www.ilr.lu'' (''data/'' @ pdf_filename) (find_pdf_link (anchors w page)) d)"

subsection \<open>The download step\<close>

lemma save_link_disk:
  "snd (save_link w base path link d) = d \<or>
   (\<exists>c. save_link w base path link d = (Downloaded path, d(path \<mapsto> c)))"
  by (auto simp: save_link_def split: option.split sum.split)

lemma save_link_failed:
  "fst (save_link w base path link d) \<noteq> Downloaded path \<Longrightarrow> snd (save_link w base path link d) = d"
  by (auto simp: save_link_def split: option.splits sum.splits)

subsection \<open>Properties of the downloads\<close>

text \<open>
  C18 (safety: frame of the Excel download).  The Excel download changes no file of the
  disk except \<open>data/\<close> followed by the Excel file name.
\<close>

theorem download_excel_only_target:
  "p \<noteq> ''data/'' @ excel_filename \<Longrightarrow> snd (download_excel w d) p = d p"
  using save_link_disk [of w "''https://data.public.lu''" "''data/'' @ excel_filename" _ d]
  by (auto simp: download_excel_def split: sum.split) (metis snd_conv fun_upd_other)

text \<open>
  (safety: frame of the PDF download).  The monthly PDF download changes no file of
  the disk except \<open>data/\<close> followed by the PDF file name.
\<close>

theorem download_pdf_only_target:
  "p \<noteq> ''data/'' @ pdf_filename \<Longrightarrow> snd (download_pdf w d) p = d p"
  using save_link_disk [of w "''https://www.ilr.lu''" "''data/'' @ pdf_filename" _ d]
  by (auto simp: download_pdf_def split: sum.split) (metis snd_conv fun_upd_other)

text \<open>
  Error path: the Excel download either reports the file as saved or leaves the
  disk exactly as it was: a failed page fetch, a missing link or a failed file fetch
  writes nothing.
\<close>

theorem download_excel_saved_or_untouched:
  "fst (download_excel w d) = Downloaded (''data/'' @ excel_filename) \<or> snd (download_excel w d) = d"
  using save_link_failed by (auto simp: download_excel_def split: sum.split)

text \<open>
  C20 (functional).  When the page loads, the first anchor whose href ends with the file
  name is found and its (absolutised) URL loads, the body is written to the data file.
\<close>

theorem download_excel_success:
  assumes "get w public_lu_url = Inr page"
    and "find (href_endswith excel_filename) (anchors w page) = Some a"
    and "href a = Some h" and "get w (absolute_url ''https://data.public.lu'' h) = Inr c"
  shows "download_excel w d = (Downloaded (''data/'' @ excel_filename), d(''data/'' @ excel_filename \<mapsto> c))"
  using assms by (simp add: download_excel_def save_link_def)

text \<open>
  C21 (functional: fallback).  When no anchor text contains the download label, the first
  anchor whose href ends in \<open>.pdf\<close> is downloaded.
\<close>

theorem download_pdf_fallback:
  assumes "get w ilr_url = Inr page"
    and "find (string_contains telecharger) (anchors w page) = None"
    and "find (href_endswith ''.pdf'') (anchors w page) = Some a"
    and "href a = Some h" and "get w (absolute_url ''https://www.ilr.lu'' h) = Inr c"
  shows "download_pdf w d = (Downloaded (''data/'' @ pdf_filename), d(''data/'' @ pdf_filename \<mapsto> c))"
  using assms by (simp add: download_pdf_def find_pdf_link_def save_link_def)

text \<open>
  C22 (error path: the fallback is skipped).  Whenever the first anchor whose text contains
  the download label has no href, the PDF download reports that no link was found and
  writes nothing, whatever \<open>.pdf\<close> links the page also has: the fallback of line 17 runs
  only when no labelled anchor exists.
\<close>

theorem download_pdf_hrefless_button_blocks_fallback:
  assumes "get w ilr_url = Inr page"
    and "find (string_contains telecharger) (anchors w page) = Some a" and "href a = None"
  shows "download_pdf w d = (LinkNotFound, d)"
  using assms by (simp add: download_pdf_def find_pdf_link_def save_link_def)

subsection \<open>Witnesses\<close>

theorem download_excel_success_witness:
  "download_excel \<lparr>get = (\<lambda>u. if u = public_lu_url then Inr ''page''
                              else if u = ''https://data.public.lu/r/'' @ excel_filename then Inr ''XLSX''
                              else Inl ''404''),
                   anchors = (\<lambda>_. [\<lparr>href = Some ''/about'', anchor_string = Some ''About''\<rparr>,
                                   \<lparr>href = Some (''/r/'' @ excel_filename), anchor_string = None\<rparr>])\<rparr> Map.empty
   = (Downloaded (''data/'' @ excel_filename), [''data/'' @ excel_filename \<mapsto> ''XLSX''])"
proof -
  let ?w = "\<lparr>get = (\<lambda>u. if u = public_lu_url then Inr ''page''
                              else if u = ''https://data.public.lu/r/'' @ excel_filename then Inr ''XLSX''
                              else Inl ''404''),
                   anchors = (\<lambda>_. [\<lparr>href = Some ''/about'', anchor_string = Some ''About''\<rparr>,
                                   \<lparr>href = Some (''/r/'' @ excel_filename), anchor_string = None\<rparr>])\<rparr>"
  have h1: "get ?w public_lu_url = Inr ''page''" by simp
  have h2: "find (href_endswith excel_filename) (anchors ?w ''page'') = Some \<lparr>href = Some (''/r/'' @ excel_filename), anchor_string = None\<rparr>"
    by (code_simp)
  have h3: "href \<lparr>href = Some (''/r/'' @ excel_filename), anchor_string = None\<rparr> = Some (''/r/'' @ excel_filename)" by simp
  have h4: "get ?w (absolute_url ''https://data.public.lu'' (''/r/'' @ excel_filename)) = Inr ''XLSX''"
    by (simp add: absolute_url_def public_lu_url_def excel_filename_def)
  show ?thesis using download_excel_success [OF h1 h2 h3 h4] by simp
qed

theorem download_excel_only_target_witness:
  "snd (download_excel \<lparr>get = (\<lambda>u. Inr ''page''), anchors = (\<lambda>_. [\<lparr>href = Some (''/r/'' @ excel_filename), anchor_string = None\<rparr>])\<rparr>
          [''data/addresses.csv'' \<mapsto> ''csv'']) ''data/addresses.csv'' = Some ''csv''"
proof -
  have h: "''data/addresses.csv'' \<noteq> ''data/'' @ excel_filename" by (simp add: excel_filename_def)
  show ?thesis using download_excel_only_target [OF h] by simp
qed

theorem download_pdf_only_target_witness:
  "snd (download_pdf \<lparr>get = (\<lambda>u. Inr ''page''), anchors = (\<lambda>_. [\<lparr>href = Some ''/x.pdf'', anchor_string = None\<rparr>])\<rparr>
          [''data/entsoe_lux.csv'' \<mapsto> ''csv'']) ''data/entsoe_lux.csv'' = Some ''csv''"
proof -
  have h: "''data/entsoe_lux.csv'' \<noteq> ''data/'' @ pdf_filename" by (simp add: pdf_filename_def)
  show ?thesis using download_pdf_only_target [OF h] by simp
qed

theorem download_pdf_fallback_witness:
  "download_pdf \<lparr>get = (\<lambda>u. if u = ilr_url then Inr ''page'' else Inr ''PDF''),
                 anchors = (\<lambda>_. [\<lparr>href = Some ''/contact'', anchor_string = Some ''Contact''\<rparr>,
                                 \<lparr>href = Some ''/media/list.pdf'', anchor_string = None\<rparr>])\<rparr> Map.empty
   = (Downloaded (''data/'' @ pdf_filename), [''data/'' @ pdf_filename \<mapsto> ''PDF''])"
proof -
  let ?w = "\<lparr>get = (\<lambda>u. if u = ilr_url then Inr ''page'' else Inr ''PDF''),
                 anchors = (\<lambda>_. [\<lparr>href = Some ''/contact'', anchor_string = Some ''Contact''\<rparr>,
                                 \<lparr>href = Some ''/media/list.pdf'', anchor_string = None\<rparr>])\<rparr>"
  have h1: "get ?w ilr_url = Inr ''page''" by simp
  have h2: "find (string_contains telecharger) (anchors ?w ''page'') = None"
    by (code_simp)
  have h3: "find (href_endswith ''.pdf'') (anchors ?w ''page'') = Some \<lparr>href = Some ''/media/list.pdf'', anchor_string = None\<rparr>"
    by (code_simp)
  have h4: "href \<lparr>href = Some ''/media/list.pdf'', anchor_string = None\<rparr> = Some ''/media/list.pdf''" by simp
  have h5: "get ?w (absolute_url ''https://www.ilr.lu'' ''/media/list.pdf'') = Inr ''PDF''"
    by (simp add: absolute_url_def ilr_url_def)
  show ?thesis using download_pdf_fallback [OF h1 h2 h3 h4 h5] by simp
qed

theorem download_pdf_hrefless_button_blocks_fallback_witness:
  "download_pdf \<lparr>get = (\<lambda>u. Inr ''page''),
      anchors = (\<lambda>_. [\<lparr>href = None, anchor_string = Some telecharger\<rparr>,
                      \<lparr>href = Some ''/media/list.pdf'', anchor_string = None\<rparr>])\<rparr> Map.empty
   = (LinkNotFound, Map.empty)"
  by (rule download_pdf_hrefless_button_blocks_fallback [where a = "\<lparr>href = None, anchor_string = Some telecharger\<rparr>"])
     (simp_all add: ilr_url_def string_contains_def telecharger_def)

end
