(* ===== verification/Dashboard.thy ===== *)
theory Dashboard
  imports Complex_Main FrameOps "HOL-Library.Sublist" "HOL-Library.List_Lexorder" "HOL-Library.Char_ord"
    "HOL-Library.Product_Lexorder"
begin

text \<open>
  The data preparation of the dashboard \<^verbatim>\<open>src/stroumauer_interface.py\<close> (the charts
  themselves are rendering).  An installation row of the ILR Excel sheet has an optional
  type, commune and installed power (\<open>None\<close> is NaN); the sheet also has its column list,
  since the script checks columns by name.  \<open>groupby(...).sum()\<close> drops rows with a NaN
  key, sums the powers skipping NaN (an all-NaN group sums to 0) and lists the groups in
  ascending key order (\<open>group_sum\<close>); Python compares strings by code point, which is the
  lexicographic order on \<open>char\<close> lists.  \<open>agg('mean')\<close> skips NaN (an all-NaN group is
  NaN).  A left merge on a key that is unique on the right attaches the right row or NaN.
  Strings are code points below 256, one \<open>char\<close> each.  The production chart filter
  (lines 127--183) compares the index with the picked dates localised to the index's zone
  (\<open>filter_production\<close>, with that zone's offset in seconds east of UTC); a calendar
  date is a day number, and \<open>pd.to_datetime(date)\<close> localised to the zone is that day's
  midnight there.  Which zone that is depends on how \<open>pd.to_datetime\<close> read the CSV index
  (\<open>index_kind\<close>, lines 141--175): no offsets (naive, compared as wall-clock, offset 0),
  one offset for the whole file (that offset), or offsets that change with summer time
  (an object index, converted with \<open>utc=True\<close>: UTC).  The default dates are the dates
  of the newest row and of the row 7 days earlier in the newest row's own offset.
\<close>

record installation =
  inst_type :: "string option"
  inst_commune :: "string option"
  inst_power :: "real option"

record address =
  addr_commune :: "string option"
  addr_lat :: "real option"
  addr_lon :: "real option"

datatype dashboard_error = StopMissingColumns | ColumnKeyError string

definition pv_label :: string where
  "pv_label = ''Installation photovolta'' @ [CHR 0xEF] @ ''que''"

definition type_col :: string where
  "type_col = ''Type d'' @ [CHR 0x27] @ ''installation''"

definition commune_col :: string where
  "commune_col = ''Commune''"

definition power_col :: string where
  "power_col = ''Sum of Puissance install'' @ [CHR 0xE9] @ ''e (kW)''"

definition energy_types :: "string list" where
  "energy_types = [pv_label, ''Eolienne'', ''Biomasse solide'', ''Hydro'']"

abbreviation power_or_zero :: "real option \<Rightarrow> real" where
  "power_or_zero p \<equiv> (case p of Some v \<Rightarrow> v | None \<Rightarrow> 0)"

definition group_sum :: "('k::linorder option \<times> real option) list \<Rightarrow> ('k \<times> real) list" where
  "group_sum xs =
     map (\<lambda>k. (k, sum_list (map (\<lambda>x. power_or_zero (snd x))
                                 (filter (\<lambda>x. fst x = Some k) xs))))
         (sorted_list_of_set (set (List.map_filter fst xs)))"

definition mean_skipna :: "real option list \<Rightarrow> real option" where
  "mean_skipna xs =
     (let vs = List.map_filter id xs in if vs = [] then None else Some (sum_list vs / real (length vs)))"

definition commune_coordinates :: "address list \<Rightarrow> (string \<times> real option \<times> real option) list" where
  "commune_coordinates addrs =
     map (\<lambda>c. (c, mean_skipna (map addr_lat (filter (\<lambda>a. addr_commune a = Some c) addrs)),
                 mean_skipna (map addr_lon (filter (\<lambda>a. addr_commune a = Some c) addrs))))
         (sorted_list_of_set (set (List.map_filter addr_commune addrs)))"

definition merge_left_dropna ::
  "('k \<Rightarrow> string) \<Rightarrow> ('k \<times> 'v) list \<Rightarrow> (string \<times> real option \<times> real option) list \<Rightarrow>
   ('k \<times> 'v \<times> real \<times> real) list" where
  "merge_left_dropna key left right =
     List.map_filter (\<lambda>(k, v). case map_of right (key k) of
                                 Some (Some lat, Some lon) \<Rightarrow> Some (k, v, lat, lon)
                               | _ \<Rightarrow> None) left"

definition power_by_commune ::
  "string list \<Rightarrow> installation list \<Rightarrow> address list \<Rightarrow>
   dashboard_error + (string \<times> real \<times> real \<times> real) list" where
  "power_by_commune cols sheet addrs =
     (if type_col \<notin> set cols then Inl (ColumnKeyError type_col)
      else if \<not> (commune_col \<in> set cols \<and> power_col \<in> set cols) then Inl StopMissingColumns
      else Inr (merge_left_dropna id
        (group_sum (map (\<lambda>i. (inst_commune i, inst_power i))
                        (filter (\<lambda>i. inst_type i = Some pv_label) sheet)))
        (commune_coordinates addrs)))"

definition lower_char :: "char \<Rightarrow> char" where
  "lower_char c = (if CHR ''A'' \<le> c \<and> c \<le> CHR ''Z'' then char_of (of_char c + (32::nat)) else c)"

definition is_hydro :: "string option \<Rightarrow> bool" where
  "is_hydro t = (case t of None \<Rightarrow> False | Some s \<Rightarrow> sublist ''hydro'' (map lower_char s))"

definition combined_rows :: "installation list \<Rightarrow> installation list" where
  "combined_rows sheet =
     filter (\<lambda>i. inst_type i \<in> Some ` set (filter (\<lambda>t. t \<noteq> ''Hydro'') energy_types)) sheet @
     map (\<lambda>i. i\<lparr>inst_type := Some ''Hydro''\<rparr>) (filter (\<lambda>i. is_hydro (inst_type i)) sheet)"

definition commune_type_key :: "installation \<Rightarrow> (string \<times> string) option" where
  "commune_type_key i =
     (case (inst_commune i, inst_type i) of (Some c, Some t) \<Rightarrow> Some (c, t) | _ \<Rightarrow> None)"

definition power_by_commune_and_type ::
  "installation list \<Rightarrow> address list \<Rightarrow> ((string \<times> string) \<times> real \<times> real \<times> real) list" where
  "power_by_commune_and_type sheet addrs =
     merge_left_dropna fst
       (group_sum (map (\<lambda>i. (commune_type_key i, inst_power i)) (combined_rows sheet)))
       (commune_coordinates addrs)"

definition filter_production :: "int \<Rightarrow> int \<Rightarrow> int \<Rightarrow> 'v frame \<Rightarrow> bool \<times> 'v frame" where
  "filter_production tz_offset start_day end_day df =
     (let s = start_day * seconds_per_day - tz_offset; e = end_day * seconds_per_day - tz_offset
      in if s > e then (True, df) else (False, filter (\<lambda>p. s \<le> fst p \<and> fst p \<le> e) df))"

datatype index_kind = NaiveIndex | FixedOffsetIndex int | MixedOffsetIndex

definition index_offset :: "index_kind \<Rightarrow> int" where
  "index_offset k = (case k of NaiveIndex \<Rightarrow> 0 | FixedOffsetIndex off \<Rightarrow> off | MixedOffsetIndex \<Rightarrow> 0)"

definition local_day :: "int \<Rightarrow> instant \<Rightarrow> int" where
  "local_day tz_offset t = (t + tz_offset) div seconds_per_day"

definition default_range :: "int \<Rightarrow> 'v frame \<Rightarrow> (int \<times> int) option" where
  "default_range now_offset df =
     map_option (\<lambda>now. (local_day now_offset (now - 7 * seconds_per_day), local_day now_offset now)) (index_max df)"

subsection \<open>Group sums, merges and the date filter\<close>

lemma sum_list_indicator:
  "distinct ks \<Longrightarrow> sum_list (map (\<lambda>k. if a = Some k then c else 0) ks) = (if a \<in> Some ` set ks then c else (0::real))"
  by (induction ks) auto

lemma sum_list_groups:
  "distinct ks \<Longrightarrow>
   sum_list (map (\<lambda>k. sum_list (map (\<lambda>x. power_or_zero (snd x)) (filter (\<lambda>x. fst x = Some k) xs))) ks) =
   sum_list (map (\<lambda>x. power_or_zero (snd x)) (filter (\<lambda>x. fst x \<in> Some ` set ks) xs))"
proof (induction xs)
  case Nil
  then show ?case by (simp add: sum_list_const_mult)
next
  case (Cons x xs)
  have "sum_list (map (\<lambda>k. sum_list (map (\<lambda>x. power_or_zero (snd x)) (filter (\<lambda>y. fst y = Some k) (x # xs)))) ks)
      = sum_list (map (\<lambda>k. (if fst x = Some k then power_or_zero (snd x) else 0)
           + sum_list (map (\<lambda>x. power_or_zero (snd x)) (filter (\<lambda>y. fst y = Some k) xs))) ks)"
    by (rule arg_cong [where f = sum_list]) auto
  also have "\<dots> = (if fst x \<in> Some ` set ks then power_or_zero (snd x) else 0)
      + sum_list (map (\<lambda>x. power_or_zero (snd x)) (filter (\<lambda>x. fst x \<in> Some ` set ks) xs))"
    using Cons by (simp add: sum_list_addf sum_list_indicator)
  finally show ?case by simp
qed

lemma map_filter_keys:
  "Some ` set (sorted_list_of_set (set (List.map_filter f xs))) = {a. a \<in> f ` set xs \<and> a \<noteq> None}"
  by (force simp: map_filter_def)

lemma group_sum_total:
  "sum_list (map snd (group_sum xs)) =
   sum_list (map (\<lambda>x. power_or_zero (snd x)) (filter (\<lambda>x. fst x \<noteq> None) xs))"
proof -
  let ?ks = "sorted_list_of_set (set (List.map_filter fst xs))"
  have "filter (\<lambda>x. fst x \<in> Some ` set ?ks) xs = filter (\<lambda>x. fst x \<noteq> None) xs"
    unfolding map_filter_keys by (intro filter_cong) auto
  then show ?thesis
    using sum_list_groups [of ?ks xs] by (simp add: group_sum_def comp_def)
qed

lemma group_sum_member:
  "(k, s) \<in> set (group_sum xs) \<longleftrightarrow>
   Some k \<in> fst ` set xs \<and> s = sum_list (map (\<lambda>x. power_or_zero (snd x)) (filter (\<lambda>x. fst x = Some k) xs))"
  by (auto simp: group_sum_def map_filter_keys_iff image_iff)

lemma merge_left_dropna_member:
  "(k, v, lat, lon) \<in> set (merge_left_dropna key left right) \<longleftrightarrow>
   (k, v) \<in> set left \<and> map_of right (key k) = Some (Some lat, Some lon)"
  by (induction left) (auto simp: merge_left_dropna_def map_filter_simps split: option.splits)

lemma map_of_commune_coordinates:
  "map_of (commune_coordinates addrs) c =
   (if Some c \<in> addr_commune ` set addrs
    then Some (mean_skipna (map addr_lat (filter (\<lambda>a. addr_commune a = Some c) addrs)),
               mean_skipna (map addr_lon (filter (\<lambda>a. addr_commune a = Some c) addrs)))
    else None)"
  by (simp add: commune_coordinates_def map_of_map_key map_filter_keys_iff)

lemma sum_list_filter_disjoint:
  "(\<And>x. x \<in> set xs \<Longrightarrow> \<not> (P x \<and> Q x)) \<Longrightarrow>
   sum_list (map f (filter P xs)) + sum_list (map f (filter Q xs)) =
   sum_list (map f (filter (\<lambda>x. P x \<or> Q x) xs))" for f :: "'a \<Rightarrow> real"
  by (induction xs) auto

lemma energy_types_not_hydro:
  "t \<in> set energy_types \<Longrightarrow> t \<noteq> ''Hydro'' \<Longrightarrow> \<not> is_hydro (Some t)"
  by (auto simp: energy_types_def pv_label_def is_hydro_def) code_simp+

lemma local_day_less_iff:
  "local_day off t < d \<longleftrightarrow> t + off < d * seconds_per_day"
proof -
  let ?q = "(t + off) div 86400" and ?r = "(t + off) mod 86400"
  have "t + off = ?q * 86400 + ?r" by simp
  moreover have "0 \<le> ?r" "?r < 86400" by simp_all
  ultimately show ?thesis unfolding local_day_def seconds_per_day_def by arith
qed

lemma day_start_le_iff:
  "d * seconds_per_day - off \<le> t \<longleftrightarrow> d \<le> local_day off t"
  using local_day_less_iff [of off t d] by linarith

lemma day_end_ge_iff:
  "t \<le> d * seconds_per_day - off \<longleftrightarrow> local_day off t < d \<or> t + off = d * seconds_per_day"
  using local_day_less_iff [of off t d] by linarith

lemma merge_left_dropna_Cons:
  "merge_left_dropna key (x # xs) right =
     (case map_of right (key (fst x)) of
        Some (Some lat, Some lon) \<Rightarrow> (fst x, snd x, lat, lon) # merge_left_dropna key xs right
      | _ \<Rightarrow> merge_left_dropna key xs right)"
  by (cases x) (simp add: merge_left_dropna_def map_filter_simps split: option.split prod.split)

lemma merge_left_dropna_ascending:
  "strictly_ascending left \<Longrightarrow> strictly_ascending (merge_left_dropna key left right)"
proof (induction left)
  case (Cons x xs)
  have "k \<in> fst ` set (merge_left_dropna key xs right) \<Longrightarrow> fst x < k" for k
    using Cons.prems by (force simp: merge_left_dropna_member)
  with Cons show ?case
    by (auto simp: merge_left_dropna_Cons split: option.split prod.split)
qed (simp add: merge_left_dropna_def)

lemma group_sum_ascending: "strictly_ascending (group_sum xs)"
  by (simp add: group_sum_def comp_def)

lemma filter_production_ordered:
  "sd \<le> ed \<Longrightarrow> filter_production off sd ed df =
     (False, filter (\<lambda>p. sd * seconds_per_day - off \<le> fst p \<and> fst p \<le> ed * seconds_per_day - off) df)"
  by (simp add: filter_production_def Let_def seconds_per_day_def)

subsection \<open>Properties of the dashboard data\<close>

lemma commune_coordinates_found:
  "map_of (commune_coordinates addrs) c = Some (Some lat, Some lon) \<longleftrightarrow>
   mean_skipna (map addr_lat (filter (\<lambda>a. addr_commune a = Some c) addrs)) = Some lat \<and>
   mean_skipna (map addr_lon (filter (\<lambda>a. addr_commune a = Some c) addrs)) = Some lon"
proof (cases "Some c \<in> addr_commune ` set addrs")
  case False
  then have "filter (\<lambda>a. addr_commune a = Some c) addrs = []"
    by (force simp: filter_empty_conv)
  with False show ?thesis by (simp add: map_of_commune_coordinates mean_skipna_def)
qed (simp add: map_of_commune_coordinates)

text \<open>The per-commune table \<open>df_grouped\<close> (lines 12--46; it is normalised on lines 48--52
  and then never displayed or plotted) holds a commune exactly when some photovoltaic
  installation of the sheet lies in it and the address register gives it a mean latitude
  and longitude; its power is the sum of the installed powers of the photovoltaic
  installations of that commune (NaN counted as 0).\<close>

theorem power_by_commune_rows:
  assumes "power_by_commune cols sheet addrs = Inr rows"
  shows "(c, p, lat, lon) \<in> set rows \<longleftrightarrow>
    Some c \<in> inst_commune ` set (filter (\<lambda>i. inst_type i = Some pv_label) sheet) \<and>
    p = sum_list (map (\<lambda>i. power_or_zero (inst_power i))
          (filter (\<lambda>i. inst_type i = Some pv_label \<and> inst_commune i = Some c) sheet)) \<and>
    mean_skipna (map addr_lat (filter (\<lambda>a. addr_commune a = Some c) addrs)) = Some lat \<and>
    mean_skipna (map addr_lon (filter (\<lambda>a. addr_commune a = Some c) addrs)) = Some lon"
proof -
  let ?pv = "filter (\<lambda>i. inst_type i = Some pv_label) sheet"
  have rows: "rows = merge_left_dropna id (group_sum (map (\<lambda>i. (inst_commune i, inst_power i)) ?pv))
                       (commune_coordinates addrs)"
    using assms by (simp add: power_by_commune_def split: if_splits)
  show ?thesis
    unfolding rows merge_left_dropna_member group_sum_member id_apply commune_coordinates_found
    by (auto simp: filter_map comp_def filter_filter image_image intro!: arg_cong [where f = sum_list])
qed

text \<open>C27 (functional: the combined map).  The map of installed power by commune and
  technology (lines 66--84, drawn on lines 91--107) has a point for a commune and a type
  exactly when some installation of the combined sheet (photovoltaic, wind, solid biomass,
  or any hydro type relabelled \<open>Hydro\<close>) has that commune and type and the address
  register gives the commune a mean latitude and longitude; its power is the sum of the
  installed powers of those installations (NaN counted as 0), its coordinates the means.\<close>

theorem power_by_commune_and_type_rows:
  "((c, t), p, lat, lon) \<in> set (power_by_commune_and_type sheet addrs) \<longleftrightarrow>
    (\<exists>i \<in> set (combined_rows sheet). inst_commune i = Some c \<and> inst_type i = Some t) \<and>
    p = sum_list (map (\<lambda>i. power_or_zero (inst_power i))
          (filter (\<lambda>i. inst_commune i = Some c \<and> inst_type i = Some t) (combined_rows sheet))) \<and>
    mean_skipna (map addr_lat (filter (\<lambda>a. addr_commune a = Some c) addrs)) = Some lat \<and>
    mean_skipna (map addr_lon (filter (\<lambda>a. addr_commune a = Some c) addrs)) = Some lon"
proof -
  have key: "commune_type_key i = Some (c, t) \<longleftrightarrow> inst_commune i = Some c \<and> inst_type i = Some t" for i
    by (auto simp: commune_type_key_def split: option.splits)
  have key': "Some (c, t) = commune_type_key i \<longleftrightarrow> inst_commune i = Some c \<and> inst_type i = Some t" for i
    using key [of i] by auto
  show ?thesis
    unfolding power_by_commune_and_type_def merge_left_dropna_member group_sum_member fst_conv
      commune_coordinates_found
    by (auto simp: filter_map comp_def key key' image_iff intro!: arg_cong [where f = sum_list])
qed

text \<open>C28. The combined map of all technologies (lines 66--75) counts every installation at most once: the total power over all (commune, technology) groups is the sum over the installations with a commune whose type is photovoltaic, wind or solid biomass, or contains hydro in any letter case.\<close>

theorem combined_total_no_double_count:
  "sum_list (map snd (group_sum (map (\<lambda>i. (commune_type_key i, inst_power i)) (combined_rows sheet)))) =
   sum_list (map (\<lambda>i. power_or_zero (inst_power i))
     (filter (\<lambda>i. inst_commune i \<noteq> None \<and> (inst_type i \<in> Some ` set (filter (\<lambda>t. t \<noteq> ''Hydro'') energy_types) \<or> is_hydro (inst_type i))) sheet))"
proof -
  let ?P = "\<lambda>i. inst_commune i \<noteq> None \<and> inst_type i \<in> Some ` set (filter (\<lambda>t. t \<noteq> ''Hydro'') energy_types)"
  let ?Q = "\<lambda>i. inst_commune i \<noteq> None \<and> is_hydro (inst_type i)"
  have hyd: "is_hydro t \<Longrightarrow> t \<noteq> None" for t by (auto simp: is_hydro_def split: option.splits)
  let ?pw = "\<lambda>i. power_or_zero (inst_power i)"
  let ?relabel = "\<lambda>i. i\<lparr>inst_type := Some ''Hydro''\<rparr>"
  have keyP: "filter (\<lambda>i. commune_type_key i \<noteq> None) (filter (\<lambda>i. inst_type i \<in> Some ` set (filter (\<lambda>t. t \<noteq> ''Hydro'') energy_types)) sheet)
      = filter ?P sheet"
    by (auto simp: filter_filter commune_type_key_def intro!: filter_cong split: option.split)
  have keyQ: "filter (\<lambda>i. commune_type_key i \<noteq> None) (map ?relabel (filter (\<lambda>i. is_hydro (inst_type i)) sheet))
      = map ?relabel (filter ?Q sheet)"
    by (simp add: filter_map filter_filter comp_def commune_type_key_def split: option.split)
       (rule arg_cong [where f = "map ?relabel"], rule filter_cong, auto)
  have "sum_list (map snd (group_sum (map (\<lambda>i. (commune_type_key i, inst_power i)) (combined_rows sheet))))
      = sum_list (map ?pw (filter (\<lambda>i. commune_type_key i \<noteq> None) (combined_rows sheet)))"
    by (simp add: group_sum_total filter_map comp_def)
  also have "\<dots> = sum_list (map ?pw (filter ?P sheet)) + sum_list (map ?pw (filter ?Q sheet))"
    unfolding combined_rows_def filter_append keyP keyQ by (simp add: comp_def)
  also have "\<dots> = sum_list (map (\<lambda>i. power_or_zero (inst_power i)) (filter (\<lambda>i. ?P i \<or> ?Q i) sheet))"
    by (rule sum_list_filter_disjoint) (auto dest: energy_types_not_hydro)
  finally show ?thesis by (simp add: conj_disj_distribL)
qed

text \<open>The rows of the installed-power map are in strictly ascending commune order, so each commune is plotted once.\<close>

theorem power_by_commune_ascending:
  "power_by_commune cols sheet addrs = Inr rows \<Longrightarrow> strictly_ascending rows"
  by (auto simp: power_by_commune_def split: if_splits intro!: merge_left_dropna_ascending group_sum_ascending)

text \<open>. The rows of the combined map are in strictly ascending (commune, technology) order, so each technology of a commune is plotted once.\<close>

theorem power_by_commune_and_type_ascending:
  "strictly_ascending (power_by_commune_and_type sheet addrs)"
  by (simp add: power_by_commune_and_type_def merge_left_dropna_ascending group_sum_ascending)

text \<open>C30. The production chart filter (lines 177--183) selects the rows whose local day lies between the start date and the day before the end date, together with the instant of local midnight that starts the end date; a start date after the end date shows every row with a warning.\<close>

theorem filter_production_days:
  "filter_production off sd ed df =
     (ed < sd, if ed < sd then df
       else filter (\<lambda>p. sd \<le> local_day off (fst p) \<and>
                         (local_day off (fst p) < ed \<or> fst p + off = ed * seconds_per_day)) df)"
proof -
  have "sd * seconds_per_day - off > ed * seconds_per_day - off \<longleftrightarrow> ed < sd"
    by (simp add: seconds_per_day_def)
  then show ?thesis
    by (simp add: filter_production_def day_start_le_iff day_end_ge_iff Let_def)
qed


text \<open>C31. With the default dates (lines 127--135), the newest row of the production CSV is hidden whenever it lies after the midnight, in the index's zone, that starts its own local date: the default end date is the date of the newest row in that row's offset, and the filter ends at that date's midnight in the zone the index has after lines 141--175 (its single offset, or UTC when the file mixes summer and winter offsets).  In a single-offset file this is every newest row not exactly at local midnight.\<close>

theorem default_range_drops_newest:
  assumes "index_max df = Some now"
    and "local_day now_off now * seconds_per_day < now + index_offset kind"
  shows "\<exists>sd ed. default_range now_off df = Some (sd, ed) \<and> sd \<le> ed \<and>
                 now \<notin> fst ` set (snd (filter_production (index_offset kind) sd ed df))"
proof -
  let ?sd = "local_day now_off (now - 7 * seconds_per_day)" and ?ed = "local_day now_off now"
  have le: "?sd \<le> ?ed"
    unfolding local_day_def by (intro zdiv_mono1) (simp_all add: seconds_per_day_def)
  have "\<not> (now \<le> ?ed * seconds_per_day - index_offset kind)"
    using assms(2) by linarith
  then have "now \<notin> fst ` set (snd (filter_production (index_offset kind) ?sd ?ed df))"
    by (auto simp: filter_production_ordered [OF le])
  with le assms(1) show ?thesis by (simp add: default_range_def)
qed

text \<open>The merge of the installed power with the address register is case-sensitive, although the comment on line 34 says it is case-insensitive: a commune spelled with different case in the two sources is dropped from the map.\<close>

theorem merge_case_sensitive_counterexample:
  "power_by_commune [type_col, commune_col, power_col]
     [\<lparr>inst_type = Some pv_label, inst_commune = Some ''Mersch'', inst_power = Some 10\<rparr>]
     [\<lparr>addr_commune = Some ''mersch'', addr_lat = Some 49, addr_lon = Some 6\<rparr>] = Inr []"
  by code_simp

theorem power_by_commune_rows_witness:
  "(''Mersch'', 15::real, 49::real, 6::real) \<in> set [(''Mersch'', 15, 49, 6)] \<longleftrightarrow>
    Some ''Mersch'' \<in> inst_commune ` set (filter (\<lambda>i. inst_type i = Some pv_label)
      [\<lparr>inst_type = Some pv_label, inst_commune = Some ''Mersch'', inst_power = Some 10\<rparr>,
       \<lparr>inst_type = Some pv_label, inst_commune = Some ''Mersch'', inst_power = Some 5\<rparr>,
       \<lparr>inst_type = Some ''Eolienne'', inst_commune = Some ''Mersch'', inst_power = Some 2000\<rparr>]) \<and>
    (15::real) = sum_list (map (\<lambda>i. power_or_zero (inst_power i))
      (filter (\<lambda>i. inst_type i = Some pv_label \<and> inst_commune i = Some ''Mersch'')
      [\<lparr>inst_type = Some pv_label, inst_commune = Some ''Mersch'', inst_power = Some 10\<rparr>,
       \<lparr>inst_type = Some pv_label, inst_commune = Some ''Mersch'', inst_power = Some 5\<rparr>,
       \<lparr>inst_type = Some ''Eolienne'', inst_commune = Some ''Mersch'', inst_power = Some 2000\<rparr>])) \<and>
    mean_skipna (map addr_lat (filter (\<lambda>a. addr_commune a = Some ''Mersch'')
      [\<lparr>addr_commune = Some ''Mersch'', addr_lat = Some 49, addr_lon = Some 6\<rparr>])) = Some 49 \<and>
    mean_skipna (map addr_lon (filter (\<lambda>a. addr_commune a = Some ''Mersch'')
      [\<lparr>addr_commune = Some ''Mersch'', addr_lat = Some 49, addr_lon = Some 6\<rparr>])) = Some 6"
proof -
  have h: "power_by_commune [type_col, commune_col, power_col]
      [\<lparr>inst_type = Some pv_label, inst_commune = Some ''Mersch'', inst_power = Some 10\<rparr>,
       \<lparr>inst_type = Some pv_label, inst_commune = Some ''Mersch'', inst_power = Some 5\<rparr>,
       \<lparr>inst_type = Some ''Eolienne'', inst_commune = Some ''Mersch'', inst_power = Some 2000\<rparr>]
      [\<lparr>addr_commune = Some ''Mersch'', addr_lat = Some 49, addr_lon = Some 6\<rparr>] =
      Inr [(''Mersch'', 15, 49, 6)]"
    by code_simp
  show ?thesis by (rule power_by_commune_rows [OF h])
qed

theorem power_by_commune_ascending_witness:
  "strictly_ascending [(''Diekirch'', 3::real, 49.87::real, 6.16::real), (''Mersch'', 15, 49.75, 6.1)]"
proof -
  have h: "power_by_commune [type_col, commune_col, power_col]
      [\<lparr>inst_type = Some pv_label, inst_commune = Some ''Mersch'', inst_power = Some 15\<rparr>,
       \<lparr>inst_type = Some pv_label, inst_commune = Some ''Diekirch'', inst_power = Some 3\<rparr>]
      [\<lparr>addr_commune = Some ''Mersch'', addr_lat = Some 49.75, addr_lon = Some 6.1\<rparr>,
       \<lparr>addr_commune = Some ''Diekirch'', addr_lat = Some 49.87, addr_lon = Some 6.16\<rparr>] =
      Inr [(''Diekirch'', 3, 49.87, 6.16), (''Mersch'', 15, 49.75, 6.1)]"
    by code_simp
  show ?thesis by (rule power_by_commune_ascending [OF h])
qed

theorem default_range_drops_newest_witness:
  "\<exists>sd ed. default_range 7200 [(1719777600, 410::int), (1719781200, 420)] = Some (sd, ed) \<and> sd \<le> ed \<and>
     1719781200 \<notin> fst ` set (snd (filter_production (index_offset MixedOffsetIndex) sd ed
                                     [(1719777600, 410::int), (1719781200, 420)]))"
  by (rule default_range_drops_newest) (simp_all add: index_max_def index_offset_def local_day_def seconds_per_day_def)

end
