(* ===== verification/Cooperatives.thy ===== *)
theory Cooperatives
  imports Prelude "HOL-Library.Product_Lexorder"
begin

text \<open>
  The cooperatives chart of \<^verbatim>\<open>src/stroumauer_interface.py\<close> (lines 271--293): the
  dates found in the energy-communities PDF, already parsed (the regular-expression search
  and \<open>pd.to_datetime\<close> of lines 253--270 are not modelled), are counted per month
  (\<open>strftime('%Y-%m')\<close> and \<open>Counter\<close>, sorted by month), accumulated with
  \<open>cumsum\<close>, and reindexed over every month from the first to the last with forward
  fill.  A date is (year, month, day); a month label is the pair (year, month), ordered
  lexicographically as the zero-padded labels \<open>'YYYY-MM'\<close> are for four-digit years.
  \<open>pd.date_range(freq='MS')\<close> lists the month numbers \<open>12 * year + month - 1\<close>
  from the first to the last month: \<open>month_range\<close>.
\<close>

type_synonym date = "int \<times> int \<times> int"

definition month_key :: "date \<Rightarrow> int \<times> int" where
  "month_key d = (fst d, fst (snd d))"

definition month_counts :: "date list \<Rightarrow> ((int \<times> int) \<times> nat) list" where
  "month_counts dates =
     (let months = map month_key dates
      in map (\<lambda>k. (k, count_list months k)) (sorted_list_of_set (set months)))"

fun cumsum :: "nat \<Rightarrow> ('k \<times> nat) list \<Rightarrow> ('k \<times> nat) list" where
  "cumsum acc [] = []"
| "cumsum acc ((k, c) # xs) = (k, acc + c) # cumsum (acc + c) xs"

definition month_index :: "int \<times> int \<Rightarrow> int" where
  "month_index m = 12 * fst m + (snd m - 1)"

definition month_of_index :: "int \<Rightarrow> int \<times> int" where
  "month_of_index i = (i div 12, i mod 12 + 1)"

definition month_range :: "int \<times> int \<Rightarrow> int \<times> int \<Rightarrow> (int \<times> int) list" where
  "month_range a b = map month_of_index [month_index a..month_index b]"

definition ffill_lookup :: "('k::linorder \<times> nat) list \<Rightarrow> 'k \<Rightarrow> nat" where
  "ffill_lookup xs k = (case filter (\<lambda>p. fst p \<le> k) xs of [] \<Rightarrow> 0 | ys \<Rightarrow> snd (last ys))"

definition cumulative_months :: "date list \<Rightarrow> ((int \<times> int) \<times> nat) list" where
  "cumulative_months dates =
     (let cs = cumsum 0 (month_counts dates)
      in if cs = [] then []
         else map (\<lambda>k. (k, ffill_lookup cs k)) (month_range (fst (hd cs)) (fst (last cs))))"

datatype coop_chart = NoPdfText | NoValidDates | CoopBars "((int \<times> int) \<times> nat) list"

definition cooperatives_chart :: "date list \<Rightarrow> coop_chart" where
  "cooperatives_chart dates = (if dates = [] then NoValidDates else CoopBars (cumulative_months dates))"

abbreviation valid_month :: "int \<times> int \<Rightarrow> bool" where
  "valid_month m \<equiv> 1 \<le> snd m \<and> snd m \<le> 12"

subsection \<open>Cumulative counts\<close>

lemma cumsum_keys: "map fst (cumsum acc xs) = map fst xs"
  by (induction acc xs rule: cumsum.induct) auto

lemma cumsum_member:
  "sorted_wrt (<) ks \<Longrightarrow> (k, c) \<in> set (cumsum acc (map (\<lambda>j. (j, f j)) ks)) \<Longrightarrow>
   c = acc + sum_list (map f (filter (\<lambda>j. j \<le> k) ks))" for ks :: "'k::linorder list"
proof (induction ks arbitrary: acc)
  case (Cons j ks)
  show ?case
  proof (cases "(k, c) \<in> set (cumsum (acc + f j) (map (\<lambda>j. (j, f j)) ks))")
    case True
    with Cons have "c = acc + f j + sum_list (map f (filter (\<lambda>j. j \<le> k) ks))" by simp
    moreover have "k \<in> set (map fst (cumsum (acc + f j) (map (\<lambda>j. (j, f j)) ks)))"
      using True by force
    then have "k \<in> set ks" by (simp add: cumsum_keys)
    moreover have "j < k" using Cons.prems(1) \<open>k \<in> set ks\<close> by simp
    ultimately show ?thesis by (simp add: less_imp_le)
  next
    case False
    with Cons.prems have "k = j" "c = acc + f j" by auto
    moreover have "filter (\<lambda>i. i \<le> j) ks = []"
      using Cons.prems(1) by (auto simp: filter_empty_conv)
    ultimately show ?thesis by simp
  qed
qed simp

lemma sum_count_list:
  assumes "finite S"
  shows "(\<Sum>j\<in>S. count_list xs j) = length (filter (\<lambda>x. x \<in> S) xs)"
proof (induction xs)
  case (Cons a xs)
  have "(\<Sum>j\<in>S. count_list (a # xs) j) = (\<Sum>j\<in>S. count_list xs j + (if a = j then 1 else 0))"
    by (rule sum.cong) auto
  also have "\<dots> = (\<Sum>j\<in>S. count_list xs j) + (if a \<in> S then 1 else 0)"
    using assms by (simp add: sum.distrib)
  finally show ?case by (simp add: Cons.IH)
qed simp

lemma sorted_le_last: "sorted xs \<Longrightarrow> x \<in> set xs \<Longrightarrow> x \<le> last xs"
  by (induction xs) (auto simp: last_in_set)

lemma month_counts_alt:
  "month_counts dates =
     map (\<lambda>j. (j, count_list (map month_key dates) j)) (sorted_list_of_set (set (map month_key dates)))"
  by (simp add: month_counts_def)

lemma cumsum_month_counts_keys:
  "map fst (cumsum 0 (month_counts dates)) = sorted_list_of_set (month_key ` set dates)"
  by (simp add: cumsum_keys month_counts_alt comp_def)

lemma cumsum_month_counts_member:
  assumes "(k, c) \<in> set (cumsum 0 (month_counts dates))"
  shows "c = length (filter (\<lambda>d. month_key d \<le> k) dates)"
proof -
  let ?ms = "map month_key dates"
  let ?ks = "sorted_list_of_set (set ?ms)"
  have "c = sum_list (map (count_list ?ms) (filter (\<lambda>j. j \<le> k) ?ks))"
    using cumsum_member [of ?ks k c 0 "count_list ?ms"] assms
    by (simp add: month_counts_alt strict_sorted_list_of_set)
  also have "\<dots> = (\<Sum>j\<in>set (filter (\<lambda>j. j \<le> k) ?ks). count_list ?ms j)"
    by (simp add: sum_list_distinct_conv_sum_set)
  also have "\<dots> = length (filter (\<lambda>x. x \<in> set (filter (\<lambda>j. j \<le> k) ?ks)) ?ms)"
    by (simp add: sum_count_list)
  also have "\<dots> = length (filter (\<lambda>x. x \<le> k) ?ms)"
    by (rule arg_cong [where f = length], rule filter_cong) auto
  finally show ?thesis by (simp add: filter_map comp_def)
qed

lemma ffill_lookup_count:
  assumes sorted: "sorted (map fst cs)"
    and vals: "\<And>j c. (j, c) \<in> set cs \<Longrightarrow> c = length (filter (\<lambda>m. m \<le> j) ms)"
    and keys: "set (map fst cs) = set ms"
  shows "ffill_lookup cs k = length (filter (\<lambda>m. m \<le> k) ms)"
proof (cases "filter (\<lambda>p. fst p \<le> k) cs")
  case Nil
  then have "filter (\<lambda>m. m \<le> k) ms = []"
    using keys by (force simp: filter_empty_conv)
  with Nil show ?thesis by (simp add: ffill_lookup_def)
next
  case (Cons y ys')
  let ?ys = "filter (\<lambda>p. fst p \<le> k) cs"
  obtain j c where last: "last ?ys = (j, c)" by fastforce
  have "(j, c) \<in> set ?ys" using last Cons by (metis last_in_set list.distinct(1))
  then have jin: "(j, c) \<in> set cs" and jk: "j \<le> k" by auto
  have ne: "?ys \<noteq> []" using Cons by simp
  have sys: "sorted (map fst ?ys)" using sorted by (simp add: sorted_filter)
  have "filter (\<lambda>m. m \<le> k) ms = filter (\<lambda>m. m \<le> j) ms"
  proof (rule filter_cong)
    fix m assume "m \<in> set ms"
    then obtain p where "p \<in> set cs" "fst p = m" using keys by force
    moreover have "fst p \<le> j" if "p \<in> set ?ys"
    proof -
      have "fst p \<le> last (map fst ?ys)" using that by (intro sorted_le_last [OF sys]) simp
      also have "last (map fst ?ys) = j" using last ne by (simp add: last_map)
      finally show ?thesis .
    qed
    ultimately show "(m \<le> k) = (m \<le> j)" using jk by auto
  qed simp
  then show ?thesis using vals [OF jin] Cons last by (simp add: ffill_lookup_def)
qed

lemma ffill_cumsum_count:
  "ffill_lookup (cumsum 0 (month_counts dates)) k = length (filter (\<lambda>d. month_key d \<le> k) dates)"
proof -
  have "ffill_lookup (cumsum 0 (month_counts dates)) k = length (filter (\<lambda>m. m \<le> k) (map month_key dates))"
    by (rule ffill_lookup_count)
       (simp_all add: cumsum_month_counts_keys cumsum_month_counts_member filter_map comp_def)
  then show ?thesis by (simp add: filter_map comp_def)
qed

lemma month_of_index_inverse: "valid_month m \<Longrightarrow> month_of_index (month_index m) = m"
  by (cases m) (simp add: month_of_index_def month_index_def)

lemma month_index_mono:
  "valid_month a \<Longrightarrow> valid_month b \<Longrightarrow> a \<le> b \<Longrightarrow> month_index a \<le> month_index b"
  by (cases a, cases b) (auto simp: month_index_def less_eq_prod_def)

lemma last_month_range:
  "valid_month a \<Longrightarrow> valid_month b \<Longrightarrow> a \<le> b \<Longrightarrow> month_range a b \<noteq> [] \<and> last (month_range a b) = b"
  using month_index_mono [of a b] upto_rec2 [of "month_index a" "month_index b"]
  by (simp add: month_range_def last_map month_of_index_inverse)

lemma cumulative_months_last:
  assumes "dates \<noteq> []" and valid: "\<forall>d \<in> set dates. 1 \<le> fst (snd d) \<and> fst (snd d) \<le> 12"
  shows "cumulative_months dates \<noteq> [] \<and> snd (last (cumulative_months dates)) = length dates"
proof -
  let ?cs = "cumsum 0 (month_counts dates)"
  let ?ks = "sorted_list_of_set (month_key ` set dates)"
  have keys: "map fst ?cs = ?ks" by (rule cumsum_month_counts_keys)
  have "?ks \<noteq> []" using assms(1) by simp
  then have ne: "?cs \<noteq> []" using keys by (metis list.simps(8))
  have a: "fst (hd ?cs) = hd ?ks" and b: "fst (last ?cs) = last ?ks"
    using keys ne by (metis hd_map, metis last_map)
  have vk: "valid_month m" if "m \<in> set ?ks" for m
    using that valid by (auto simp: month_key_def)
  have all_le: "month_key d \<le> last ?ks" if "d \<in> set dates" for d
    using that by (intro sorted_le_last) simp_all
  have hd_in: "hd ?ks \<in> set ?ks" using \<open>?ks \<noteq> []\<close> by (rule hd_in_set)
  have last_in: "last ?ks \<in> set ?ks" using \<open>?ks \<noteq> []\<close> by (rule last_in_set)
  have hd_le: "hd ?ks \<le> last ?ks"
    using hd_in by (intro sorted_le_last) simp_all
  have range: "month_range (hd ?ks) (last ?ks) \<noteq> [] \<and> last (month_range (hd ?ks) (last ?ks)) = last ?ks"
    using \<open>?ks \<noteq> []\<close> hd_in last_in hd_le by (intro last_month_range vk) simp_all
  have "filter (\<lambda>d. month_key d \<le> last ?ks) dates = dates"
    using all_le by (simp add: filter_id_conv)
  then show ?thesis
    using ne range by (simp add: cumulative_months_def Let_def a b last_map ffill_cumsum_count)
qed

subsection \<open>Properties of the cooperatives chart\<close>

text \<open>C33. Every bar of the cooperatives chart, including the months filled forward, is the
  number of parsed dates in that month or before it.\<close>

theorem cumulative_months_counts:
  "(k, v) \<in> set (cumulative_months dates) \<Longrightarrow> v = length (filter (\<lambda>d. month_key d \<le> k) dates)"
  by (auto simp: cumulative_months_def Let_def ffill_cumsum_count split: if_splits)

theorem cumulative_months_counts_witness:
  "((2023, 2), 1) \<in> set (cumulative_months [(2023, 1, 15), (2023, 3, 2), (2023, 3, 20), (2023, 5, 9)]) \<and>
   (1::nat) = length (filter (\<lambda>d. month_key d \<le> (2023, 2)) [(2023, 1, 15), (2023, 3, 2), (2023, 3, 20), (2023, 5, 9)])"
proof -
  have h: "((2023, 2), 1) \<in> set (cumulative_months [(2023, 1, 15), (2023, 3, 2), (2023, 3, 20), (2023, 5, 9)])"
    by code_simp
  show ?thesis using h cumulative_months_counts [OF h] by simp
qed

end
