(* ===== verification/PdfDates.thy ===== *)
theory PdfDates
  imports Cooperatives
begin

text \<open>
  The input of the cooperatives chart in \<^verbatim>\<open>src/stroumauer_interface.py\<close>: the text of
  the energy-communities PDF (lines 238--249) and the dates found in it (lines 253--270).
  The PDF library is an interface (\<open>pdf_api\<close>): opening the file gives its pages or an
  error (\<open>ImportError\<close> when PyPDF2 is missing), and a page's \<open>extract_text()\<close> gives
  its text, \<open>None\<close> (on which \<open>+\<close> raises \<open>TypeError\<close>) or an error; every error is
  caught and leaves the text empty with a warning.  The three regular expressions of lines
  255--257 are fixed-length patterns of digit classes and literal separators
  (\<open>char_class\<close>); \<open>re.findall\<close> scans left to right for non-overlapping matches
  (\<open>findall\<close>, a \<^theory_text>\<open>function\<close> whose termination measure is the length of the
  rest of the text); \<open>\d\<close> is an ASCII digit, the only decimal digits below code point
  256.  Each match is parsed with the three formats in turn (lines 264--270):
  \<open>pd.to_datetime(d, format=fmt)\<close> succeeds when the separators fit, the day and month
  form a date of the proleptic Gregorian calendar, and the date lies in the range of a
  nanosecond \<open>Timestamp\<close>, 1677-09-22 to 2262-04-11 (otherwise it raises
  \<open>OutOfBoundsDatetime\<close>, which the loop skips).  \<open>format_date\<close> writes a date in one of
  the three formats; it is used by the round-trip theorem, not by the code.
\<close>

datatype char_class = Digit | Lit char

definition is_digit :: "char \<Rightarrow> bool" where
  "is_digit c = (48 \<le> (of_char c :: nat) \<and> (of_char c :: nat) \<le> 57)"

fun class_match :: "char_class \<Rightarrow> char \<Rightarrow> bool" where
  "class_match Digit c = is_digit c"
| "class_match (Lit l) c = (c = l)"

definition matches_at :: "char_class list \<Rightarrow> string \<Rightarrow> bool" where
  "matches_at p s = (length p \<le> length s \<and> list_all2 class_match p (take (length p) s))"

function findall :: "char_class list \<Rightarrow> string \<Rightarrow> string list" where
  "findall p [] = []"
| "findall p (c # cs) =
     (if p \<noteq> [] \<and> matches_at p (c # cs)
      then take (length p) (c # cs) # findall p (drop (length p) (c # cs))
      else findall p cs)"
  by pat_completeness auto
termination
  by (relation "measure (\<lambda>(p, s). length s)") auto

definition slash_pattern :: "char_class list" where
  "slash_pattern = [Digit, Digit, Lit CHR ''/'', Digit, Digit, Lit CHR ''/'', Digit, Digit, Digit, Digit]"

definition dot_pattern :: "char_class list" where
  "dot_pattern = [Digit, Digit, Lit CHR ''.'', Digit, Digit, Lit CHR ''.'', Digit, Digit, Digit, Digit]"

definition iso_pattern :: "char_class list" where
  "iso_pattern = [Digit, Digit, Digit, Digit, Lit CHR ''-'', Digit, Digit, Lit CHR ''-'', Digit, Digit]"

definition date_patterns :: "char_class list list" where
  "date_patterns = [slash_pattern, dot_pattern, iso_pattern]"

definition digit_val :: "char \<Rightarrow> nat" where
  "digit_val c = of_char c - 48"

definition read_num :: "string \<Rightarrow> nat" where
  "read_num s = foldl (\<lambda>n c. 10 * n + digit_val c) 0 s"

datatype date_format = FmtDMYSlash | FmtDMYDot | FmtYMD

definition date_formats :: "date_format list" where
  "date_formats = [FmtDMYSlash, FmtDMYDot, FmtYMD]"

definition format_pattern :: "date_format \<Rightarrow> char_class list" where
  "format_pattern f = (case f of FmtDMYSlash \<Rightarrow> slash_pattern | FmtDMYDot \<Rightarrow> dot_pattern | FmtYMD \<Rightarrow> iso_pattern)"

definition date_fields :: "date_format \<Rightarrow> string \<Rightarrow> date" where
  "date_fields f s =
     (case f of
        FmtYMD \<Rightarrow> (int (read_num (take 4 s)), int (read_num (take 2 (drop 5 s))), int (read_num (drop 8 s)))
      | _ \<Rightarrow> (int (read_num (drop 6 s)), int (read_num (take 2 (drop 3 s))), int (read_num (take 2 s))))"

definition leap_year :: "int \<Rightarrow> bool" where
  "leap_year y = (4 dvd y \<and> (\<not> 100 dvd y \<or> 400 dvd y))"

definition days_in_month :: "int \<Rightarrow> int \<Rightarrow> int" where
  "days_in_month y m =
     (if m = 2 then (if leap_year y then 29 else 28)
      else if m \<in> {4, 6, 9, 11} then 30 else 31)"

definition in_timestamp_range :: "date \<Rightarrow> bool" where
  "in_timestamp_range d = ((1677, 9, 21) < d \<and> d \<le> (2262, 4, 11))"

definition valid_date :: "date \<Rightarrow> bool" where
  "valid_date d =
     (case d of (y, m, dd) \<Rightarrow> 1 \<le> m \<and> m \<le> 12 \<and> 1 \<le> dd \<and> dd \<le> days_in_month y m \<and> in_timestamp_range d)"

definition parse_date :: "date_format \<Rightarrow> string \<Rightarrow> date option" where
  "parse_date f s =
     (if length s = length (format_pattern f) \<and> matches_at (format_pattern f) s \<and> valid_date (date_fields f s)
      then Some (date_fields f s) else None)"

definition parse_any :: "string \<Rightarrow> date option" where
  "parse_any s = (case List.map_filter (\<lambda>f. parse_date f s) date_formats of [] \<Rightarrow> None | d # _ \<Rightarrow> Some d)"

definition extract_dates :: "string \<Rightarrow> date list" where
  "extract_dates text = List.map_filter parse_any (concat (map (\<lambda>p. findall p text) date_patterns))"

datatype pdf_error = PdfImportError | PdfReadError string

record 'p pdf_api =
  open_pdf :: "string \<Rightarrow> pdf_error + 'p list"
  extract_text :: "'p \<Rightarrow> pdf_error + string option"

datatype pdf_warning = PyPDF2Missing | CouldNotRead string

definition newline :: char where
  "newline = CHR 0x0A"

fun collect_text :: "('p \<Rightarrow> pdf_error + string option) \<Rightarrow> string \<Rightarrow> 'p list \<Rightarrow> pdf_error + string" where
  "collect_text ex acc [] = Inr acc"
| "collect_text ex acc (p # ps) =
     (case ex p of
        Inl e \<Rightarrow> Inl e
      | Inr None \<Rightarrow> Inl (PdfReadError ''TypeError'')
      | Inr (Some t) \<Rightarrow> collect_text ex (acc @ t @ [newline]) ps)"

definition pdf_text :: "'p pdf_api \<Rightarrow> string \<Rightarrow> string \<times> pdf_warning list" where
  "pdf_text api path =
     (case (case open_pdf api path of Inl e \<Rightarrow> Inl e | Inr pages \<Rightarrow> collect_text (extract_text api) [] pages) of
        Inl PdfImportError \<Rightarrow> ([], [PyPDF2Missing])
      | Inl (PdfReadError m) \<Rightarrow> ([], [CouldNotRead m])
      | Inr t \<Rightarrow> (t, []))"

definition cooperatives_section :: "string \<Rightarrow> coop_chart" where
  "cooperatives_section text = (if text = [] then NoPdfText else cooperatives_chart (extract_dates text))"

fun digits_fixed :: "nat \<Rightarrow> nat \<Rightarrow> string" where
  "digits_fixed 0 n = []"
| "digits_fixed (Suc k) n = digits_fixed k (n div 10) @ [char_of (48 + n mod 10)]"

definition format_date :: "date_format \<Rightarrow> date \<Rightarrow> string" where
  "format_date f d =
     (case d of (y, m, dd) \<Rightarrow>
       (case f of
          FmtDMYSlash \<Rightarrow> digits_fixed 2 (nat dd) @ ''/'' @ digits_fixed 2 (nat m) @ ''/'' @ digits_fixed 4 (nat y)
        | FmtDMYDot \<Rightarrow> digits_fixed 2 (nat dd) @ ''.'' @ digits_fixed 2 (nat m) @ ''.'' @ digits_fixed 4 (nat y)
        | FmtYMD \<Rightarrow> digits_fixed 4 (nat y) @ ''-'' @ digits_fixed 2 (nat m) @ ''-'' @ digits_fixed 2 (nat dd)))"

subsection \<open>Scanning and parsing\<close>

lemma list_all2_class_lit:
  "list_all2 class_match p xs \<Longrightarrow> Lit l \<in> set p \<Longrightarrow> l \<in> set xs"
  by (induction p arbitrary: xs) (auto simp: list_all2_Cons1)

lemma findall_no_lit:
  "Lit l \<in> set p \<Longrightarrow> l \<notin> set s \<Longrightarrow> findall p s = []"
proof (induction p s rule: findall.induct)
  case (2 p c cs)
  have "\<not> matches_at p (c # cs)"
  proof
    assume "matches_at p (c # cs)"
    then have "l \<in> set (take (length p) (c # cs))"
      using "2.prems"(1) by (auto simp: matches_at_def intro: list_all2_class_lit)
    with "2.prems"(2) show False by (auto dest: in_set_takeD)
  qed
  with 2 show ?case by simp
qed simp

lemma matches_at_append_stop:
  assumes stop: "\<forall>cl \<in> set p. \<not> class_match cl c"
  shows "matches_at p (xs @ c # ys) = matches_at p xs"
proof
  assume m: "matches_at p (xs @ c # ys)"
  have "length p \<le> length xs"
  proof (rule ccontr)
    assume "\<not> length p \<le> length xs"
    then have i: "length xs < length p" by simp
    from m have "list_all2 class_match p (take (length p) (xs @ c # ys))" by (simp add: matches_at_def)
    then have "class_match (p ! length xs) (take (length p) (xs @ c # ys) ! length xs)"
      using i by (simp add: list_all2_conv_all_nth)
    then have "class_match (p ! length xs) c"
      using i by (cases "length p - length xs") (simp_all add: nth_append)
    with stop i show False by (meson nth_mem)
  qed
  with m show "matches_at p xs" by (simp add: matches_at_def take_append)
next
  assume "matches_at p xs"
  then show "matches_at p (xs @ c # ys)" by (auto simp: matches_at_def take_append)
qed

lemma findall_append_sep:
  "\<forall>cl \<in> set p. \<not> class_match cl c \<Longrightarrow> findall p (xs @ c # ys) = findall p xs @ findall p ys"
proof (induction p xs rule: findall.induct)
  case (1 p)
  have "\<not> (p \<noteq> [] \<and> matches_at p (c # ys))"
    using matches_at_append_stop [OF "1.prems", of "[]" ys] by (simp add: matches_at_def)
  then show ?case by auto
next
  case (2 p d ds)
  have eq: "findall p ((d # ds) @ c # ys) =
      (if p \<noteq> [] \<and> matches_at p ((d # ds) @ c # ys)
       then take (length p) ((d # ds) @ c # ys) # findall p (drop (length p) ((d # ds) @ c # ys))
       else findall p (ds @ c # ys))"
    by simp
  show ?case
  proof (cases "p \<noteq> [] \<and> matches_at p (d # ds)")
    case True
    then have "length p \<le> length (d # ds)" by (simp add: matches_at_def)
    then have "take (length p) ((d # ds) @ c # ys) = take (length p) (d # ds)"
      and "drop (length p) ((d # ds) @ c # ys) = drop (length p) (d # ds) @ c # ys"
      by (simp_all only: take_append drop_append) simp_all
    with True "2.IH"(1) "2.prems" matches_at_append_stop [OF "2.prems", of "d # ds" ys] show ?thesis
      unfolding eq by (simp del: append_Cons)
  next
    case False
    then have c: "\<not> (p \<noteq> [] \<and> matches_at p ((d # ds) @ c # ys))"
      using matches_at_append_stop [OF "2.prems", of "d # ds" ys] by simp
    have "findall p ((d # ds) @ c # ys) = findall p (ds @ c # ys)"
      by (rule trans [OF eq if_not_P [OF c]])
    also have "\<dots> = findall p ds @ findall p ys" using False "2.IH"(2) "2.prems" by simp
    also have "findall p ds = findall p (d # ds)" using False by auto
    finally show ?thesis .
  qed
qed

lemma digits_fixed_length [simp]: "length (digits_fixed k n) = k"
  by (induction k arbitrary: n) auto

lemma digit_char_val: "d < 10 \<Longrightarrow> digit_val (char_of (48 + d)) = d"
  by (simp add: digit_val_def of_char_of)

lemma read_num_snoc: "read_num (xs @ [c]) = 10 * read_num xs + digit_val c"
  by (simp add: read_num_def)

lemma read_num_digits_fixed: "read_num (digits_fixed k n) = n mod 10 ^ k"
proof (induction k arbitrary: n)
  case 0
  then show ?case by (simp add: read_num_def)
next
  case (Suc k)
  have "read_num (digits_fixed (Suc k) n) = 10 * ((n div 10) mod 10 ^ k) + n mod 10"
    by (simp add: read_num_snoc Suc.IH digit_char_val)
  also have "\<dots> = n mod 10 ^ Suc k" by (simp add: mod_mult2_eq)
  finally show ?case .
qed

lemma digits_fixed_class: "list_all2 class_match (replicate k Digit) (digits_fixed k n)"
proof (induction k arbitrary: n)
  case (Suc k)
  have "is_digit (char_of (48 + n mod 10))" by (simp add: is_digit_def of_char_of)
  then have "list_all2 class_match (replicate k Digit @ [Digit]) (digits_fixed k (n div 10) @ [char_of (48 + n mod 10)])"
    using Suc.IH by (intro list_all2_appendI) simp_all
  then show ?case by (simp add: replicate_append_same)
qed simp

lemma digits_fixed_digits: "c \<in> set (digits_fixed k n) \<Longrightarrow> is_digit c"
  by (induction k arbitrary: n) (auto simp: is_digit_def of_char_of)

lemma sep_not_digit: "\<not> is_digit CHR ''/''" "\<not> is_digit CHR ''.''" "\<not> is_digit CHR ''-''"
  by (simp_all add: is_digit_def)

lemma matches_at_nth: "matches_at p s \<Longrightarrow> i < length p \<Longrightarrow> class_match (p ! i) (s ! i)"
  by (auto simp: matches_at_def list_all2_conv_all_nth)

lemma matches_at_full: "list_all2 class_match p s \<Longrightarrow> matches_at p s"
  by (simp add: matches_at_def list_all2_lengthD)

lemma findall_whole: "p \<noteq> [] \<Longrightarrow> list_all2 class_match p s \<Longrightarrow> findall p s = [s]"
  by (cases s) (auto simp: matches_at_full list_all2_lengthD dest: list_all2_lengthD)

lemma valid_date_bounds:
  "valid_date (y, m, dd) \<Longrightarrow> 1677 \<le> y \<and> y \<le> 2262 \<and> 1 \<le> m \<and> m \<le> 12 \<and> 1 \<le> dd \<and> dd \<le> 31"
  by (auto simp: valid_date_def in_timestamp_range_def days_in_month_def less_prod_def less_eq_prod_def
           split: if_splits)

lemma pattern_shapes:
  "slash_pattern = replicate 2 Digit @ Lit CHR ''/'' # replicate 2 Digit @ Lit CHR ''/'' # replicate 4 Digit"
  "dot_pattern = replicate 2 Digit @ Lit CHR ''.'' # replicate 2 Digit @ Lit CHR ''.'' # replicate 4 Digit"
  "iso_pattern = replicate 4 Digit @ Lit CHR ''-'' # replicate 2 Digit @ Lit CHR ''-'' # replicate 2 Digit"
  by (simp_all add: slash_pattern_def dot_pattern_def iso_pattern_def numeral_eq_Suc)

lemma fields_dmy:
  "f \<noteq> FmtYMD \<Longrightarrow> date_fields f (digits_fixed 2 a @ c1 # digits_fixed 2 b @ c2 # digits_fixed 4 e) =
     (int (e mod 10000), int (b mod 100), int (a mod 100))"
  by (cases f) (simp_all add: date_fields_def read_num_digits_fixed)

lemma fields_ymd:
  "date_fields FmtYMD (digits_fixed 4 e @ c1 # digits_fixed 2 b @ c2 # digits_fixed 2 a) =
     (int (e mod 10000), int (b mod 100), int (a mod 100))"
  by (simp add: date_fields_def read_num_digits_fixed)

lemma shape_class:
  "list_all2 class_match (replicate i Digit @ Lit c1 # replicate j Digit @ Lit c2 # replicate k Digit)
     (digits_fixed i a @ c1 # digits_fixed j b @ c2 # digits_fixed k e)"
  by (simp add: list_all2_append digits_fixed_class)

lemma format_date_class: "list_all2 class_match (format_pattern f) (format_date f d)"
  by (cases d, cases f) (simp_all add: format_date_def format_pattern_def pattern_shapes shape_class)

lemma format_date_length: "length (format_date f d) = length (format_pattern f)"
  using format_date_class by (rule list_all2_lengthD [symmetric])

lemma format_date_fields: "valid_date d \<Longrightarrow> date_fields f (format_date f d) = d"
proof -
  assume v: "valid_date d"
  obtain y m dd where d: "d = (y, m, dd)" by (cases d)
  from v d have b: "1677 \<le> y" "y \<le> 2262" "1 \<le> m" "m \<le> 12" "1 \<le> dd" "dd \<le> 31"
    using valid_date_bounds by blast+
  then have "nat y mod 10000 = nat y" "nat m mod 100 = nat m" "nat dd mod 100 = nat dd" by simp_all
  with b d show ?thesis
    by (cases f) (simp_all add: format_date_def fields_dmy fields_ymd)
qed

lemma format_date_chars:
  "x \<in> set (format_date f d) \<Longrightarrow>
   is_digit x \<or> x = (case f of FmtDMYSlash \<Rightarrow> CHR ''/'' | FmtDMYDot \<Rightarrow> CHR ''.'' | FmtYMD \<Rightarrow> CHR ''-'')"
  by (cases d, cases f) (auto simp: format_date_def intro: digits_fixed_digits)

lemma findall_other_format:
  assumes "Lit c \<in> set p" and "\<not> is_digit c"
    and "c \<noteq> (case f of FmtDMYSlash \<Rightarrow> CHR ''/'' | FmtDMYDot \<Rightarrow> CHR ''.'' | FmtYMD \<Rightarrow> CHR ''-'')"
  shows "findall p (format_date f d) = []"
  by (rule findall_no_lit [OF assms(1)]) (use assms format_date_chars in blast)

lemma no_match_at: "i < length p \<Longrightarrow> p ! i = Lit c \<Longrightarrow> s ! i \<noteq> c \<Longrightarrow> \<not> matches_at p s"
  using matches_at_nth by fastforce

lemma digits_fixed_nth: "i < k \<Longrightarrow> is_digit (digits_fixed k n ! i)"
  by (rule digits_fixed_digits [of _ k n]) simp

lemma digit_not_sep: "is_digit x \<Longrightarrow> x \<noteq> CHR ''/'' \<and> x \<noteq> CHR ''.'' \<and> x \<noteq> CHR ''-''"
  using sep_not_digit by blast

lemma parse_other_format:
  assumes "f' \<noteq> f" shows "parse_date f' (format_date f d) = None"
proof -
  obtain y m dd where d: "d = (y, m, dd)" by (cases d)
  have "\<not> matches_at (format_pattern f') (format_date f d)"
  proof (cases f')
    case FmtYMD
    with assms have "format_date f d ! 4 \<noteq> CHR ''-''"
      using digit_not_sep digits_fixed_nth [of 1 2 "nat m"]
      by (cases f) (auto simp: d format_date_def nth_append)
    with FmtYMD show ?thesis
      by (intro no_match_at [where i = 4]) (simp_all add: format_pattern_def iso_pattern_def)
  next
    case FmtDMYSlash
    with assms have "format_date f d ! 2 \<noteq> CHR ''/''"
      using digit_not_sep digits_fixed_nth [of 2 4 "nat y"]
      by (cases f) (auto simp: d format_date_def nth_append)
    with FmtDMYSlash show ?thesis
      by (intro no_match_at [where i = 2]) (simp_all add: format_pattern_def slash_pattern_def)
  next
    case FmtDMYDot
    with assms have "format_date f d ! 2 \<noteq> CHR ''.''"
      using digit_not_sep digits_fixed_nth [of 2 4 "nat y"]
      by (cases f) (auto simp: d format_date_def nth_append)
    with FmtDMYDot show ?thesis
      by (intro no_match_at [where i = 2]) (simp_all add: format_pattern_def dot_pattern_def)
  qed
  then show ?thesis by (simp add: parse_date_def)
qed

lemma findall_own_format: "findall (format_pattern f) (format_date f d) = [format_date f d]"
  by (rule findall_whole [OF _ format_date_class]) (cases f, simp_all add: format_pattern_def pattern_shapes)

lemma findall_date_patterns:
  "concat (map (\<lambda>p. findall p (format_date f d)) date_patterns) = [format_date f d]"
  using findall_own_format [of f d] sep_not_digit
  by (cases f) (simp_all add: date_patterns_def format_pattern_def findall_other_format
                  slash_pattern_def dot_pattern_def iso_pattern_def)

lemma parse_any_format: "valid_date d \<Longrightarrow> parse_any (format_date f d) = Some d"
proof -
  assume v: "valid_date d"
  have own: "parse_date f (format_date f d) = Some d"
    using v format_date_class [of f d] format_date_length [of f d] format_date_fields [OF v, of f]
    by (simp add: parse_date_def matches_at_full)
  then show ?thesis
    by (cases f) (simp_all add: parse_any_def date_formats_def parse_other_format)
qed

lemma parse_date_valid: "parse_date f s = Some d \<Longrightarrow> valid_date d"
  by (simp add: parse_date_def split: if_splits)

lemma parse_any_some: "parse_any s = Some d \<Longrightarrow> \<exists>f. parse_date f s = Some d"
proof -
  assume h: "parse_any s = Some d"
  then have "d \<in> set (List.map_filter (\<lambda>f. parse_date f s) date_formats)"
    by (auto simp: parse_any_def split: list.splits)
  then show ?thesis by (auto simp: map_filter_keys_iff)
qed

lemma collect_text_pages:
  "map ex pages = map (\<lambda>t. Inr (Some t)) texts \<Longrightarrow>
   collect_text ex acc pages = Inr (acc @ concat (map (\<lambda>t. t @ [newline]) texts))"
proof (induction pages arbitrary: texts acc)
  case (Cons p ps)
  then obtain t ts where "texts = t # ts" "ex p = Inr (Some t)" "map ex ps = map (\<lambda>t. Inr (Some t)) ts"
    by (cases texts) auto
  with Cons.IH show ?case by simp
qed simp

lemma newline_stop: "p \<in> set date_patterns \<Longrightarrow> \<forall>cl \<in> set p. \<not> class_match cl newline"
  by (auto simp: date_patterns_def slash_pattern_def dot_pattern_def iso_pattern_def newline_def is_digit_def)

lemma findall_pages:
  "\<forall>cl \<in> set p. \<not> class_match cl newline \<Longrightarrow>
   findall p (concat (map (\<lambda>t. t @ [newline]) ts)) = concat (map (findall p) ts)"
  by (induction ts) (simp_all add: findall_append_sep)

lemma sum_list_swap:
  "sum_list (map (\<lambda>x. sum_list (map (F x) ys)) xs) = sum_list (map (\<lambda>y. sum_list (map (\<lambda>x. F x y) xs)) ys)"
  for F :: "'a \<Rightarrow> 'b \<Rightarrow> 'c::comm_monoid_add"
  by (induction xs) (simp_all add: sum_list_addf)

lemma mset_map_filter_concat:
  "mset (List.map_filter f (concat xss)) = sum_list (map (\<lambda>xs. mset (List.map_filter f xs)) xss)"
  by (induction xss) (simp_all add: List.map_filter_def)

lemma mset_findall_pages:
  "p \<in> set date_patterns \<Longrightarrow>
   mset (List.map_filter parse_any (findall p (concat (map (\<lambda>t. t @ [newline]) ts)))) =
   sum_list (map (\<lambda>t. mset (List.map_filter parse_any (findall p t))) ts)"
  by (simp add: findall_pages newline_stop mset_map_filter_concat o_def)

lemma extract_dates_pages:
  "mset (extract_dates (concat (map (\<lambda>t. t @ [newline]) ts))) = sum_list (map (\<lambda>t. mset (extract_dates t)) ts)"
proof -
  let ?F = "\<lambda>p t. mset (List.map_filter parse_any (findall p t))"
  have "mset (extract_dates (concat (map (\<lambda>t. t @ [newline]) ts))) =
      sum_list (map (\<lambda>p. ?F p (concat (map (\<lambda>t. t @ [newline]) ts))) date_patterns)"
    by (simp add: extract_dates_def mset_map_filter_concat o_def)
  also have "\<dots> = sum_list (map (\<lambda>p. sum_list (map (?F p) ts)) date_patterns)"
    by (rule arg_cong [where f = sum_list], rule map_cong) (simp_all add: mset_findall_pages)
  also have "\<dots> = sum_list (map (\<lambda>t. mset (extract_dates t)) ts)"
    by (subst sum_list_swap) (simp add: extract_dates_def mset_map_filter_concat o_def)
  finally show ?thesis .
qed

lemma parse_any_valid: "parse_any s = Some d \<Longrightarrow> valid_date d"
  by (blast dest: parse_any_some intro: parse_date_valid)

lemma valid_date_month: "valid_date d \<Longrightarrow> 1 \<le> fst (snd d) \<and> fst (snd d) \<le> 12"
  by (cases d) (simp add: valid_date_def)

lemma extract_dates_parsed: "d \<in> set (extract_dates s) \<Longrightarrow> \<exists>x. parse_any x = Some d"
  by (auto simp: extract_dates_def map_filter_keys_iff)

lemma size_sum_list_mset: "size (sum_list (map f xs)) = sum_list (map (\<lambda>x. size (f x :: 'a multiset)) xs)"
  by (induction xs) simp_all

subsection \<open>Properties of the date extraction\<close>

text \<open>C34. A date written in any of the three formats the code searches for, and valid for
  pandas, is found in the text and parsed back to itself, exactly once.\<close>

theorem extract_dates_roundtrip:
  "valid_date d \<Longrightarrow> extract_dates (format_date f d) = [d]"
  by (simp add: extract_dates_def findall_date_patterns parse_any_format)

theorem extract_dates_roundtrip_witness:
  "valid_date (2023, 3, 15) \<and> extract_dates (format_date FmtDMYDot (2023, 3, 15)) = [(2023, 3, 15)]"
proof -
  have h: "valid_date (2023, 3, 15)"
    by (simp add: valid_date_def days_in_month_def in_timestamp_range_def)
  show ?thesis using h extract_dates_roundtrip [OF h, of FmtDMYDot] by simp
qed

end
