(* ===== verification/CsvStore.thy ===== *)
theory CsvStore
  imports Prelude
begin

text \<open>
  The CSV file that carries the series from one run of \<^verbatim>\<open>src/daily_data_lux.py\<close> to
  the next: \<open>updated.to_csv(csv_path)\<close> (line 63) and
  \<open>pd.read_csv(csv_path, header=0, skiprows=[1], index_col=0)\<close> followed by
  \<open>pd.to_datetime\<close> of the index (lines 30--31; the dashboard reads the file the same way,
  line 117).  A file is a list of lines: \<open>to_csv\<close> writes one header line per level of
  the column index and then one line per row; the text of a cell is abstracted into the row
  payload \<open>'r\<close>, which \<open>to_csv\<close> prints and \<open>read_csv\<close> parses back unchanged (float
  \<open>repr\<close> and ISO timestamps with offset round-trip).  The reader drops line 1, takes
  line 0 as the header, and parses every further line as a row; a header line met there
  has a label that is not a date, and \<open>to_datetime\<close> raises.
\<close>

datatype 'r csv_line = HeaderLine "string list" | DataLine instant 'r

datatype csv_error = EmptyDataError | DateParseError

definition to_csv_lines :: "string list list \<Rightarrow> (instant \<times> 'r) list \<Rightarrow> 'r csv_line list" where
  "to_csv_lines headers rows = map HeaderLine headers @ map (\<lambda>(t, r). DataLine t r) rows"

definition data_row :: "'r csv_line \<Rightarrow> (instant \<times> 'r) option" where
  "data_row l = (case l of DataLine t r \<Rightarrow> Some (t, r) | HeaderLine _ \<Rightarrow> None)"

definition read_csv_skip1 :: "'r csv_line list \<Rightarrow> csv_error + (instant \<times> 'r) list" where
  "read_csv_skip1 lines =
     (case lines of
        [] \<Rightarrow> Inl EmptyDataError
      | _ # rest \<Rightarrow>
          (case those (map data_row (drop 1 rest)) of
             None \<Rightarrow> Inl DateParseError
           | Some rows \<Rightarrow> Inr rows))"

lemma those_data_rows: "those (map data_row (map (\<lambda>(t, r). DataLine t r) rows)) = Some rows"
  by (induction rows) (auto simp: data_row_def)

lemma read_csv_to_csv:
  "read_csv_skip1 (to_csv_lines [h0] rows) = Inr (drop 1 rows)"
  "read_csv_skip1 (to_csv_lines [h0, h1] rows) = Inr rows"
proof -
  have "drop 1 (map (\<lambda>(t, r). DataLine t r) rows) = map (\<lambda>(t, r). DataLine t r) (drop 1 rows)"
    by (simp add: drop_map)
  then show "read_csv_skip1 (to_csv_lines [h0] rows) = Inr (drop 1 rows)"
    "read_csv_skip1 (to_csv_lines [h0, h1] rows) = Inr rows"
    by (simp_all add: read_csv_skip1_def to_csv_lines_def those_data_rows del: map_map)
qed

text \<open>Writing the series and reading it back returns the series exactly when the
  file has two header lines (a two-level column index, which \<open>skiprows=[1]\<close> expects); with
  one header line, \<open>skiprows=[1]\<close> drops the oldest row of the series on every read.\<close>

theorem csv_roundtrip:
  "read_csv_skip1 (to_csv_lines [h0, h1] rows) = Inr rows \<and>
   read_csv_skip1 (to_csv_lines [h0] rows) = Inr (drop 1 rows)"
  by (simp add: read_csv_to_csv)

end
