(* ===== verification/DailyJob.thy ===== *)
theory DailyJob
  imports DailyRun CsvStore
begin

text \<open>
  One execution of \<^verbatim>\<open>src/daily_data_lux.py\<close> (lines 10--64) as it acts on the CSV
  file \<^verbatim>\<open>data/entsoe_lux.csv\<close>: the API key check (lines 11--13) comes first, then the
  file, when it exists, is read with \<open>read_csv(header=0, skiprows=[1], index_col=0)\<close>
  (lines 29--31), the update of the theory DailyRun runs on the table read, and the
  result is written back with \<open>to_csv\<close> (line 63).  \<open>to_csv\<close> writes the index label
  (empty) followed by the column names as its first header line, then one more header line
  per further level of the column index.  The download's column index may have several
  levels (the parameter \<open>extra\<close> holds the header lines of the levels after the first):
  the first run (no file, line 60) writes the download as it is, so \<open>extra\<close> header
  lines follow the first one.  Every later run concatenates (line 57) the frame read back,
  whose columns are flat (\<open>header=0\<close>), with the download, and the concatenation has a
  flat column index, so the file is written with a single header line.  Column names are
  strings in this model: the tuple labels that the concatenation gives to the download's
  columns are not modelled.  Any exception leaves the file as it was.  Sequences of daily
  runs are lists of days; the reachable files form an inductive set.
\<close>

type_synonym 'n csv_file = "(string \<rightharpoonup> 'n) csv_line list"

datatype job_error = RunError run_error | CsvError csv_error

definition write_csv :: "string list list \<Rightarrow> 'n table \<Rightarrow> 'n csv_file" where
  "write_csv extra t = to_csv_lines (([] # tbl_columns t) # extra) (tbl_rows t)"

definition csv_columns :: "'n csv_file \<Rightarrow> string list" where
  "csv_columns lines = (case lines of HeaderLine (_ # cols) # _ \<Rightarrow> cols | _ \<Rightarrow> [])"

definition read_csv_table :: "'n csv_file \<Rightarrow> csv_error + 'n table" where
  "read_csv_table lines =
     map_sum id (\<lambda>rows. \<lparr>tbl_columns = csv_columns lines, tbl_rows = rows\<rparr>) (read_csv_skip1 lines)"

definition daily_job ::
  "'n entsoe_api \<Rightarrow> string option \<Rightarrow> instant \<Rightarrow> int \<Rightarrow> string list list \<Rightarrow> 'n csv_file option \<Rightarrow>
   job_error option \<times> 'n csv_file option" where
  "daily_job api key now_utc tz_offset extra file =
     (if \<not> api_key_ok key then (Some (RunError MissingApiKey), file)
      else case (case file of None \<Rightarrow> Inr None | Some lines \<Rightarrow> map_sum id Some (read_csv_table lines)) of
        Inl e \<Rightarrow> (Some (CsvError e), file)
      | Inr stored \<Rightarrow>
          (case daily_update api key now_utc tz_offset stored of
             Inl e \<Rightarrow> (Some (RunError e), file)
           | Inr updated \<Rightarrow> (None, Some (write_csv (case file of None \<Rightarrow> extra | Some _ \<Rightarrow> []) updated))))"

definition file_rows :: "'n csv_file option \<Rightarrow> (string \<rightharpoonup> 'n) frame" where
  "file_rows f = (case f of None \<Rightarrow> [] | Some lines \<Rightarrow> List.map_filter data_row lines)"

text \<open>The script is run once a day (a scheduled job outside this repository); a sequence of
  runs is a list of the API client, key and clock of each day; the header lines of the
  download's further column levels are the same every day.\<close>

fun job_runs ::
  "('n entsoe_api \<times> string option \<times> instant \<times> int) list \<Rightarrow> string list list \<Rightarrow> 'n csv_file option \<Rightarrow>
   'n csv_file option" where
  "job_runs [] extra f = f"
| "job_runs ((api, key, now, tz) # days) extra f = job_runs days extra (snd (daily_job api key now tz extra f))"

fun job_runs_ok ::
  "('n entsoe_api \<times> string option \<times> instant \<times> int) list \<Rightarrow> string list list \<Rightarrow> 'n csv_file option \<Rightarrow> bool" where
  "job_runs_ok [] extra f = True"
| "job_runs_ok ((api, key, now, tz) # days) extra f =
     (fst (daily_job api key now tz extra f) = None \<and> job_runs_ok days extra (snd (daily_job api key now tz extra f)))"

inductive job_reachable :: "string list list \<Rightarrow> 'n csv_file option \<Rightarrow> bool" for extra where
  no_file: "job_reachable extra None"
| run: "job_reachable extra f \<Longrightarrow> job_reachable extra (snd (daily_job api key now tz extra f))"

text \<open>The provider assumption of the liveness property: every row the API returns is newer
  than the instant \<open>x\<close>.\<close>

definition newer_than :: "instant \<Rightarrow> 'n entsoe_api \<Rightarrow> bool" where
  "newer_than x api \<longleftrightarrow>
     (\<forall>s e g. query_generation api s e = Inr g \<longrightarrow> (\<forall>i \<in> fst ` set (tbl_rows g). x < i))"

subsection \<open>Reading back what was written\<close>

lemma map_filter_data_row: "List.map_filter data_row (to_csv_lines hs rows) = rows"
proof -
  have h: "List.map_filter data_row (map HeaderLine hs @ ls) = List.map_filter data_row ls" for ls
    by (induction hs) (simp_all add: map_filter_simps data_row_def)
  have d: "List.map_filter data_row (map (\<lambda>(t, r). DataLine t r) rows) = rows"
    by (induction rows) (auto simp: map_filter_simps data_row_def)
  show ?thesis by (simp only: to_csv_lines_def h d)
qed

lemma file_rows_write [simp]: "file_rows (Some (write_csv extra t)) = tbl_rows t"
  by (simp add: file_rows_def write_csv_def map_filter_data_row)

lemma read_write_csv:
  "read_csv_table (write_csv [] t) = Inr \<lparr>tbl_columns = tbl_columns t, tbl_rows = drop 1 (tbl_rows t)\<rparr>"
  "read_csv_table (write_csv [h1] t) = Inr t"
  by (simp_all add: read_csv_table_def write_csv_def read_csv_to_csv)
     (simp_all add: csv_columns_def to_csv_lines_def)

lemma daily_job_ok:
  assumes "daily_job api key now tz extra (Some lines) = (None, f')" "read_csv_table lines = Inr st"
  obtains new where "daily_update api key now tz (Some st) = Inr new" "f' = Some (write_csv [] new)"
  using assms by (auto simp: daily_job_def split: if_splits sum.splits)

lemma daily_job_cases:
  "snd (daily_job api key now tz extra f) = f \<or>
   (\<exists>st new. daily_update api key now tz st = Inr new \<and>
      snd (daily_job api key now tz extra f) = Some (write_csv (case f of None \<Rightarrow> extra | Some _ \<Rightarrow> []) new))"
  by (auto simp: daily_job_def split: sum.splits)

text \<open>Every file the job writes is the CSV image of a table, with the download's header
  lines when it is the first file and a single header line after.\<close>

lemma job_reachable_image:
  assumes "job_reachable extra f" and "f = Some lines"
  shows "\<exists>t e. (e = [] \<or> e = extra) \<and> lines = write_csv e t"
  using assms
proof (induction arbitrary: lines rule: job_reachable.induct)
  case (run f api key now tz)
  show ?case using daily_job_cases [of api key now tz extra f] run by (auto split: option.splits)
qed simp

lemma read_write_csv_short:
  "length e \<le> 1 \<Longrightarrow>
   read_csv_table (write_csv e t) = Inr \<lparr>tbl_columns = tbl_columns t, tbl_rows = drop (1 - length e) (tbl_rows t)\<rparr>"
  by (cases e) (auto simp: read_write_csv)

lemma newer_than_window_api:
  "\<forall>i \<in> fst ` set (tbl_rows gen). x < i \<Longrightarrow> newer_than x (window_api gen load)"
  by (auto simp: newer_than_def window_api_def)

lemma strictly_ascending_drop1:
  "strictly_ascending xs \<Longrightarrow> strictly_ascending (drop 1 xs)"
  by (cases xs) simp_all

lemma filter_prefix_drop1:
  assumes "strictly_ascending xs"
  shows "length (filter (\<lambda>p. fst p \<le> y) (drop 1 xs)) = length (filter (\<lambda>p. fst p \<le> y) xs) - 1"
proof (cases xs)
  case (Cons a rest)
  show ?thesis
  proof (cases "fst a \<le> y")
    case False
    then have "filter (\<lambda>p. fst p \<le> y) rest = []" using assms Cons by (force simp: filter_empty_conv)
    then show ?thesis using Cons False by simp
  qed (simp add: Cons)
qed simp

lemma flat_run_step:
  assumes run: "daily_job api key now tz extra (Some (write_csv [] t)) = (None, f')"
    and nt: "newer_than x api" and asc: "strictly_ascending (tbl_rows t)"
  shows "\<exists>t'. f' = Some (write_csv [] t') \<and> strictly_ascending (tbl_rows t') \<and>
    filter (\<lambda>p. fst p \<le> x) (tbl_rows t') = filter (\<lambda>p. fst p \<le> x) (drop 1 (tbl_rows t))"
proof -
  obtain new where u: "daily_update api key now tz (Some \<lparr>tbl_columns = tbl_columns t, tbl_rows = drop 1 (tbl_rows t)\<rparr>) = Inr new"
    and f: "f' = Some (write_csv [] new)"
    using run read_write_csv(1) by (rule daily_job_ok)
  from u obtain s e gen gs load res where g: "query_generation api s e = Inr gen"
    and sel: "select_columns production_types gen = Inr gs" and a: "assign_column ''Load'' load gs = Inr res"
    and new: "new = merge_tables (Some \<lparr>tbl_columns = tbl_columns t, tbl_rows = drop 1 (tbl_rows t)\<rparr>) res"
    by (rule daily_update_Inr)
  have "\<forall>i \<in> fst ` set (tbl_rows gen). x < i" using nt g unfolding newer_than_def by blast
  then have "\<forall>k \<in> fst ` set (tbl_rows res). x + 1 \<le> k" using daily_update_result_keys [OF sel a] by auto
  then have "filter (\<lambda>p. fst p \<le> x) (tbl_rows new) = filter (\<lambda>p. fst p \<le> x) (drop 1 (tbl_rows t))"
    using merge_update_old_rows [OF strictly_ascending_drop1 [OF asc], where s = "x + 1" and r = "tbl_rows res"]
    by (simp add: new merge_tables_def)
  moreover have "strictly_ascending (tbl_rows new)" by (simp add: new merge_tables_def merge_update_ascending_aux)
  ultimately show ?thesis using f by auto
qed

subsection \<open>Properties of the daily job\<close>

text \<open>
  C11 (safety: a failed run leaves the file untouched).  Whenever the job stops with an
  error (missing key, unreadable CSV, NaT window bound, API failure, missing column, load
  misalignment), the file on disk is the one before the run: every error raises before
  \<open>to_csv\<close> on line 63.
\<close>

theorem job_error_keeps_file:
  "fst (daily_job api key now tz extra f) \<noteq> None \<Longrightarrow> snd (daily_job api key now tz extra f) = f"
  by (auto simp: daily_job_def split: sum.splits)

text \<open>
  C16 (liveness: a one-line header loses the history).  When the file has a single header
  line (a flat column index, as every file after the first run has), \<open>skiprows=[1]\<close>
  drops the oldest row at every read, whatever the column levels of the download.  A stored
  row at \<open>x\<close>, with \<open>n\<close> rows at or before it, is no longer in the file after \<open>n\<close>
  successful runs whose API only returns rows newer than \<open>x\<close>: old rows are never fetched
  again, and the merge keeps every row before the fetched range in order.
\<close>

theorem flat_header_row_lost:
  assumes "\<forall>d \<in> set days. newer_than x (fst d)"
    and "job_runs_ok days extra (Some (write_csv [] t))"
    and "strictly_ascending (tbl_rows t)"
    and "length (filter (\<lambda>p. fst p \<le> x) (tbl_rows t)) \<le> length days"
  shows "x \<notin> fst ` set (file_rows (job_runs days extra (Some (write_csv [] t))))"
  using assms
proof (induction days arbitrary: t)
  case Nil
  then have "filter (\<lambda>p. fst p \<le> x) (tbl_rows t) = []" by simp
  then show ?case by (force simp: filter_empty_conv)
next
  case (Cons d days)
  obtain api key now tz where d: "d = (api, key, now, tz)" by (cases d) auto
  obtain f' where run: "daily_job api key now tz extra (Some (write_csv [] t)) = (None, f')"
    using Cons.prems(2) d by (cases "daily_job api key now tz extra (Some (write_csv [] t))") auto
  obtain t' where f': "f' = Some (write_csv [] t')" and asc: "strictly_ascending (tbl_rows t')"
    and old: "filter (\<lambda>p. fst p \<le> x) (tbl_rows t') = filter (\<lambda>p. fst p \<le> x) (drop 1 (tbl_rows t))"
    using flat_run_step [OF run _ Cons.prems(3)] Cons.prems(1) d by auto
  have "length (filter (\<lambda>p. fst p \<le> x) (tbl_rows t')) \<le> length days"
    using old filter_prefix_drop1 [OF Cons.prems(3)] Cons.prems(4) by simp
  then show ?case using Cons.IH [OF _ _ asc] Cons.prems(1,2) d run f' by simp
qed

text \<open>
  C19 (invariant: every file the job writes reads back, flat from the second run).  When
  the download's column index has at most two levels, every file the job can reach from no
  file is the CSV image of a table, written with the download's header lines (first run)
  or with a single header line, and \<open>read_csv(header=0, skiprows=[1])\<close> reads it
  without error: the whole table under a two-line header, the table without its oldest row
  under a single one.  The next run either leaves the file as it is (an error) or writes it
  back with a single header line, since line 57 concatenates the flat frame read back.
\<close>

theorem job_reachable_readable:
  assumes "job_reachable extra f" and "f = Some lines" and "length extra \<le> 1"
  shows "(\<exists>t e. (e = [] \<or> e = extra) \<and> lines = write_csv e t \<and>
            read_csv_table lines = Inr \<lparr>tbl_columns = tbl_columns t, tbl_rows = drop (1 - length e) (tbl_rows t)\<rparr>) \<and>
         (snd (daily_job api key now tz extra f) = f \<or>
          (\<exists>t'. snd (daily_job api key now tz extra f) = Some (write_csv [] t')))"
proof
  obtain t e where e: "e = [] \<or> e = extra" and lines: "lines = write_csv e t"
    using job_reachable_image [OF assms(1,2)] by blast
  have "length e \<le> 1" using e assms(3) by auto
  then show "\<exists>t e. (e = [] \<or> e = extra) \<and> lines = write_csv e t \<and>
            read_csv_table lines = Inr \<lparr>tbl_columns = tbl_columns t, tbl_rows = drop (1 - length e) (tbl_rows t)\<rparr>"
    using e lines read_write_csv_short by blast
  show "snd (daily_job api key now tz extra f) = f \<or>
        (\<exists>t'. snd (daily_job api key now tz extra f) = Some (write_csv [] t'))"
    using daily_job_cases [of api key now tz extra f] assms(2) by auto
qed

theorem flat_header_row_lost_witness:
  "(0::int) \<notin> fst ` set (file_rows (job_runs
      [(window_api \<lparr>tbl_columns = production_types, tbl_rows = [(500000, Map.empty)]\<rparr> [(500000, 5::int)],
        Some ''key'', 1000000, 0)] []
      (Some (write_csv [] \<lparr>tbl_columns = production_types @ [''Load''],
                            tbl_rows = [(0, Map.empty), (100, [''Solar'' \<mapsto> 1])]\<rparr>))))"
proof (rule flat_header_row_lost)
  show "\<forall>d \<in> set [(window_api \<lparr>tbl_columns = production_types, tbl_rows = [(500000, Map.empty)]\<rparr> [(500000, 5::int)],
        Some ''key'', 1000000::int, 0::int)]. newer_than 0 (fst d)"
    by (simp add: newer_than_window_api)
  show "job_runs_ok [(window_api \<lparr>tbl_columns = production_types, tbl_rows = [(500000, Map.empty)]\<rparr> [(500000, 5::int)],
        Some ''key'', 1000000, 0)] []
      (Some (write_csv [] \<lparr>tbl_columns = production_types @ [''Load''],
                            tbl_rows = [(0, Map.empty), (100, [''Solar'' \<mapsto> 1])]\<rparr>))"
    by (simp add: daily_job_def read_write_csv daily_update_def api_key_ok_def fetch_window_def index_max_def
        window_api_def select_columns_def assign_column_def production_types_def five_days_def seconds_per_day_def)
qed simp_all

theorem job_reachable_readable_witness:
  "(\<exists>t e. (e = [] \<or> e = [[''Actual Aggregated'']]) \<and>
      the (snd (daily_job (window_api \<lparr>tbl_columns = production_types, tbl_rows = [(1590000000, [''Solar'' \<mapsto> 1::int])]\<rparr> [(1590000000, 1)])
          (Some ''key'') 1600000000 0 [[''Actual Aggregated'']] None)) = write_csv e t \<and>
      read_csv_table (the (snd (daily_job (window_api \<lparr>tbl_columns = production_types, tbl_rows = [(1590000000, [''Solar'' \<mapsto> 1::int])]\<rparr> [(1590000000, 1)])
          (Some ''key'') 1600000000 0 [[''Actual Aggregated'']] None))) =
        Inr \<lparr>tbl_columns = tbl_columns t, tbl_rows = drop (1 - length e) (tbl_rows t)\<rparr>) \<and>
   (snd (daily_job (window_api \<lparr>tbl_columns = production_types, tbl_rows = [(1600000000, [''Solar'' \<mapsto> 2::int])]\<rparr> [(1600000000, 2)])
        (Some ''key'') 1700000000 0 [[''Actual Aggregated'']]
        (snd (daily_job (window_api \<lparr>tbl_columns = production_types, tbl_rows = [(1590000000, [''Solar'' \<mapsto> 1::int])]\<rparr> [(1590000000, 1)])
          (Some ''key'') 1600000000 0 [[''Actual Aggregated'']] None))) =
      snd (daily_job (window_api \<lparr>tbl_columns = production_types, tbl_rows = [(1590000000, [''Solar'' \<mapsto> 1::int])]\<rparr> [(1590000000, 1)])
          (Some ''key'') 1600000000 0 [[''Actual Aggregated'']] None) \<or>
    (\<exists>t'. snd (daily_job (window_api \<lparr>tbl_columns = production_types, tbl_rows = [(1600000000, [''Solar'' \<mapsto> 2::int])]\<rparr> [(1600000000, 2)])
        (Some ''key'') 1700000000 0 [[''Actual Aggregated'']]
        (snd (daily_job (window_api \<lparr>tbl_columns = production_types, tbl_rows = [(1590000000, [''Solar'' \<mapsto> 1::int])]\<rparr> [(1590000000, 1)])
          (Some ''key'') 1600000000 0 [[''Actual Aggregated'']] None))) = Some (write_csv [] t')))"
proof (rule job_reachable_readable)
  let ?api = "window_api \<lparr>tbl_columns = production_types, tbl_rows = [(1590000000, [''Solar'' \<mapsto> 1::int])]\<rparr> [(1590000000, 1)]"
  show "job_reachable [[''Actual Aggregated'']]
    (snd (daily_job ?api (Some ''key'') 1600000000 0 [[''Actual Aggregated'']] None))"
    by (rule job_reachable.run [OF job_reachable.no_file])
  show "snd (daily_job ?api (Some ''key'') 1600000000 0 [[''Actual Aggregated'']] None) =
    Some (the (snd (daily_job ?api (Some ''key'') 1600000000 0 [[''Actual Aggregated'']] None)))"
    by (simp add: daily_job_def daily_update_def api_key_ok_def fetch_window_def start_2020_def
        window_api_def select_columns_def assign_column_def production_types_def merge_tables_def)
qed simp

theorem job_error_keeps_file_witness:
  "snd (daily_job (window_api \<lparr>tbl_columns = [], tbl_rows = []\<rparr> ([] :: int frame)) None 0 0 []
     (Some [HeaderLine [[], ''Solar'']])) = Some [HeaderLine [[], ''Solar'']]"
  by (rule job_error_keeps_file) (simp add: daily_job_def api_key_ok_def)

end
