(* ===== verification/Communities.thy ===== *)
theory Communities
  imports Complex_Main PdfDates "HOL-Library.Sublist"
begin

text \<open>
  The map of energy communities of \<^verbatim>\<open>src/stroumauer_interface.py\<close> (lines 297--343),
  built from the PDF text of the theory PdfDates.  The regular expression
  \<open>([A-Za-z\<dots>0-9\- ]+)\s+([\s\S]*?L-\d{4}[\s\S]*?)(date|date|date)\<close> is modelled as
  Python's backtracking matcher runs it: \<open>g1_try\<close> gives back characters of the greedy
  name from the longest run down, \<open>ws_try\<close> does the same for the greedy \<open>\s+\<close>, and
  \<open>lazy_post\<close>, \<open>lazy_date\<close> extend the two lazy parts one character at a time;
  \<open>community_findall\<close> restarts after each match as \<open>re.findall\<close> does (a
  \<^theory_text>\<open>function\<close> whose termination is proved by the length of the rest).  The
  character class and \<open>\s\<close> are those of Python on code points below 256.  The postcode
  is the first four-digit run of the first \<open>L-dddd\<close> of the seat
  (\<open>str.extract\<close> twice), the address table keeps the first row of each postcode
  (\<open>drop_duplicates\<close>), and the left merge with \<open>dropna\<close> keeps the communities
  that got coordinates.  The \<open>Date\<close> column, converted with \<open>errors='coerce'\<close> only
  for the hover text, is kept as the matched string.
\<close>

definition comm_class :: "char \<Rightarrow> bool" where
  "comm_class c =
     (let n = (of_char c :: nat) in
      (65 \<le> n \<and> n \<le> 90) \<or> (97 \<le> n \<and> n \<le> 122) \<or> (192 \<le> n \<and> n \<le> 255) \<or>
      (48 \<le> n \<and> n \<le> 57) \<or> n = 45 \<or> n = 32)"

definition is_space :: "char \<Rightarrow> bool" where
  "is_space c = ((of_char c :: nat) \<in> {9, 10, 11, 12, 13, 28, 29, 30, 31, 32, 133, 160})"

definition postcode_pattern :: "char_class list" where
  "postcode_pattern = [Lit CHR ''L'', Lit CHR ''-'', Digit, Digit, Digit, Digit]"

definition date_alt :: "string \<Rightarrow> string option" where
  "date_alt s = map_option (\<lambda>p. take (length p) s) (find (\<lambda>p. matches_at p s) date_patterns)"

fun lazy_date :: "string \<Rightarrow> (string \<times> string \<times> string) option" where
  "lazy_date [] = None"
| "lazy_date (c # s) =
     (case date_alt (c # s) of
        Some d \<Rightarrow> Some ([], d, drop (length d) (c # s))
      | None \<Rightarrow> map_option (\<lambda>(a, d, r). (c # a, d, r)) (lazy_date s))"

fun lazy_post :: "string \<Rightarrow> (string \<times> string \<times> string) option" where
  "lazy_post [] = None"
| "lazy_post (c # s) =
     (case (if matches_at postcode_pattern (c # s) then lazy_date (drop 6 (c # s)) else None) of
        Some (a, d, r) \<Rightarrow> Some (take 6 (c # s) @ a, d, r)
      | None \<Rightarrow> map_option (\<lambda>(a, d, r). (c # a, d, r)) (lazy_post s))"

text \<open>A reference for the two lazy parts: the first position where a predicate holds of the
  rest of the text, and the seat as the text up to the first date at least six characters
  after the first postcode.\<close>

fun first_at :: "(string \<Rightarrow> bool) \<Rightarrow> string \<Rightarrow> nat option" where
  "first_at P [] = None"
| "first_at P (c # s) = (if P (c # s) then Some 0 else map_option Suc (first_at P s))"

definition lazy_post_ref :: "string \<Rightarrow> (string \<times> string \<times> string) option" where
  "lazy_post_ref s =
     (case first_at (matches_at postcode_pattern) s of
        None \<Rightarrow> None
      | Some k \<Rightarrow>
          (let t = drop 6 (drop k s) in
           case first_at (\<lambda>u. date_alt u \<noteq> None) t of
             None \<Rightarrow> None
           | Some j \<Rightarrow>
               (case date_alt (drop j t) of
                  None \<Rightarrow> None
                | Some d \<Rightarrow> Some (take k s @ take 6 (drop k s) @ take j t, d, drop (length d) (drop j t)))))"

fun ws_try :: "nat \<Rightarrow> string \<Rightarrow> (string \<times> string \<times> string) option" where
  "ws_try 0 s = None"
| "ws_try (Suc w) s = (case lazy_post (drop (Suc w) s) of Some m \<Rightarrow> Some m | None \<Rightarrow> ws_try w s)"

fun g1_try :: "nat \<Rightarrow> string \<Rightarrow> (string \<times> string \<times> string \<times> string) option" where
  "g1_try 0 s = None"
| "g1_try (Suc g) s =
     (case ws_try (length (takeWhile is_space (drop (Suc g) s))) (drop (Suc g) s) of
        Some (g2, d, r) \<Rightarrow> Some (take (Suc g) s, g2, d, r)
      | None \<Rightarrow> g1_try g s)"

definition community_match :: "string \<Rightarrow> (string \<times> string \<times> string \<times> string) option" where
  "community_match s = g1_try (length (takeWhile comm_class s)) s"

function community_findall :: "string \<Rightarrow> (string \<times> string \<times> string) list" where
  "community_findall [] = []"
| "community_findall (c # s) =
     (case community_match (c # s) of
        Some (g1, g2, d, r) \<Rightarrow> (g1, g2, d) # community_findall r
      | None \<Rightarrow> community_findall s)"
  by pat_completeness auto
termination
proof (relation "measure length")
  have dt: "date_alt s = Some d \<Longrightarrow> length d = 10 \<and> d \<noteq> []" for s d
    by (auto simp: date_alt_def date_patterns_def slash_pattern_def dot_pattern_def iso_pattern_def
        matches_at_def split: if_splits)
  have ld: "lazy_date s = Some (a, d, r) \<Longrightarrow> length r < length s" for s a d r
  proof (induction s arbitrary: a)
    case (Cons c s) then show ?case using dt by (auto split: option.splits)
  qed simp
  have lp: "lazy_post s = Some (a, d, r) \<Longrightarrow> length r < length s" for s a d r
  proof (induction s arbitrary: a)
    case (Cons c s) then show ?case using ld [of "drop 5 s"] by (fastforce split: option.splits if_splits)
  qed simp
  have ws: "ws_try w s = Some (a, d, r) \<Longrightarrow> length r < length s" for w s a d r
    by (induction w) (auto split: option.splits dest!: lp)
  have g1: "g1_try g s = Some (n, a, d, r) \<Longrightarrow> length r < length s" for g s n a d r
    by (induction g arbitrary: n) (auto split: option.splits dest!: ws)
  show "\<And>c s x g1 y g2 z d r. community_match (c # s) = Some x \<Longrightarrow> (g1, y) = x \<Longrightarrow> (g2, z) = y \<Longrightarrow> (d, r) = z \<Longrightarrow>
     (r, c # s) \<in> measure length"
    by (auto simp: community_match_def dest!: g1)
qed auto

definition digits4_pattern :: "char_class list" where
  "digits4_pattern = [Digit, Digit, Digit, Digit]"

definition regex_search :: "char_class list \<Rightarrow> string \<Rightarrow> string option" where
  "regex_search p s = (case findall p s of [] \<Rightarrow> None | m # _ \<Rightarrow> Some m)"

record community =
  comm_name :: string
  comm_seat :: string
  comm_date :: string
  comm_postcode :: "string option"

definition extract_postcode :: "string \<Rightarrow> string option" where
  "extract_postcode seat =
     (case regex_search postcode_pattern seat of None \<Rightarrow> None | Some m \<Rightarrow> regex_search digits4_pattern m)"

definition community_frame :: "string \<Rightarrow> community list" where
  "community_frame text =
     map (\<lambda>(n, s, d). \<lparr>comm_name = n, comm_seat = s, comm_date = d, comm_postcode = extract_postcode s\<rparr>)
         (community_findall text)"

record post_address =
  code_postal :: string
  post_lat :: "real option"
  post_lon :: "real option"

fun duplicated_first :: "'k list \<Rightarrow> 'k list \<Rightarrow> bool list" where
  "duplicated_first seen [] = []"
| "duplicated_first seen (k # ks) = (k \<in> set seen) # duplicated_first (k # seen) ks"

definition drop_duplicates_first :: "('k \<times> 'v) list \<Rightarrow> ('k \<times> 'v) list" where
  "drop_duplicates_first xs = map snd (filter (Not \<circ> fst) (zip (duplicated_first [] (map fst xs)) xs))"

definition postcode_table :: "post_address list \<Rightarrow> (string option \<times> real option \<times> real option) list" where
  "postcode_table addrs =
     drop_duplicates_first
       (map (\<lambda>a. (regex_search digits4_pattern (code_postal a), post_lat a, post_lon a)) addrs)"

definition merge_left_postcode ::
  "community list \<Rightarrow> (string option \<times> real option \<times> real option) list \<Rightarrow>
   (community \<times> real option \<times> real option) list" where
  "merge_left_postcode left right =
     concat (map (\<lambda>c. case filter (\<lambda>r. fst r = comm_postcode c) right of
                        [] \<Rightarrow> [(c, None, None)]
                      | ms \<Rightarrow> map (\<lambda>r. (c, snd r)) ms) left)"

definition community_rows :: "community list \<Rightarrow> post_address list \<Rightarrow> (community \<times> real \<times> real) list" where
  "community_rows cs addrs =
     List.map_filter (\<lambda>(c, lat, lon). case (lat, lon) of (Some a, Some b) \<Rightarrow> Some (c, a, b) | _ \<Rightarrow> None)
       (merge_left_postcode cs (postcode_table addrs))"

datatype community_section = NoCommunityText | NoCommunities | CommunityMap "(community \<times> real \<times> real) list"

definition communities_section :: "string \<Rightarrow> post_address list \<Rightarrow> community_section" where
  "communities_section text addrs =
     (if text = [] then NoCommunityText
      else if community_findall text = [] then NoCommunities
      else CommunityMap (community_rows (community_frame text) addrs))"

definition community_columns :: "string list" where
  "community_columns =
     [''Community'', ''Si'' @ [CHR 0xE8] @ ''ge social'', ''Date'', ''Postcode'', ''postcode'', ''lat_wgs84'', ''lon_wgs84'']"

definition hover_columns :: "string list \<Rightarrow> string list" where
  "hover_columns cols =
     [''Postcode'', ''Date'', ''Si'' @ [CHR 0xE8] @ ''ge social''] @
     filter (\<lambda>c. c \<in> set cols)
       [''Nom de la Communaut'' @ [CHR 0xE9] @ '' '' @ [CHR 0xE9] @ ''nerg'' @ [CHR 0xE9] @ ''tique'',
        ''Date de la derni'' @ [CHR 0xE8] @ ''re notification'', ''Raison sociale'']"

subsection \<open>Searching a fixed-length pattern\<close>

lemma findall_first:
  "findall p s = m # ms \<Longrightarrow> list_all2 class_match p m \<and> sublist m s"
proof (induction p s arbitrary: m ms rule: findall.induct)
  case (2 p c cs)
  show ?case
  proof (cases "p \<noteq> [] \<and> matches_at p (c # cs)")
    case True
    then show ?thesis using "2.prems" by (auto simp: matches_at_def intro: sublist_take)
  next
    case False
    then show ?thesis using "2.prems" "2.IH"(2) by (auto simp: sublist_Cons_right)
  qed
qed simp

lemma findall_nonempty: "p \<noteq> [] \<Longrightarrow> matches_at p (drop i s) \<Longrightarrow> findall p s \<noteq> []"
proof (induction p s arbitrary: i rule: findall.induct)
  case (1 p)
  then show ?case by (simp add: matches_at_def)
next
  case (2 p c cs)
  show ?case
  proof (cases "matches_at p (c # cs)")
    case False
    then have "0 < i" using "2.prems" by (cases i) auto
    then show ?thesis using False "2.prems" "2.IH"(2) [of "i - 1"] by (cases i) auto
  qed (simp add: "2.prems")
qed

lemma matches_at_take_append: "matches_at p x \<Longrightarrow> matches_at p (take (length p) x @ y)"
  by (simp add: matches_at_def)

lemma extract_postcode_found:
  assumes "matches_at postcode_pattern (drop i seat)"
  shows "\<exists>p. extract_postcode seat = Some p \<and> length p = 4 \<and> list_all is_digit p \<and>
           sublist (''L-'' @ p) seat"
proof -
  obtain m ms where f: "findall postcode_pattern seat = m # ms"
    using findall_nonempty [OF _ assms] by (cases "findall postcode_pattern seat") (auto simp: postcode_pattern_def)
  from findall_first [OF f] obtain d1 d2 d3 d4 where
    m: "m = [CHR ''L'', CHR ''-'', d1, d2, d3, d4]" and ds: "list_all is_digit [d1, d2, d3, d4]"
    and sub: "sublist m seat"
    by (auto simp: postcode_pattern_def list_all2_Cons1)
  have "findall digits4_pattern m = [[d1, d2, d3, d4]]"
    using ds findall_whole [of digits4_pattern "[d1, d2, d3, d4]"]
    by (simp add: m digits4_pattern_def matches_at_def is_digit_def)
  then show ?thesis using f m ds sub by (simp add: extract_postcode_def regex_search_def)
qed

subsection \<open>Every matched record holds a postcode\<close>

lemma lazy_post_postcode:
  "lazy_post s = Some (a, d, r) \<Longrightarrow> \<exists>i. matches_at postcode_pattern (drop i a)"
proof (induction s arbitrary: a)
  case (Cons c s)
  show ?case
  proof (cases "matches_at postcode_pattern (c # s) \<and> lazy_date (drop 6 (c # s)) \<noteq> None")
    case True
    then obtain a' where a': "lazy_date (drop 6 (c # s)) = Some (a', d, r)" "a = take 6 (c # s) @ a'"
      using Cons.prems by (auto split: option.splits)
    have "length postcode_pattern = 6" by (simp add: postcode_pattern_def)
    then have "matches_at postcode_pattern (drop 0 a)"
      using True matches_at_take_append [of postcode_pattern "c # s" a'] a'(2) by simp
    then show ?thesis by blast
  next
    case False
    then obtain a' where "lazy_post s = Some (a', d, r)" "a = c # a'" using Cons.prems
      by (auto split: if_splits option.splits)
    then show ?thesis using Cons.IH by (metis drop_Suc_Cons)
  qed
qed simp

lemma ws_try_postcode: "ws_try w s = Some (a, d, r) \<Longrightarrow> \<exists>i. matches_at postcode_pattern (drop i a)"
  by (induction w) (auto split: option.splits dest: lazy_post_postcode)

lemma g1_try_postcode:
  "g1_try g s = Some (n, a, d, r) \<Longrightarrow> \<exists>i. matches_at postcode_pattern (drop i a)"
  by (induction g arbitrary: n) (auto split: option.splits dest: ws_try_postcode)

lemma community_findall_postcode:
  "(n, a, d) \<in> set (community_findall s) \<Longrightarrow> \<exists>i. matches_at postcode_pattern (drop i a)"
  by (induction s rule: community_findall.induct)
     (auto simp: community_match_def split: option.splits dest: g1_try_postcode)

subsection \<open>Geocoding by the first address of a postcode\<close>

lemma filter_duplicated_first:
  "filter (\<lambda>r. fst r = k) (map snd (filter (Not \<circ> fst) (zip (duplicated_first seen (map fst xs)) xs))) =
     (if k \<in> set seen then [] else case map_of xs k of None \<Rightarrow> [] | Some v \<Rightarrow> [(k, v)])"
  by (induction xs arbitrary: seen) (auto split: option.splits)

lemma filter_drop_duplicates_first:
  "filter (\<lambda>r. fst r = k) (drop_duplicates_first xs) = (case map_of xs k of None \<Rightarrow> [] | Some v \<Rightarrow> [(k, v)])"
  by (simp add: drop_duplicates_first_def filter_duplicated_first)

lemma map_of_map_find: "map_of (map (\<lambda>a. (f a, g a)) xs) k = map_option g (find (\<lambda>a. f a = k) xs)"
  by (induction xs) auto

lemma merge_left_postcode_table:
  "merge_left_postcode cs (postcode_table addrs) =
     map (\<lambda>c. case find (\<lambda>a. regex_search digits4_pattern (code_postal a) = comm_postcode c) addrs of
                None \<Rightarrow> (c, None, None)
              | Some a \<Rightarrow> (c, post_lat a, post_lon a)) cs"
  using map_of_map_find [of "\<lambda>a. regex_search digits4_pattern (code_postal a)" "\<lambda>a. (post_lat a, post_lon a)" addrs]
  by (induction cs) (auto simp: merge_left_postcode_def postcode_table_def filter_drop_duplicates_first
      split: option.splits)

lemma community_rows_iff:
  "(c, lat, lon) \<in> set (community_rows cs addrs) \<longleftrightarrow>
     c \<in> set cs \<and> (\<exists>a. find (\<lambda>a. regex_search digits4_pattern (code_postal a) = comm_postcode c) addrs = Some a \<and>
                         post_lat a = Some lat \<and> post_lon a = Some lon)"
  by (induction cs) (auto simp: community_rows_def merge_left_postcode_table map_filter_simps split: option.splits)

lemma community_frame_postcode:
  "c \<in> set (community_frame text) \<Longrightarrow> \<exists>i. matches_at postcode_pattern (drop i (comm_seat c))"
  by (auto simp: community_frame_def dest: community_findall_postcode)

lemma hover_columns_fixed:
  "hover_columns community_columns = [''Postcode'', ''Date'', ''Si'' @ [CHR 0xE8] @ ''ge social'']"
  by (simp add: hover_columns_def community_columns_def)

subsection \<open>Properties of the community map\<close>

text \<open>
  C29 (functional: geocoding).  Every community drawn on the map carries the four digits of
  an \<open>L-dddd\<close> postcode found in its seat, and its coordinates are those of the first row
  of \<^verbatim>\<open>addresses.csv\<close> whose \<open>code_postal\<close> has that postcode as its first
  four-digit run (\<open>drop_duplicates('postcode')\<close> keeps the first).
\<close>

theorem community_rows_geocoded:
  assumes "communities_section text addrs = CommunityMap rows" and "(c, lat, lon) \<in> set rows"
  shows "\<exists>p a. comm_postcode c = Some p \<and> length p = 4 \<and> list_all is_digit p \<and>
           sublist (''L-'' @ p) (comm_seat c) \<and>
           find (\<lambda>a. regex_search digits4_pattern (code_postal a) = Some p) addrs = Some a \<and>
           post_lat a = Some lat \<and> post_lon a = Some lon"
proof -
  have rows: "rows = community_rows (community_frame text) addrs"
    using assms(1) by (simp add: communities_section_def split: if_splits)
  then have c: "c \<in> set (community_frame text)"
    and a: "\<exists>a. find (\<lambda>a. regex_search digits4_pattern (code_postal a) = comm_postcode c) addrs = Some a \<and>
                post_lat a = Some lat \<and> post_lon a = Some lon"
    using assms(2) community_rows_iff by blast+
  have "comm_postcode c = extract_postcode (comm_seat c)"
    using c by (auto simp: community_frame_def)
  moreover obtain i where "matches_at postcode_pattern (drop i (comm_seat c))"
    using community_frame_postcode [OF c] by blast
  ultimately show ?thesis using a extract_postcode_found by fastforce
qed

text \<open>
  Records run together (a concrete case).  The regular expression does not stop a record at
  its own date: \<open>[A-Za-z\<dots>0-9\- ]+\<close> also matches digits, spaces and the hyphen of
  \<open>L-1234\<close>, and backtracking keeps the longest name that is still followed by a postcode
  and a date.  When a record's seat has no character outside that class, its name swallows
  its own address and its match runs into the next record: two communities become one row,
  placed at the second community's postcode.
\<close>

theorem communities_records_run_together:
  "communities_section
     (''Coop Sud L-1234 Lux 01/02/2023'' @ [newline] @ ''Enercoop, 3 rue Y L-5678 Esch 2023-05-04'')
     [\<lparr>code_postal = ''1234'', post_lat = Some 49, post_lon = Some 6\<rparr>,
      \<lparr>code_postal = ''5678'', post_lat = Some 50, post_lon = Some 5\<rparr>] =
   CommunityMap [(\<lparr>comm_name = ''Coop Sud L-1234 Lux'',
                   comm_seat = ''01/02/2023'' @ [newline] @ ''Enercoop, 3 rue Y L-5678 Esch '',
                   comm_date = ''2023-05-04'', comm_postcode = Some ''5678''\<rparr>, 50, 5)]"
  by code_simp

theorem community_rows_geocoded_witness:
  "\<exists>p a. comm_postcode \<lparr>comm_name = ''Coop'', comm_seat = ''L-1234 Lux '', comm_date = ''01/02/2023'',
                        comm_postcode = Some ''1234''\<rparr> = Some p \<and>
     find (\<lambda>a. regex_search digits4_pattern (code_postal a) = Some p)
       [\<lparr>code_postal = ''L-1234'', post_lat = Some 49, post_lon = Some 6\<rparr>] = Some a \<and>
     post_lat a = Some 49 \<and> post_lon a = Some 6"
proof -
  have h: "communities_section ''Coop L-1234 Lux 01/02/2023''
      [\<lparr>code_postal = ''L-1234'', post_lat = Some 49, post_lon = Some 6\<rparr>] =
    CommunityMap [(\<lparr>comm_name = ''Coop'', comm_seat = ''L-1234 Lux '', comm_date = ''01/02/2023'',
                    comm_postcode = Some ''1234''\<rparr>, 49, 6)]"
    by code_simp
  show ?thesis using community_rows_geocoded [OF h] by auto
qed

subsection \<open>The lazy parts against a reference\<close>

lemma first_at_Some: "first_at P s = Some j \<Longrightarrow> P (drop j s)"
  by (induction s arbitrary: j) (auto split: if_splits)

lemma first_at_None_drop: "first_at P s = None \<Longrightarrow> first_at P (drop n s) = None"
  by (induction s arbitrary: n) (auto simp: drop_Cons split: if_splits nat.split)

lemma lazy_date_first:
  "lazy_date s =
     (case first_at (\<lambda>t. date_alt t \<noteq> None) s of
        None \<Rightarrow> None
      | Some j \<Rightarrow> (case date_alt (drop j s) of None \<Rightarrow> None | Some d \<Rightarrow> Some (take j s, d, drop (length d) (drop j s))))"
  by (induction s) (auto split: option.splits)

lemma lazy_date_None: "lazy_date s = None \<Longrightarrow> first_at (\<lambda>t. date_alt t \<noteq> None) s = None"
  using first_at_Some [of "\<lambda>t. date_alt t \<noteq> None" s] by (auto simp: lazy_date_first split: option.splits)

lemma lazy_post_ref_at_postcode:
  assumes m: "matches_at postcode_pattern s"
  shows "lazy_post_ref s = map_option (\<lambda>(a, d, r). (take 6 s @ a, d, r)) (lazy_date (drop 6 s))"
proof -
  from m obtain c t where "s = c # t" by (cases s) (auto simp: matches_at_def postcode_pattern_def)
  with m have "first_at (matches_at postcode_pattern) s = Some 0" by simp
  then show ?thesis by (simp add: lazy_post_ref_def lazy_date_first Let_def split: option.split del: drop_drop)
qed

text \<open>
  C9 (equivalence: what the lazy parts match).  The backtracking of
  \<open>[\s\S]*?L-\d{4}[\s\S]*?(date)\<close> is the reference \<open>lazy_post_ref\<close>: the seat runs
  from the end of the whitespace to the first \<open>L-dddd\<close> of the rest of the text, and on
  to the first date that starts after that postcode; when no date follows the first
  postcode, no later postcode can be followed by one either, and the match fails here.
\<close>

theorem lazy_post_first_postcode: "lazy_post s = lazy_post_ref s"
proof (induction s)
  case Nil
  show ?case by (simp add: lazy_post_ref_def)
next
  case (Cons c s)
  show ?case
  proof (cases "matches_at postcode_pattern (c # s)")
    case True
    note r = lazy_post_ref_at_postcode [OF True]
    show ?thesis
    proof (cases "lazy_date (drop 6 (c # s))")
      case None
      then have none: "first_at (\<lambda>t. date_alt t \<noteq> None) (drop 6 (c # s)) = None" by (rule lazy_date_None)
      have "drop 6 (drop k s) = drop (Suc k) (drop 6 (c # s))" for k
      proof -
        have e: "Suc k + 6 = Suc (6 + k)" by simp
        show ?thesis by (simp only: drop_drop e drop_Suc_Cons)
      qed
      then have "first_at (\<lambda>t. date_alt t \<noteq> None) (drop 6 (drop k s)) = None" for k
        using first_at_None_drop [OF none] by (simp del: drop_drop)
      then have "lazy_post_ref s = None"
        by (auto simp: lazy_post_ref_def Let_def split: option.splits simp del: drop_drop)
      then show ?thesis using True None r Cons.IH by simp
    next
      case (Some m)
      then show ?thesis using True r by (cases m) simp
    qed
  next
    case False
    then show ?thesis using Cons.IH by (auto simp: lazy_post_ref_def Let_def split: option.splits simp del: drop_drop)
  qed
qed

end
