(* ===== verification/DisplayNames.thy ===== *)
theory DisplayNames
  imports Dashboard
begin

text \<open>
  The display clean-up of the dashboard's tables (\<^verbatim>\<open>src/stroumauer_interface.py\<close>
  lines 48--52 and 85--88): every text column goes through
  \<open>str.normalize('NFKD').str.encode('ascii', errors='ignore').str.decode('utf-8')\<close>.
  On code points below 256 the NFKD decomposition of a string is the concatenation of the
  decompositions of its characters, and dropping the non-ASCII code points leaves, per
  character, the ASCII part of its decomposition: \<open>latin1_fold\<close> is that table (the
  base letter of an accented letter, a space for the spacing accents and the no-break
  space, the digits of the superscripts and fractions, nothing for the rest).  The
  technology colours of the combined map (lines 59--64 and 90) are looked up in the
  normalised type column.
\<close>

definition latin1_fold :: "nat \<Rightarrow> string" where
  "latin1_fold n =
     (if n \<in> {160, 168, 175, 180, 184} then '' ''
      else if n = 170 then ''a'' else if n = 178 then ''2'' else if n = 179 then ''3''
      else if n = 185 then ''1'' else if n = 186 then ''o''
      else if n = 188 then ''14'' else if n = 189 then ''12'' else if n = 190 then ''34''
      else if 192 \<le> n \<and> n \<le> 197 then ''A'' else if n = 199 then ''C''
      else if 200 \<le> n \<and> n \<le> 203 then ''E'' else if 204 \<le> n \<and> n \<le> 207 then ''I''
      else if n = 209 then ''N'' else if 210 \<le> n \<and> n \<le> 214 then ''O''
      else if 217 \<le> n \<and> n \<le> 220 then ''U'' else if n = 221 then ''Y''
      else if 224 \<le> n \<and> n \<le> 229 then ''a'' else if n = 231 then ''c''
      else if 232 \<le> n \<and> n \<le> 235 then ''e'' else if 236 \<le> n \<and> n \<le> 239 then ''i''
      else if n = 241 then ''n'' else if 242 \<le> n \<and> n \<le> 246 then ''o''
      else if 249 \<le> n \<and> n \<le> 252 then ''u'' else if n = 253 \<or> n = 255 then ''y''
      else [])"

definition nfkd_ascii :: "char \<Rightarrow> string" where
  "nfkd_ascii c = (if (of_char c :: nat) < 128 then [c] else latin1_fold (of_char c))"

definition ascii_fold :: "string \<Rightarrow> string" where
  "ascii_fold s = concat (map nfkd_ascii s)"

definition display_commune_rows :: "(string \<times> real \<times> real \<times> real) list \<Rightarrow> (string \<times> real \<times> real \<times> real) list" where
  "display_commune_rows rows = map (\<lambda>(c, p, lat, lon). (ascii_fold c, p, lat, lon)) rows"

definition display_type_rows ::
  "((string \<times> string) \<times> real \<times> real \<times> real) list \<Rightarrow> ((string \<times> string) \<times> real \<times> real \<times> real) list" where
  "display_type_rows rows = map (\<lambda>((c, t), p, lat, lon). ((ascii_fold c, ascii_fold t), p, lat, lon)) rows"

definition type_colors :: "(string \<times> string) list" where
  "type_colors =
     [(pv_label, ''rgb(255, 215, 0)''), (''Eolienne'', ''rgb(135, 206, 235)''),
      (''Biomasse solide'', ''rgb(144, 238, 144)''), (''Hydro'', ''rgb(31, 119, 180)'')]"

definition color_map :: "string \<Rightarrow> string option" where
  "color_map = map_of type_colors"

lemma ascii_fold_energy_types:
  "map ascii_fold energy_types = [''Installation photovoltaique'', ''Eolienne'', ''Biomasse solide'', ''Hydro'']"
  by code_simp

lemma combined_rows_types: "i \<in> set (combined_rows sheet) \<Longrightarrow> inst_type i \<in> Some ` set energy_types"
  by (auto simp: combined_rows_def) (simp add: energy_types_def)

lemma power_by_commune_and_type_types:
  "((c, t), p, lat, lon) \<in> set (power_by_commune_and_type sheet addrs) \<Longrightarrow> t \<in> set energy_types"
  by (auto simp: power_by_commune_and_type_def merge_left_dropna_member group_sum_member commune_type_key_def
      split: option.splits dest!: combined_rows_types)

text \<open>
  C8 (functional: the solar colour is lost).  On the combined map, a point gets its
  technology's colour exactly when its type label has no accent: the type column is
  normalised to ASCII before plotting but \<open>color_map\<close> keeps the accented
  photovoltaic label (with the diaeresis of \<open>pv_label\<close>), so photovoltaic points fall back to Plotly's default
  colours while wind, biomass and hydro points are coloured as configured.
\<close>

theorem combined_map_solar_colour_lost:
  assumes "((c, t), p, lat, lon) \<in> set (display_type_rows (power_by_commune_and_type sheet addrs))"
  shows "color_map t = None \<longleftrightarrow> t = ascii_fold pv_label"
proof -
  obtain c0 t0 where r: "((c0, t0), p, lat, lon) \<in> set (power_by_commune_and_type sheet addrs)"
    and t: "t = ascii_fold t0"
    using assms by (auto simp: display_type_rows_def)
  from r have "t0 \<in> set energy_types" by (rule power_by_commune_and_type_types)
  then have "t \<in> set (map ascii_fold energy_types)" using t by simp
  then show ?thesis unfolding ascii_fold_energy_types
    by (auto simp: color_map_def type_colors_def pv_label_def ascii_fold_def nfkd_ascii_def latin1_fold_def)
qed

theorem combined_map_solar_colour_lost_witness:
  "color_map (ascii_fold pv_label) = None"
proof -
  have h: "((''Mersch'', ascii_fold pv_label), 15, 49, 6) \<in> set (display_type_rows (power_by_commune_and_type
      [\<lparr>inst_type = Some pv_label, inst_commune = Some ''Mersch'', inst_power = Some 15\<rparr>]
      [\<lparr>addr_commune = Some ''Mersch'', addr_lat = Some 49, addr_lon = Some 6\<rparr>]))"
    by code_simp
  show ?thesis using combined_map_solar_colour_lost [OF h] by simp
qed

end
