(* ===== verification/ProductionLoad.thy ===== *)
theory ProductionLoad
  imports DailyJob Dashboard
begin

text \<open>
  The dashboard's read of the CSV file the daily job writes
  (\<^verbatim>\<open>src/stroumauer_interface.py\<close> lines 113--121):
  \<open>pd.read_csv(csv_path, header=0, skiprows=[1], index_col=0)\<close>, the projection on the
  seven columns of \<open>prod_cols\<close> (a KeyError naming the missing ones), then
  \<open>pd.to_datetime\<close> of the index, in this order.  The production traces of the chart are
  the columns other than \<open>Load\<close> (line 190).
\<close>

definition prod_cols :: "string list" where
  "prod_cols =
     [''Load'', ''Hydro Run-of-river and poundage'', ''Wind Onshore'', ''Solar'', ''Biomass'',
      ''Fossil Gas'', ''Waste'']"

definition production_cols :: "string list" where
  "production_cols = filter (\<lambda>c. c \<noteq> ''Load'') prod_cols"

datatype prod_error = ProdCsvError csv_error | ProdKeyError "string list"

definition load_production :: "'n csv_file \<Rightarrow> prod_error + 'n table" where
  "load_production lines =
     (if lines = [] then Inl (ProdCsvError EmptyDataError)
      else let missing = filter (\<lambda>c. c \<notin> set (csv_columns lines)) prod_cols in
      if missing \<noteq> [] then Inl (ProdKeyError missing)
      else case read_csv_skip1 lines of
             Inl e \<Rightarrow> Inl (ProdCsvError e)
           | Inr rows \<Rightarrow> Inr \<lparr>tbl_columns = prod_cols, tbl_rows = map (\<lambda>(i, r). (i, r |` set prod_cols)) rows\<rparr>)"

lemma select_columns_columns: "select_columns cs t = Inr t' \<Longrightarrow> tbl_columns t' = cs"
  by (auto simp: select_columns_def Let_def split: if_splits)

lemma assign_column_columns: "assign_column c s t = Inr t' \<Longrightarrow> set (tbl_columns t') = insert c (set (tbl_columns t))"
  by (auto simp: assign_column_def add_column_def split: if_splits)

lemma daily_update_columns:
  assumes "daily_update api key now tz st = Inr new"
  shows "set production_types \<union> {''Load''} \<subseteq> set (tbl_columns new)"
proof -
  from assms obtain s e gen gs load res where sel: "select_columns production_types gen = Inr gs"
    and a: "assign_column ''Load'' load gs = Inr res" and new: "new = merge_tables st res"
    by (rule daily_update_Inr)
  have "set production_types \<union> {''Load''} \<subseteq> set (tbl_columns res)"
    using select_columns_columns [OF sel] assign_column_columns [OF a] by auto
  then show ?thesis by (auto simp: new merge_tables_def concat_columns_def split: option.splits)
qed

lemma job_reachable_columns:
  assumes "job_reachable extra f" and "f = Some lines"
  shows "\<exists>t e. (e = [] \<or> e = extra) \<and> lines = write_csv e t \<and>
           set production_types \<union> {''Load''} \<subseteq> set (tbl_columns t)"
  using assms
proof (induction arbitrary: lines rule: job_reachable.induct)
  case (run f api key now tz)
  from daily_job_cases [of api key now tz extra f] show ?case
  proof
    assume "snd (daily_job api key now tz extra f) = f"
    then show ?thesis using run by simp
  next
    assume "\<exists>st new. daily_update api key now tz st = Inr new \<and>
      snd (daily_job api key now tz extra f) = Some (write_csv (case f of None \<Rightarrow> extra | Some _ \<Rightarrow> []) new)"
    then obtain st new where u: "daily_update api key now tz st = Inr new"
      and w: "snd (daily_job api key now tz extra f) = Some (write_csv (case f of None \<Rightarrow> extra | Some _ \<Rightarrow> []) new)"
      by blast
    show ?thesis using run.prems w daily_update_columns [OF u] by (auto split: option.splits)
  qed
qed simp

lemma csv_columns_write: "csv_columns (write_csv extra t) = tbl_columns t"
  by (simp add: csv_columns_def write_csv_def to_csv_lines_def)

lemma prod_cols_stored: "set prod_cols \<subseteq> set production_types \<union> {''Load''}"
  by (simp add: prod_cols_def production_types_def)

end
