(* ===== verification/ChartData.thy ===== *)
theory ChartData
  imports Dashboard
begin

text \<open>
  The data behind the PV size bubble chart of \<^verbatim>\<open>src/stroumauer_interface.py\<close>
  (lines 345--365): the installed power of every photovoltaic row with a power
  (\<open>df[power_col].dropna().astype(float)\<close>, \<open>df\<close> being the photovoltaic rows of
  line 14), one bubble per value, all of marker size 8, at a vertical jitter drawn by
  \<open>np.random.uniform(-0.5, 0.5, size=len(pv_sizes))\<close> after \<open>np.random.seed(42)\<close>.
  The seeded generator is a parameter: a function from the number of draws to the draws.
\<close>

definition pv_sizes :: "installation list \<Rightarrow> real list" where
  "pv_sizes sheet = List.map_filter inst_power (filter (\<lambda>i. inst_type i = Some pv_label) sheet)"

definition pv_bubbles :: "(nat \<Rightarrow> real list) \<Rightarrow> installation list \<Rightarrow> (real \<times> real) list" where
  "pv_bubbles uniform sheet = zip (pv_sizes sheet) (uniform (length (pv_sizes sheet)))"

definition bubble_marker_sizes :: "(real \<times> real) list \<Rightarrow> nat list" where
  "bubble_marker_sizes bubbles = replicate (length bubbles) 8"

definition uniform_draws :: "(nat \<Rightarrow> real list) \<Rightarrow> bool" where
  "uniform_draws uniform \<longleftrightarrow> (\<forall>n. length (uniform n) = n \<and> (\<forall>y \<in> set (uniform n). - 1 / 2 \<le> y \<and> y < 1 / 2))"

lemma pv_bubbles_shape:
  assumes "uniform_draws uniform"
  shows "map fst (pv_bubbles uniform sheet) = pv_sizes sheet \<and>
         (\<forall>b \<in> set (pv_bubbles uniform sheet). - 1 / 2 \<le> snd b \<and> snd b < 1 / 2)"
  using assms by (auto simp: pv_bubbles_def uniform_draws_def dest: set_zip_rightD)

lemma pv_sizes_member:
  "x \<in> set (pv_sizes sheet) \<longleftrightarrow> (\<exists>i \<in> set sheet. inst_type i = Some pv_label \<and> inst_power i = Some x)"
  by (auto simp: pv_sizes_def map_filter_keys_iff) (metis (mono_tags, lifting) image_eqI mem_Collect_eq)

end
