(* ===== verification/DateWidgets.thy ===== *)
theory DateWidgets
  imports Dashboard
begin

text \<open>
  The two date pickers of the production chart (\<^verbatim>\<open>src/stroumauer_interface.py\<close>
  lines 127--135) and the filter they feed (lines 177--183).  \<open>st.date_input\<close> checks
  its arguments before drawing: a \<open>min_value\<close> above \<open>max_value\<close>, or a default
  \<open>value\<close> outside \<open>[min_value, max_value]\<close>, raises \<open>StreamlitAPIException\<close>
  (\<open>date_input\<close>; the Streamlit library is modelled from its documented checks, the
  day the user picks is a parameter).  The bounds are the dates of the oldest and newest
  rows, each in its own offset, the defaults those of \<open>default_range\<close>; an empty
  frame has no bounds (NaT) and the section fails.
\<close>

datatype widget_error = EmptyProduction | MinAboveMax int int | DateOutOfRange int int int

definition date_input :: "int \<Rightarrow> int \<Rightarrow> int \<Rightarrow> int option \<Rightarrow> widget_error + int" where
  "date_input value lo hi pick =
     (if hi < lo then Inl (MinAboveMax lo hi)
      else if value < lo \<or> hi < value then Inl (DateOutOfRange value lo hi)
      else Inr (case pick of None \<Rightarrow> value | Some d \<Rightarrow> d))"

definition production_view ::
  "int \<Rightarrow> int \<Rightarrow> index_kind \<Rightarrow> int option \<Rightarrow> int option \<Rightarrow> 'v frame \<Rightarrow> widget_error + bool \<times> 'v frame" where
  "production_view min_off now_off kind pick_start pick_end df =
     (case (index_min df, default_range now_off df) of
        (Some lo, Some (dstart, dend)) \<Rightarrow>
          (case date_input dstart (local_day min_off lo) dend pick_start of
             Inl e \<Rightarrow> Inl e
           | Inr sd \<Rightarrow>
               (case date_input dend (local_day min_off lo) dend pick_end of
                  Inl e \<Rightarrow> Inl e
                | Inr ed \<Rightarrow> Inr (filter_production (index_offset kind) sd ed df)))
      | _ \<Rightarrow> Inl EmptyProduction)"

lemma local_day_mono: "a \<le> b \<Longrightarrow> local_day off a \<le> local_day off b"
  by (simp add: local_day_def zdiv_mono1 seconds_per_day_def)

lemma production_view_ok:
  assumes "index_min df = Some lo" and "index_max df = Some now"
    and "local_day min_off lo \<le> local_day now_off (now - 7 * seconds_per_day)"
  shows "production_view min_off now_off kind ps pe df =
           Inr (filter_production (index_offset kind)
                  (case ps of None \<Rightarrow> local_day now_off (now - 7 * seconds_per_day) | Some d \<Rightarrow> d)
                  (case pe of None \<Rightarrow> local_day now_off now | Some d \<Rightarrow> d) df)"
proof -
  have "local_day now_off (now - 7 * seconds_per_day) \<le> local_day now_off now"
    by (rule local_day_mono) (simp add: seconds_per_day_def)
  then show ?thesis using assms
    by (simp add: production_view_def default_range_def date_input_def split: option.split)
qed

text \<open>
  C32 (error: at least a week of data).  The production chart section raises
  \<open>StreamlitAPIException\<close> exactly when the date of the newest row minus seven days is
  before the date of the oldest row: the default start date then lies outside the start
  picker's range.  A CSV holding less than a week of rows has no production chart.
\<close>

theorem production_view_short_history:
  assumes "index_min df = Some lo" and "index_max df = Some now"
  shows "(\<exists>e. production_view min_off now_off kind ps pe df = Inl e) \<longleftrightarrow>
           local_day now_off (now - 7 * seconds_per_day) < local_day min_off lo"
proof (cases "local_day min_off lo \<le> local_day now_off (now - 7 * seconds_per_day)")
  case True
  then show ?thesis using production_view_ok [OF assms True] by simp
next
  case False
  then show ?thesis using assms
    by (auto simp: production_view_def default_range_def date_input_def)
qed

theorem production_view_short_history_witness:
  "\<exists>e. production_view 7200 7200 (FixedOffsetIndex 7200) None None [(1719871200::int, ()), (1719957600, ())] = Inl e"
proof -
  have "local_day 7200 (1719957600 - 7 * seconds_per_day) < local_day 7200 1719871200"
    by (simp add: local_day_def seconds_per_day_def)
  then show ?thesis
    using production_view_short_history [of "[(1719871200::int, ()), (1719957600, ())]" 1719871200 1719957600 7200 7200]
    by (simp add: index_min_def index_max_def)
qed

end
