(* ===== verification/DummyApp.thy ===== *)
theory DummyApp
  imports Complex_Main Prelude
begin

text \<open>
  The legacy Streamlit demo \<^verbatim>\<open>src/old/app.py\<close>: \<open>get_dummy_production_data\<close> (lines
  7--18) builds 24 hourly rows ending at \<open>now\<close> (naive local time, in seconds) with five
  linearly varying production series, and line 28 melts the frame to long form for the
  stacked area chart.  The list \<open>times\<close> is reversed but the series are not, so the
  first (oldest) row carries the series' values at \<open>i = 0\<close>.  The frame is a list of rows,
  each the time and the values of the columns in order.
\<close>

definition dummy_sources :: "string list" where
  "dummy_sources = [''Solar'', ''Wind'', ''Hydro'', ''Biomass'', ''Fossil'']"

definition dummy_series :: "(string \<times> real list) list" where
  "dummy_series =
     [(''Solar'', map (\<lambda>i. 10 + real i * 0.5) [0..<24]),
      (''Wind'', map (\<lambda>i. 20 + real i * 0.3) [0..<24]),
      (''Hydro'', map (\<lambda>i. 15 + real i * 0.2) [0..<24]),
      (''Biomass'', map (\<lambda>i. 5 + real i * 0.1) [0..<24]),
      (''Fossil'', map (\<lambda>i. 30 - real i * 0.4) [0..<24])]"

definition dummy_times :: "instant \<Rightarrow> instant list" where
  "dummy_times now = rev (map (\<lambda>i. now - int i * 3600) [0..<24])"

definition get_dummy_production_data :: "instant \<Rightarrow> (instant \<times> (string \<times> real) list) list" where
  "get_dummy_production_data now =
     map (\<lambda>k. (dummy_times now ! k, map (\<lambda>(s, vs). (s, vs ! k)) dummy_series)) [0..<24]"

definition melt :: "string list \<Rightarrow> (instant \<times> (string \<times> real) list) list \<Rightarrow> (instant \<times> string \<times> real) list" where
  "melt sources df = concat (map (\<lambda>s. map (\<lambda>(t, r). (t, s, the (map_of r s))) df) sources)"

lemma dummy_times_nth: "k < 24 \<Longrightarrow> dummy_times now ! k = now - int (23 - k) * 3600"
  by (simp add: dummy_times_def rev_nth)

lemma dummy_times_ascending: "sorted_wrt (<) (map fst (get_dummy_production_data now))"
  by (simp add: get_dummy_production_data_def sorted_wrt_iff_nth_less dummy_times_nth)

lemma dummy_values_positive:
  "(t, s, v) \<in> set (melt dummy_sources (get_dummy_production_data now)) \<Longrightarrow> 0 < v"
  by (auto simp: melt_def get_dummy_production_data_def dummy_sources_def dummy_series_def)

lemma melt_length: "length (melt dummy_sources (get_dummy_production_data now)) = 120"
  by (simp add: melt_def get_dummy_production_data_def dummy_sources_def length_concat)

end
