(* ===== verification/Spec2Isabelle.thy ===== *)
theory Spec2Isabelle
  imports SqliteStore Scraper Dashboard PdfDates DailyJob Communities DisplayNames ProductionLoad ChartData DateWidgets DummyApp
begin

text \<open>
  Verification library of the Luxembourg electricity data scripts (\<^verbatim>\<open>src/\<close>).

  \<^bold>\<open>The program.\<close>  \<^verbatim>\<open>src/daily_data_lux.py\<close> is a daily job: it downloads
  generation per production type and total load from the ENTSO-E API for a window that
  overlaps the tail of the persisted CSV series, merges the download into the series
  (purging the overlap, dropping duplicated timestamps, sorting) and writes it back; it then
  downloads the ILR installations Excel file by scraping a public page for its link.
  \<^verbatim>\<open>src/first_of_month_data_lux.py\<close> downloads the ILR energy-communities PDF the
  same way, with a fallback link search.  \<^verbatim>\<open>src/stroumauer_interface.py\<close> is a
  Streamlit dashboard over these files: maps of installed power per commune and per
  technology, the production chart of the CSV with a date filter, and charts of the PDF.
  \<^verbatim>\<open>src/old/\<close> holds an earlier SQLite store of the same API data and demo scripts.

  \<^bold>\<open>Theories.\<close>
  \<^item> \<open>Prelude\<close>: a time-indexed pandas frame as \<open>'v frame\<close>, a list of
    (instant, row) pairs in frame order, instants as UTC seconds (\<open>int\<close>); last-wins
    lookup \<open>series_map\<close>; shared lemmas on association lists, in particular that two
    strictly ascending lists with the same lookup are equal (\<open>strictly_ascending_unique\<close>).
  \<^item> \<open>FrameOps\<close>: the pandas operations the merge uses, \<open>mask_select\<close>
    (\<open>df.loc[mask]\<close>), \<open>index_min\<close>/\<open>index_max\<close> (NaT is \<open>None\<close>),
    \<open>duplicated_keep_last\<close>, \<open>drop_duplicates_keep_last\<close>, \<open>sort_index\<close>.
  \<^item> \<open>Reconcile\<close>: the merge of \<^verbatim>\<open>daily_data_lux.py\<close> lines 51--60
    (\<open>remove_overlap\<close>, \<open>merge_update\<close>), its abstract specification as a map
    (\<open>reconcile_map\<close>: the persisted map minus the fetched range, overridden by the
    fetched map, emitted in key order by \<open>emit_sorted\<close>), the ordered-map reference
    implementation on a red-black tree (\<open>ordered_map_merge\<close>), and the window the spec
    describes (\<open>spec_reconcile\<close>).  Claims C1--C7 and C10: refinement of the map
    specification (a lemma shows the red-black tree merge computes the same frame),
    ascending timestamps (hence no duplicates, lemma \<open>merge_update_no_duplicates\<close>),
    fetched values win, rows outside the fetched range are kept, idempotence, two adjacent
    runs equal one run when no stored row lies between them and differ from it whenever one
    does, and the purge window of the code against the spec's: a stored row inside the spec's
    window but before the download survives the code and not the spec (lemmas give the keys
    of the merge, the behaviour on an empty download, and that the first run stores the
    download unsorted).
  \<^item> \<open>DailyRun\<close>: the whole run (lines 8--64) with the ENTSO-E client as an interface
    record \<open>entsoe_api\<close>, errors as \<open>run_error\<close> (missing key, NaT bound, API error,
    KeyError of the column projection, reindex error), the window computation
    \<open>fetch_window\<close>, the column projection \<open>select_columns\<close> and load alignment
    \<open>assign_column\<close>, and the CSV state \<open>'n table option\<close> threaded through
    \<open>run_daily\<close>.  Claims C12--C15 and C17: a missing production type is a KeyError,
    the load column is aligned by timestamp, history before the window survives a run, the
    first run's window, and an existing CSV with no rows blocks every later run (lemmas: an
    error leaves the stored table unchanged, the stored index stays ascending).
  \<^item> \<open>DailyJob\<close>: one execution of the script on the CSV file itself: the key check,
    \<open>read_csv_table\<close> (lines 29--31), the run of \<open>DailyRun\<close> and \<open>write_csv\<close>
    (line 63) composed in \<open>daily_job\<close>; a sequence of daily runs \<open>job_runs\<close> and the
    files reachable from no file \<open>job_reachable\<close>.  The first run writes the download's
    header lines (one per column level, \<open>extra\<close> after the first); every later run
    concatenates the flat frame read back (line 57) and writes a single header line.
    Claims C11, C16 and C19: an error leaves the file untouched; liveness of the loss with a
    one-line header (a stored row with \<open>n\<close> rows at or before it is gone after
    \<open>n\<close> successful runs that fetch only newer rows, by induction on the days); and the
    invariant, by rule induction, that every reachable file reads back without error, whole
    under the first run's two-line header and without its oldest row under a single one,
    and that the next run writes a single header line.
  \<^item> \<open>Scraper\<close>: the Excel and PDF downloads with the web as an interface record
    (\<open>get\<close>, \<open>anchors\<close>) and the disk as a map from paths to contents.  Claims
    C18 and C20--C22: only the target path is written by the Excel download (the same lemma
    for the PDF download is \<open>download_pdf_only_target\<close>; a lemma shows the disk is either
    updated with the fetched body or untouched), success under a working link, the PDF fallback, and the case in which
    a button without href blocks the fallback.
  \<^item> \<open>SqliteStore\<close>: \<^verbatim>\<open>src/old/database.py\<close>, the table as a list of rows with an
    AUTOINCREMENT counter, inserts failing with \<open>IntegrityError\<close> on a duplicate key or a
    NaN value, the nested insert loops (\<open>store_row\<close>, \<open>store_rows\<close>),
    \<open>fetch_entsoe_data\<close> and \<open>update_power_data\<close>; reachable database states as the
    inductive \<open>db_reachable\<close>.  Claims C23--C26: the table invariant (ids below the
    counter, keys unique, values present) holds in every reachable state (rule induction),
    updates never change stored rows (first writer wins), every storable value of a fetch is
    in the table afterwards, and the repeated hour of the
    October DST switch collides with the first one.
  \<^item> \<open>Dashboard\<close>: the data preparation of \<^verbatim>\<open>stroumauer_interface.py\<close>: an Excel
    row as the record \<open>installation\<close>, the group-by sum \<open>group_sum\<close> (NaN keys
    dropped, NaN summed as 0, keys ascending), \<open>mean_skipna\<close>, the left merge followed
    by \<open>dropna\<close> (\<open>merge_left_dropna\<close>), the frame of PV power per commune
    \<open>power_by_commune\<close> (lines 12--46, errors as \<open>dashboard_error\<close>; the code
    computes it and never draws it), the combined map of all technologies
    \<open>power_by_commune_and_type\<close> (lines 59--84, the map that is drawn), and the
    production chart's date filter \<open>filter_production\<close> with its defaults
    \<open>default_range\<close> (lines 127--183).  Claims C27, C28, C30 and C31: what a plotted
    point of the combined map is (a commune and type present in the rows, the summed power,
    the mean coordinates), the combined total counts each installation once, the date
    filter's exact range, and the default range hiding the newest rows (lemmas describe the
    rows of the per-commune frame, show it has one row per commune in ascending order, and
    that the merge on commune names is case-sensitive against the comment).
  \<^item> \<open>Cooperatives\<close>: the cumulative number of energy communities per month
    (\<^verbatim>\<open>stroumauer_interface.py\<close> lines 271--293) from the dates found in the PDF:
    \<open>month_counts\<close> (Counter and sort), \<open>cumsum\<close>, \<open>month_range\<close>
    (the month starts that \<open>pd.date_range(freq='MS')\<close> returns, as a list of month
    indices), \<open>ffill_lookup\<close> (\<open>reindex(method='ffill')\<close>, \<open>fillna(0)\<close>),
    composed in \<open>cumulative_months\<close> and \<open>cooperatives_chart\<close>.  Claim C33:
    every bar, filled-forward months included, counts the dates up to its month.
  \<^item> \<open>PdfDates\<close>: the PDF text (lines 238--249) through the PyPDF2 interface
    \<open>pdf_api\<close>, the date regexes of lines 254--261 as fixed-length character-class
    patterns scanned like \<open>re.findall\<close> (\<open>findall\<close>, a \<^theory_text>\<open>function\<close> with
    a length measure), and the parsing loop of lines 263--270 (\<open>parse_any\<close>: separators,
    Gregorian calendar, nanosecond Timestamp range).  Claim C34: a date written in any of
    the three formats is found and parsed back to itself (round trip).
  \<^item> \<open>CsvStore\<close>: the CSV file between two runs, \<open>to_csv\<close> (line 63) and
    \<open>read_csv(header=0, skiprows=[1])\<close> (lines 30--31) on lines of the file.  A lemma
    shows that the round trip holds for a file with two header lines, and that a file with
    one header line loses its oldest row on every read (claims C16 and C19 build on it).
  \<^item> \<open>Communities\<close>: the map of energy communities (lines 297--343): the community
    regular expression as Python's backtracking matcher runs it (\<open>g1_try\<close>,
    \<open>ws_try\<close>, \<open>lazy_post\<close>, \<open>lazy_date\<close>, \<open>community_findall\<close>), the
    postcode extraction, the address table deduplicated on the postcode, the left merge and
    \<open>dropna\<close> (\<open>community_rows\<close>), composed in \<open>communities_section\<close>.  Claims
    C9 and C29: the lazy parts equal a first-postcode, first-date reference
    (\<open>lazy_post_ref\<close>), and every plotted community carries an \<open>L-dddd\<close> postcode
    of its seat and the coordinates of the first address row of that postcode (a lemma shows
    on a concrete text that two records without a date between them run together into one
    map row placed at the second postcode).
  \<^item> \<open>DisplayNames\<close>: the NFKD-to-ASCII clean-up of the dashboard's text columns
    (lines 48--52 and 85--88) as a per-character table on code points below 256
    (\<open>latin1_fold\<close>, \<open>ascii_fold\<close>), and the technology colours of the combined map
    (\<open>color_map\<close>, lines 59--64 and 90).  Claim C8: a point of the combined map is
    coloured exactly when its type label has no accent, so the photovoltaic points lose
    their colour.
  \<^item> \<open>ProductionLoad\<close>: the dashboard's read of the CSV file (lines 113--121):
    \<open>read_csv\<close>, the projection on \<open>prod_cols\<close> with its KeyError, then the date
    conversion, in the code's order (\<open>load_production\<close>); the invariant that every file
    the job can reach holds the production and load columns (\<open>job_reachable_columns\<close>).
  \<^item> \<open>ChartData\<close>: the data of the PV size bubble chart (lines 345--365): one bubble
    per photovoltaic row with a power, its vertical jitter drawn by the seeded generator,
    which is a parameter (lemmas only).
  \<^item> \<open>DateWidgets\<close>: the two \<open>st.date_input\<close> pickers of the production chart
    (lines 127--135) with Streamlit's range checks, composed with the filter in
    \<open>production_view\<close>.  Claim C32: the section fails exactly when the data cover less
    than a week of dates.
  \<^item> \<open>DummyApp\<close>: the legacy demo \<^verbatim>\<open>src/old/app.py\<close>, its 24 hourly dummy rows
    and the melt to long form (lemmas: the times ascend, every value is positive, 120 long
    rows).  \<open>SqliteStore\<close> also holds \<^verbatim>\<open>src/old/database_retrieve.py\<close>
    (\<open>retrieve_power_data\<close>).
  \<^item> This theory: the properties across components.  Claim C35, from the PDF to the
    chart: the last bar of the cooperatives chart counts every date of every page (pages
    joined with newlines neither merge nor split dates).  Claim C36, from the daily job to
    the dashboard: every file the job can reach loads without error and the chart gets the
    file's rows, all of them under the first run's two-line header and all but the oldest
    under the single header line of every later run.

  \<^bold>\<open>Modelling choices.\<close>  pandas timestamps are UTC seconds; a zone is a UTC offset in
  seconds, and the local calendar day of an instant is \<open>local_day\<close>.  NaN and NaT are
  \<open>None\<close>.  Strings are lists of characters of code points below 256, as the accented
  labels of the sources are.  There are no loops without a bound in the code: the loops
  over lists are structural recursion; the regular expressions are matched by recursion on
  the rest of the text, with the backtracking order of Python's engine.  Errors and
  early exits are the left values of sum types; an exception caught by the code is the
  branch that handles it.  The loops over text are \<^theory_text>\<open>function\<close> definitions
  with their termination proved (\<open>findall\<close> and \<open>community_findall\<close> by the length
  of the rest of the text), so no fuel is needed.

  \<^bold>\<open>Not modelled.\<close>  The cell text of the CSV, the Excel and HTML formats and the
  PDF page decoding are behind the interfaces or taken as already parsed; the Streamlit and
  Plotly calls draw charts and hold no state; numpy's seeded generator is a parameter; the
  \<open>Date\<close> conversion of the community table (hover text only) is not modelled;
  \<^verbatim>\<open>src/old/first_steps.py\<close> does not parse (line 30 is not indented), so it
  has no behaviour to model.
\<close>

text \<open>C35. From the PDF to the chart: when the PDF opens and every page yields its text,
  the cooperatives chart is drawn and its last bar counts every date found on the pages,
  each page's dates counted once; joining the pages with newlines neither merges nor
  splits a date.\<close>

theorem pdf_cooperatives_total:
  assumes opened: "open_pdf api path = Inr pages"
    and pages: "map (extract_text api) pages = map (\<lambda>t. Inr (Some t)) texts"
    and found: "0 < sum_list (map (\<lambda>t. length (extract_dates t)) texts)"
  shows "\<exists>bars. cooperatives_section (fst (pdf_text api path)) = CoopBars bars \<and>
           snd (last bars) = sum_list (map (\<lambda>t. length (extract_dates t)) texts)"
proof -
  let ?text = "concat (map (\<lambda>t. t @ [newline]) texts)"
  have joined: "fst (pdf_text api path) = ?text"
    using collect_text_pages [OF pages, of "[]"] opened by (simp add: pdf_text_def)
  have n: "length (extract_dates ?text) = sum_list (map (\<lambda>t. length (extract_dates t)) texts)"
    using arg_cong [OF extract_dates_pages [of texts], of size] by (simp add: size_sum_list_mset)
  with found have ne: "extract_dates ?text \<noteq> []" by (metis length_greater_0_conv)
  have "?text \<noteq> []" using ne by (auto simp: extract_dates_def date_patterns_def)
  moreover have "\<forall>d \<in> set (extract_dates ?text). 1 \<le> fst (snd d) \<and> fst (snd d) \<le> 12"
    by (metis extract_dates_parsed parse_any_valid valid_date_month)
  ultimately show ?thesis
    using cumulative_months_last [OF ne] n
    by (simp add: joined cooperatives_section_def cooperatives_chart_def ne)
qed

theorem pdf_cooperatives_total_witness:
  "\<exists>bars. cooperatives_section (fst (pdf_text
      \<lparr>open_pdf = (\<lambda>_. Inr [1::nat, 2]),
       extract_text = (\<lambda>p. if p = 1 then Inr (Some ''CEL Beckerich 01/02/2023'') else Inr (Some ''CER Mersch 15.03.2023''))\<rparr>
      ''ilr.pdf'')) = CoopBars bars \<and>
    snd (last bars) = sum_list (map (\<lambda>t. length (extract_dates t)) [''CEL Beckerich 01/02/2023'', ''CER Mersch 15.03.2023''])"
proof (rule pdf_cooperatives_total)
  show "0 < sum_list (map (\<lambda>t. length (extract_dates t)) [''CEL Beckerich 01/02/2023'', ''CER Mersch 15.03.2023''])"
    by code_simp
qed code_simp+

text \<open>C36. From the daily job to the dashboard: when the download's column index has at
  most two levels, every CSV file the job can reach is loaded by the dashboard without
  error, and the production chart gets the rows of the file, each restricted to the seven
  columns of \<open>prod_cols\<close>: all of them under the first run's two-line header, all but
  the oldest one under the single header line of every later run.  Every run leaves the
  production and load columns in the file, so the projection of line 118 never raises.\<close>

theorem dashboard_loads_job_file:
  assumes "job_reachable extra (Some lines)" and "length extra \<le> 1"
  shows "\<exists>rows. (rows = file_rows (Some lines) \<or> rows = drop 1 (file_rows (Some lines))) \<and>
           load_production lines =
             Inr \<lparr>tbl_columns = prod_cols, tbl_rows = map (\<lambda>(i, r). (i, r |` set prod_cols)) rows\<rparr>"
proof -
  obtain t e where e: "e = [] \<or> e = extra" and lines: "lines = write_csv e t"
    and cols: "set production_types \<union> {''Load''} \<subseteq> set (tbl_columns t)"
    using job_reachable_columns [OF assms(1) refl] by blast
  have "filter (\<lambda>c. c \<notin> set (csv_columns lines)) prod_cols = []"
    using cols prod_cols_stored by (auto simp: lines csv_columns_write filter_empty_conv)
  moreover have "read_csv_skip1 lines = Inr (tbl_rows t) \<or> read_csv_skip1 lines = Inr (drop 1 (tbl_rows t))"
    using e assms(2) read_csv_to_csv by (cases e) (auto simp: lines write_csv_def)
  moreover have "lines \<noteq> []" by (simp add: lines write_csv_def to_csv_lines_def)
  ultimately show ?thesis by (auto simp: load_production_def lines)
qed

theorem dashboard_loads_job_file_witness:
  "\<exists>rows. (rows = file_rows (snd (daily_job (window_api \<lparr>tbl_columns = production_types,
        tbl_rows = [(1590000000, [''Solar'' \<mapsto> 1::int])]\<rparr> [(1590000000, 1)])
      (Some ''key'') 1600000000 0 [[''Actual Aggregated'']] None)) \<or>
      rows = drop 1 (file_rows (snd (daily_job (window_api \<lparr>tbl_columns = production_types,
        tbl_rows = [(1590000000, [''Solar'' \<mapsto> 1::int])]\<rparr> [(1590000000, 1)])
      (Some ''key'') 1600000000 0 [[''Actual Aggregated'']] None)))) \<and>
    load_production (the (snd (daily_job (window_api \<lparr>tbl_columns = production_types,
        tbl_rows = [(1590000000, [''Solar'' \<mapsto> 1::int])]\<rparr> [(1590000000, 1)])
      (Some ''key'') 1600000000 0 [[''Actual Aggregated'']] None))) =
   Inr \<lparr>tbl_columns = prod_cols, tbl_rows = map (\<lambda>(i, r). (i, r |` set prod_cols)) rows\<rparr>"
proof -
  let ?api = "window_api \<lparr>tbl_columns = production_types, tbl_rows = [(1590000000, [''Solar'' \<mapsto> 1::int])]\<rparr> [(1590000000, 1)]"
  let ?f = "snd (daily_job ?api (Some ''key'') 1600000000 0 [[''Actual Aggregated'']] None)"
  have r: "job_reachable [[''Actual Aggregated'']] ?f" by (rule job_reachable.run [OF job_reachable.no_file])
  have s: "?f = Some (the ?f)"
    by (simp add: daily_job_def daily_update_def api_key_ok_def fetch_window_def start_2020_def
        window_api_def select_columns_def assign_column_def production_types_def merge_tables_def)
  show ?thesis using dashboard_loads_job_file [of "[[''Actual Aggregated'']]" "the ?f"] r s by simp
qed

end
